theory Spec2Isabelle
  imports Main "HOL-Library.Word"
begin

section \<open>Strings and numbers of the host language\<close>

text \<open>
  A source string is a sequence of UTF-16 code units. The model covers the strings whose
  code units are below 256 and writes them as \<^typ>\<open>string\<close>, one \<^typ>\<open>char\<close> per code
  unit (so \<open>CHR 0xA0\<close> is the no-break space).
\<close>

definition isWhiteSpace :: "char \<Rightarrow> bool" where
  \<comment> \<open>what \<open>trim()\<close> strips and \<open>\\s\<close> matches, below code unit 256\<close>
  "isWhiteSpace c \<longleftrightarrow>
     c = CHR 0x09 \<or> c = CHR 0x0A \<or> c = CHR 0x0B \<or> c = CHR 0x0C \<or> c = CHR 0x0D
       \<or> c = CHR 0x20 \<or> c = CHR 0xA0"

definition isDigit :: "char \<Rightarrow> bool" where
  \<comment> \<open>\<open>\\d\<close>\<close>
  "isDigit c \<longleftrightarrow> (48::nat) \<le> of_char c \<and> of_char c \<le> (57::nat)"

definition trim :: "string \<Rightarrow> string" where
  "trim s = rev (dropWhile isWhiteSpace (rev (dropWhile isWhiteSpace s)))"

definition lowerChar :: "char \<Rightarrow> char" where
  "lowerChar c =
     (let n = (of_char c :: nat) in
      if (65 \<le> n \<and> n \<le> 90) \<or> (192 \<le> n \<and> n \<le> 222 \<and> n \<noteq> 215)
      then char_of (n + 32) else c)"

definition toLowerCase :: "string \<Rightarrow> string" where
  "toLowerCase s = map lowerChar s"

definition startsWith :: "string \<Rightarrow> string \<Rightarrow> bool" where
  "startsWith s p \<longleftrightarrow> take (length p) s = p"

definition endsWith :: "string \<Rightarrow> string \<Rightarrow> bool" where
  "endsWith s p \<longleftrightarrow> length p \<le> length s \<and> drop (length s - length p) s = p"

definition digitChar :: "nat \<Rightarrow> char" where
  "digitChar d = char_of (48 + d)"

fun showNat :: "nat \<Rightarrow> string" where
  "showNat n = (if n < 10 then [digitChar n] else showNat (n div 10) @ [digitChar (n mod 10)])"

declare showNat.simps [simp del]

text \<open>
  A value of type \<open>number\<close>. The integers that a number holds exactly and prints in full are
  those of magnitude below \<open>2^53\<close> (\<open>Number.isSafeInteger\<close>): \<open>SafeInteger\<close> is such a
  number, by its sign (\<open>True\<close> for negative, so that \<open>-0\<close> is a value) and its magnitude.
  Of any other value (a fraction, a magnitude from \<open>2^53\<close> on, \<open>NaN\<close>, an infinity)
  \<open>OtherNumber\<close> keeps what the code observes: whether \<open>> 0\<close> holds of it and the text that
  \<open>String\<close> and a template literal give for it, such as \<open>0.5\<close> or \<open>1e+21\<close>.
\<close>

datatype number = SafeInteger bool "53 word" | OtherNumber bool string

fun greaterThanZero :: "number \<Rightarrow> bool" where
  \<comment> \<open>\<open>n > 0\<close>\<close>
  "greaterThanZero (SafeInteger negative magnitude) = (\<not> negative \<and> magnitude \<noteq> 0)"
| "greaterThanZero (OtherNumber positive rendering) = positive"

fun numberToString :: "number \<Rightarrow> string" where
  \<comment> \<open>\<open>String(n)\<close> and \<open>${n}\<close>\<close>
  "numberToString (SafeInteger negative magnitude) =
     (if negative \<and> magnitude \<noteq> 0 then ''-'' else []) @ showNat (unat magnitude)"
| "numberToString (OtherNumber positive rendering) = rendering"

text \<open>
  \<open>/limit\\s+\\d+/i.test(s)\<close>: somewhere in \<open>s\<close> the letters \<open>limit\<close> in either case, then
  at least one white-space character, then a digit. Without the \<open>u\<close> flag the \<open>i\<close> flag
  lets a letter of the pattern match its two ASCII cases only. \<open>\\s+\<close> is greedy, and
  giving white space back never helps, because the character after it must be a digit.
\<close>

definition limitAtStart :: "string \<Rightarrow> bool" where
  "limitAtStart s \<longleftrightarrow>
     toLowerCase (take 5 s) = ''limit'' \<and>
     (let r = drop 5 s; r' = dropWhile isWhiteSpace r
      in r \<noteq> [] \<and> isWhiteSpace (hd r) \<and> r' \<noteq> [] \<and> isDigit (hd r'))"

fun hasLimit :: "string \<Rightarrow> bool" where
  "hasLimit [] = False"
| "hasLimit (c # cs) = (limitAtStart (c # cs) \<or> hasLimit cs)"


section \<open>Data model\<close>

subsection \<open>IConnection.ts\<close>

datatype dbType = postgresql | mysql | sqlite

record IConnection =
  conn_id :: string
  conn_name :: string
  conn_dbType :: dbType
  host :: "string option"
  port :: "nat option"
  user :: "string option"
  password :: "string option"
  database :: string

subsection \<open>Driver objects, errors and observable effects\<close>

text \<open>
  Every driver object (a pool, a client checked out of a pool, a MySQL connection, an
  SQLite database) is identified by the number of its creation, taken from \<open>nextHandle\<close>.
  A client checked out twice is two handles: a handle is one checkout.
\<close>

type_synonym handle = nat

datatype error = Error string | TypeError string

fun message :: "error \<Rightarrow> string" where
  "message (Error m) = m"
| "message (TypeError m) = m"

datatype jsval = JNull | JUndefined | JStr string | JNum number | JBool bool

definition toStr :: "jsval \<Rightarrow> string" where
  \<comment> \<open>\<open>String(val)\<close>\<close>
  "toStr v =
     (case v of
        JNull \<Rightarrow> ''null''
      | JUndefined \<Rightarrow> ''undefined''
      | JStr s \<Rightarrow> s
      | JNum n \<Rightarrow> numberToString n
      | JBool b \<Rightarrow> (if b then ''true'' else ''false''))"

fun isTruthy :: "jsval \<Rightarrow> bool" where
  \<comment> \<open>whether \<open>v || other\<close> is \<open>v\<close>; of the numbers only the zeros and \<open>NaN\<close> are not\<close>
  "isTruthy JNull = False"
| "isTruthy JUndefined = False"
| "isTruthy (JStr s) = (s \<noteq> [])"
| "isTruthy (JBool b) = b"
| "isTruthy (JNum (SafeInteger negative magnitude)) = (magnitude \<noteq> 0)"
| "isTruthy (JNum (OtherNumber positive rendering)) = (rendering \<noteq> ''NaN'')"

definition quoted :: "string \<Rightarrow> string" where
  "quoted s = CHR 0x27 # s @ [CHR 0x27]"

definition cannotRead :: "string \<Rightarrow> error" where
  \<comment> \<open>what reading the property \<open>p\<close> of \<open>undefined\<close> throws\<close>
  "cannotRead p = TypeError (''Cannot read properties of undefined (reading '' @ quoted p @ '')'')"

definition notAFunction :: "string \<Rightarrow> error" where
  \<comment> \<open>what calling \<open>client.m\<close> throws when the object has no method \<open>m\<close>\<close>
  "notAFunction m = TypeError (''client.'' @ m @ '' is not a function'')"

type_synonym row = "(string \<times> jsval) list"

definition getProp :: "row \<Rightarrow> string \<Rightarrow> jsval" where
  \<comment> \<open>\<open>row[col]\<close>\<close>
  "getProp r col = (case map_of r col of None \<Rightarrow> JUndefined | Some v \<Rightarrow> v)"

record field =
  name :: string
  ftype :: "nat option"       \<comment> \<open>\<open>field.type\<close>, set by mysql2\<close>
  dataTypeID :: "nat option"  \<comment> \<open>set by pg\<close>

record queryResult =
  result_rows :: "row list"      \<comment> \<open>\<open>rows\<close>\<close>
  result_fields :: "field list"  \<comment> \<open>\<open>fields\<close>\<close>

datatype fileContent = CsvText string | JsonStringify "row list"

datatype event =
    NewPool handle
  | CreateConnection handle
  | NewDatabase handle
  | PoolConnect handle
  | Query handle string
  | Release handle
  | EndCall handle
  | BeginTransactionCall handle
  | CommitCall handle
  | RollbackCall handle
  | RunCall handle string
  | AllCall handle string
  | CloseCall handle
  | ShowErrorMessage string
  | ShowWarningMessage string
  | ShowInformationMessage string
  | OutputClear
  | OutputShow
  | OutputAppendLine string
  | OutputTable "jsval list list"
  | ExecuteCommand string "string list"
  | ShowQuickPick "string list"
  | ShowSaveDialog
  | WriteFile string fileContent

subsection \<open>connectionManager.ts: DbClient and the registry\<close>

text \<open>
  \<open>mainClient\<close> is the handle of the object made by \<open>connect\<close>. Its class is fixed by
  \<open>dbType\<close> there (lines 54 to 87) and neither field is assigned again, so the tests
  \<open>instanceof Pool\<close>, \<open>'end' in mainClient\<close> and \<open>'close' in mainClient\<close> of \<open>disconnect\<close>
  are the three values of \<open>dbType\<close>.
\<close>

record DbClient =
  mainClient :: handle
  transactionClient :: "handle option"
  uncommittedQueries :: nat
  dbType :: dbType
  inTransaction :: bool

record world =
  activeConnections :: "string \<rightharpoonup> DbClient"
  lastQueryResult :: "queryResult option"
  trace :: "event list"
  nextHandle :: handle

definition initial :: world where
  "initial = \<lparr>activeConnections = Map.empty, lastQueryResult = None, trace = [], nextHandle = 0\<rparr>"

definition emit :: "event list \<Rightarrow> world \<Rightarrow> world" where
  "emit evs w = w\<lparr>trace := trace w @ evs\<rparr>"

definition setState :: "string \<Rightarrow> DbClient \<Rightarrow> world \<Rightarrow> world" where
  "setState connectionId st w = w\<lparr>activeConnections := (activeConnections w)(connectionId \<mapsto> st)\<rparr>"

definition deleteState :: "string \<Rightarrow> world \<Rightarrow> world" where
  "deleteState connectionId w = w\<lparr>activeConnections := (activeConnections w)(connectionId := None)\<rparr>"

text \<open>
  What the awaited calls of one operation answer. An operation reads the fields of the calls
  it makes; \<open>None\<close> is a call that resolves, \<open>Some e\<close> one that rejects with \<open>e\<close>. The
  three answers to the statement are typed by the driver that the branch issuing the call is
  written for.
\<close>

record pgResult =
  command :: string
  pg_rows :: "row list option"      \<comment> \<open>\<open>rows\<close>\<close>
  pg_fields :: "field list option"  \<comment> \<open>\<open>fields\<close>\<close>
  rowCount :: jsval                 \<comment> \<open>\<open>JNull\<close> when the command reports no count\<close>

datatype pgRaw = PgOne pgResult | PgMany "pgResult list"

datatype mysqlRaw =
    MysqlRows "row list" "field list"  \<comment> \<open>an array whose first element is an array\<close>
  | MysqlOther jsval                   \<comment> \<open>anything else, with what its \<open>affectedRows\<close> reads\<close>

record outcomes =
  openResult :: "error option"
  poolConnectResult :: "error option"
  beginResult :: "error option"
  commitResult :: "error option"
  rollbackResult :: "error option"
  endResult :: "error option"
  pgAnswer :: "error + pgRaw"
  mysqlAnswer :: "error + mysqlRaw"
  sqliteAnswer :: "error + row list"
  picksConnect :: bool

definition getClient :: "string \<Rightarrow> world \<Rightarrow> handle option" where
  "getClient connectionId w =
     (case activeConnections w connectionId of
        None \<Rightarrow> None
      | Some connectionState \<Rightarrow>
          (case transactionClient connectionState of
             Some client \<Rightarrow> Some client
           | None \<Rightarrow> Some (mainClient connectionState)))"

definition getConnectionState :: "string \<Rightarrow> world \<Rightarrow> DbClient option" where
  "getConnectionState connectionId w = activeConnections w connectionId"

definition connect :: "IConnection \<Rightarrow> outcomes \<Rightarrow> world \<Rightarrow> (error + DbClient) \<times> world" where
  "connect connection d w =
     (case activeConnections w (conn_id connection) of
        Some existing \<Rightarrow> (Inr existing, w)
      | None \<Rightarrow>
          let h = nextHandle w;
              w1 = emit (case conn_dbType connection of
                           postgresql \<Rightarrow> [NewPool h, Query h ''SELECT 1'']
                         | mysql \<Rightarrow> [CreateConnection h]
                         | sqlite \<Rightarrow> [NewDatabase h])
                        (w\<lparr>nextHandle := Suc h\<rparr>)
          in (case openResult d of
                Some error \<Rightarrow>
                  (Inl error,
                   emit [ShowErrorMessage
                           (''Failed to connect to '' @ conn_name connection @ '': '' @ message error)] w1)
              | None \<Rightarrow>
                  let connectionState =
                        \<lparr>mainClient = h, transactionClient = None, uncommittedQueries = 0,
                         dbType = conn_dbType connection, inTransaction = False\<rparr>
                  in (Inr connectionState, setState (conn_id connection) connectionState w1)))"

text \<open>
  \<open>disconnect\<close> has no handler: a rejected \<open>end()\<close> leaves through the \<open>await\<close>, before
  line 113. \<open>close()\<close> of SQLite is called without a callback and is not awaited.
\<close>

definition disconnect :: "string \<Rightarrow> outcomes \<Rightarrow> world \<Rightarrow> (error + unit) \<times> world" where
  "disconnect connectionId d w =
     (case activeConnections w connectionId of
        None \<Rightarrow> (Inr (), w)
      | Some connectionState \<Rightarrow>
          let w1 = (case transactionClient connectionState of
                      Some client \<Rightarrow>
                        setState connectionId (connectionState\<lparr>transactionClient := None\<rparr>)
                          (emit [Release client] w)
                    | None \<Rightarrow> w)
          in (case dbType connectionState of
                postgresql \<Rightarrow>
                  (let w2 = emit [EndCall (mainClient connectionState)] w1
                   in case endResult d of
                        Some error \<Rightarrow> (Inl error, w2)
                      | None \<Rightarrow> (Inr (), deleteState connectionId w2))
              | mysql \<Rightarrow>
                  (let w2 = emit [EndCall (mainClient connectionState)] w1
                   in case endResult d of
                        Some error \<Rightarrow> (Inl error, w2)
                      | None \<Rightarrow> (Inr (), deleteState connectionId w2))
              | sqlite \<Rightarrow>
                  (Inr (), deleteState connectionId (emit [CloseCall (mainClient connectionState)] w1))))"

definition beginTransaction :: "string \<Rightarrow> outcomes \<Rightarrow> world \<Rightarrow> (error + unit) \<times> world" where
  "beginTransaction connectionId d w =
     (case getConnectionState connectionId w of
        None \<Rightarrow> (Inr (), w)
      | Some connectionState \<Rightarrow>
          if inTransaction connectionState then (Inr (), w)
          else
            (case dbType connectionState of
               postgresql \<Rightarrow>
                 (let w1 = emit [PoolConnect (mainClient connectionState)] w
                  in case poolConnectResult d of
                       Some error \<Rightarrow> (Inl error, w1)
                     | None \<Rightarrow>
                         (let client = nextHandle w1;
                              w2 = emit [Query client ''BEGIN''] (w1\<lparr>nextHandle := Suc client\<rparr>)
                          in case beginResult d of
                               Some error \<Rightarrow> (Inl error, w2)
                             | None \<Rightarrow>
                                 (Inr (),
                                  setState connectionId
                                    (connectionState\<lparr>transactionClient := Some client,
                                       inTransaction := True, uncommittedQueries := 0\<rparr>) w2)))
             | mysql \<Rightarrow>
                 (let w1 = emit [BeginTransactionCall (mainClient connectionState)] w
                  in case beginResult d of
                       Some error \<Rightarrow> (Inl error, w1)
                     | None \<Rightarrow>
                         (Inr (),
                          setState connectionId
                            (connectionState\<lparr>inTransaction := True, uncommittedQueries := 0\<rparr>) w1))
             | sqlite \<Rightarrow>
                 (let w1 = emit [RunCall (mainClient connectionState) ''BEGIN TRANSACTION''] w
                  in case beginResult d of
                       Some error \<Rightarrow> (Inl error, w1)
                     | None \<Rightarrow>
                         (Inr (),
                          setState connectionId
                            (connectionState\<lparr>inTransaction := True, uncommittedQueries := 0\<rparr>) w1))))"

text \<open>
  In \<open>commitTransaction\<close> and \<open>rollbackTransaction\<close> the cast
  \<open>connectionState.transactionClient as PoolClient\<close> checks nothing: with no client stored,
  \<open>client.query\<close> throws a TypeError (its text is that of Node).
\<close>

definition noClient :: error where
  "noClient = cannotRead ''query''"

definition commitTransaction :: "string \<Rightarrow> outcomes \<Rightarrow> world \<Rightarrow> (error + unit) \<times> world" where
  "commitTransaction connectionId d w =
     (case getConnectionState connectionId w of
        None \<Rightarrow> (Inr (), w)
      | Some connectionState \<Rightarrow>
          if \<not> inTransaction connectionState then (Inr (), w)
          else
            (case dbType connectionState of
               postgresql \<Rightarrow>
                 (case transactionClient connectionState of
                    None \<Rightarrow> (Inl noClient, w)
                  | Some client \<Rightarrow>
                      (let w1 = emit [Query client ''COMMIT''] w
                       in case commitResult d of
                            Some error \<Rightarrow> (Inl error, w1)
                          | None \<Rightarrow>
                              (Inr (),
                               setState connectionId
                                 (connectionState\<lparr>transactionClient := None,
                                    inTransaction := False, uncommittedQueries := 0\<rparr>)
                                 (emit [Release client] w1))))
             | mysql \<Rightarrow>
                 (let w1 = emit [CommitCall (mainClient connectionState)] w
                  in case commitResult d of
                       Some error \<Rightarrow> (Inl error, w1)
                     | None \<Rightarrow>
                         (Inr (),
                          setState connectionId
                            (connectionState\<lparr>inTransaction := False, uncommittedQueries := 0\<rparr>) w1))
             | sqlite \<Rightarrow>
                 (let w1 = emit [RunCall (mainClient connectionState) ''COMMIT''] w
                  in case commitResult d of
                       Some error \<Rightarrow> (Inl error, w1)
                     | None \<Rightarrow>
                         (Inr (),
                          setState connectionId
                            (connectionState\<lparr>inTransaction := False, uncommittedQueries := 0\<rparr>) w1))))"

definition rollbackTransaction :: "string \<Rightarrow> outcomes \<Rightarrow> world \<Rightarrow> (error + unit) \<times> world" where
  "rollbackTransaction connectionId d w =
     (case getConnectionState connectionId w of
        None \<Rightarrow> (Inr (), w)
      | Some connectionState \<Rightarrow>
          if \<not> inTransaction connectionState then (Inr (), w)
          else
            (case dbType connectionState of
               postgresql \<Rightarrow>
                 (case transactionClient connectionState of
                    None \<Rightarrow> (Inl noClient, w)
                  | Some client \<Rightarrow>
                      (let w1 = emit [Query client ''ROLLBACK''] w
                       in case rollbackResult d of
                            Some error \<Rightarrow> (Inl error, w1)
                          | None \<Rightarrow>
                              (Inr (),
                               setState connectionId
                                 (connectionState\<lparr>transactionClient := None,
                                    inTransaction := False, uncommittedQueries := 0\<rparr>)
                                 (emit [Release client] w1))))
             | mysql \<Rightarrow>
                 (let w1 = emit [RollbackCall (mainClient connectionState)] w
                  in case rollbackResult d of
                       Some error \<Rightarrow> (Inl error, w1)
                     | None \<Rightarrow>
                         (Inr (),
                          setState connectionId
                            (connectionState\<lparr>inTransaction := False, uncommittedQueries := 0\<rparr>) w1))
             | sqlite \<Rightarrow>
                 (let w1 = emit [RunCall (mainClient connectionState) ''ROLLBACK''] w
                  in case rollbackResult d of
                       Some error \<Rightarrow> (Inl error, w1)
                     | None \<Rightarrow>
                         (Inr (),
                          setState connectionId
                            (connectionState\<lparr>inTransaction := False, uncommittedQueries := 0\<rparr>) w1))))"


section \<open>queryRunner.ts\<close>

datatype autoCommit = Auto | Off | Smart

text \<open>
  The settings read by \<open>vscode.workspace.getConfiguration('sql-runner')\<close>, with the defaults
  of the calls already applied, and the table \<open>builtins\<close> imported from the package
  \<open>pg-types\<close> (type name and object identifier, in the order of its keys).
\<close>

record config =
  activeConnection :: "string option"
  connections :: "IConnection list"
  autoCommit :: autoCommit
  defaultQueryLimit :: number
  pg_types :: "(string \<times> nat) list"

definition notActive :: "IConnection \<Rightarrow> string" where
  "notActive c = ''Connection to '' @ quoted (conn_name c) @ '' is not active.''"

definition noActiveSet :: error where
  "noActiveSet = Error ''No active connection set. Please set one in the SQL Runner connection manager.''"

definition getDbClient :: "config \<Rightarrow> outcomes \<Rightarrow> world \<Rightarrow> (error + DbClient) \<times> world" where
  "getDbClient cfg d w =
     (case activeConnection cfg of
        None \<Rightarrow> (Inl noActiveSet, w)
      | Some activeConnectionId \<Rightarrow>
          if activeConnectionId = [] then (Inl noActiveSet, w)
          else
            (case find (\<lambda>c. conn_id c = activeConnectionId) (connections cfg) of
               None \<Rightarrow>
                 (Inl (Error (''Active connection with ID '' @ quoted activeConnectionId @ '' not found.'')), w)
             | Some activeConn \<Rightarrow>
                 (case getConnectionState (conn_id activeConn) w of
                    None \<Rightarrow>
                      (Inl (Error (notActive activeConn)),
                       emit (ShowErrorMessage (notActive activeConn) #
                             (if picksConnect d
                              then [ExecuteCommand ''sql-runner.connect'' [conn_id activeConn]]
                              else [])) w)
                  | Some connectionState \<Rightarrow> (Inr connectionState, w))))"

text \<open>
  The value of \<open>query\<close> when \<open>runQuery\<close> reaches line 55.
\<close>

definition withDefaultLimit :: "number \<Rightarrow> string \<Rightarrow> string" where
  "withDefaultLimit defaultLimit query =
     (if greaterThanZero defaultLimit \<and> startsWith (toLowerCase (trim query)) ''select''
           \<and> \<not> hasLimit query
      then (let trimmedQuery = trim query
            in if endsWith trimmedQuery '';''
               then butlast trimmedQuery @ '' LIMIT '' @ numberToString defaultLimit @ '';''
               else trimmedQuery @ '' LIMIT '' @ numberToString defaultLimit)
      else query)"

subsection \<open>Dispatch to the driver (lines 107 to 129)\<close>

text \<open>
  The branch is chosen by the \<open>dbType\<close> of the profile in the settings, which may have been
  edited since \<open>connect\<close>; the object called is \<open>transactionClient || mainClient\<close> of the
  entry. A transaction client is a client of a PostgreSQL pool, and the main client is of the
  driver named by the entry's own \<open>dbType\<close>. An SQLite database has neither \<open>query\<close> nor
  \<open>connect\<close>, and none of a pool, a pool client and a MySQL connection has \<open>all\<close>: such a
  call throws a TypeError and reaches no driver. A pool, a pool client and a MySQL connection
  all have \<open>query\<close> and \<open>connect\<close>; for these the answer, as the branch reads it, is the
  field of \<open>outcomes\<close> that belongs to the branch.
\<close>

datatype raw = RawPg pgRaw | RawMysql mysqlRaw | RawSqlite "row list"

definition driverOf :: "DbClient \<Rightarrow> dbType" where
  \<comment> \<open>the driver of the object \<open>transactionClient || mainClient\<close>\<close>
  "driverOf connectionState =
     (case transactionClient connectionState of
        Some client \<Rightarrow> postgresql
      | None \<Rightarrow> dbType connectionState)"

definition dispatch ::
  "dbType \<Rightarrow> DbClient \<Rightarrow> handle \<Rightarrow> string \<Rightarrow> outcomes \<Rightarrow> world \<Rightarrow> (error + raw) \<times> world" where
  "dispatch dbTy connectionState client query d w =
     (case dbTy of
        postgresql \<Rightarrow>
          if inTransaction connectionState
          then (if driverOf connectionState = sqlite then (Inl (notAFunction ''query''), w)
                else (map_sum id RawPg (pgAnswer d), emit [Query client query] w))
          else if driverOf connectionState = sqlite then (Inl (notAFunction ''connect''), w)
          else
            (let w1 = emit [PoolConnect client] w
             in case poolConnectResult d of
                  Some error \<Rightarrow> (Inl error, w1)
                | None \<Rightarrow>
                    (let poolClient = nextHandle w1
                     in (map_sum id RawPg (pgAnswer d),
                         emit [Query poolClient query, Release poolClient]
                           (w1\<lparr>nextHandle := Suc poolClient\<rparr>))))
      | mysql \<Rightarrow>
          if driverOf connectionState = sqlite then (Inl (notAFunction ''query''), w)
          else (map_sum id RawMysql (mysqlAnswer d), emit [Query client query] w)
      | sqlite \<Rightarrow>
          if driverOf connectionState = sqlite
          then (map_sum id RawSqlite (sqliteAnswer d), emit [AllCall client query] w)
          else (Inl (notAFunction ''all''), w))"

subsection \<open>Rows and fields of the answer (lines 143 to 176)\<close>

text \<open>
  The constructor of the answer is the \<open>dbType\<close> of the branch of \<open>dispatch\<close> that made the
  call, so the three branches on \<open>dbType\<close> are the three constructors. A summary is the
  message of a branch that ends in \<open>return\<close>.
\<close>

datatype extracted = Tabular "row list" "field list" | Summary string

definition plural :: "nat \<Rightarrow> string" where
  "plural n = (if n \<noteq> 1 then ''s'' else [])"

definition undefinedCommand :: error where
  "undefinedCommand = cannotRead ''command''"

definition rowsAndFields :: "raw \<Rightarrow> error + extracted" where
  "rowsAndFields result =
     (case result of
        RawSqlite rows \<Rightarrow>
          Inr (Tabular rows
                 (case rows of
                    [] \<Rightarrow> []
                  | r # _ \<Rightarrow> map (\<lambda>k. \<lparr>name = k, ftype = None, dataTypeID = None\<rparr>) (map fst r)))
      | RawMysql (MysqlRows rows flds) \<Rightarrow> Inr (Tabular rows flds)
      | RawMysql (MysqlOther affectedRows) \<Rightarrow>
          Inr (Summary
                 (''Query OK, '' @ toStr affectedRows @ '' row''
                    @ (if affectedRows \<noteq> JNum (SafeInteger False 1) then ''s'' else [])
                    @ '' affected.''))
      | RawPg pg \<Rightarrow>
          (case (case pg of
                   PgOne r \<Rightarrow> Some r
                 | PgMany rs \<Rightarrow> (if rs = [] then None else Some (last rs))) of
             None \<Rightarrow> Inl undefinedCommand
           | Some lastResult \<Rightarrow>
               if command lastResult = ''SELECT''
               then Inr (Tabular (case pg_rows lastResult of None \<Rightarrow> [] | Some rows \<Rightarrow> rows)
                                 (case pg_fields lastResult of None \<Rightarrow> [] | Some flds \<Rightarrow> flds))
               else Inr (Summary
                           (command lastResult @ '' '' @
                            toStr (if isTruthy (rowCount lastResult) then rowCount lastResult
                                   else JNum (SafeInteger False 0))))))"

subsection \<open>Display (lines 178 to 227)\<close>

definition mysqlTypeMap :: "(nat \<times> string) list" where
  "mysqlTypeMap =
     [(0, ''DECIMAL''), (1, ''TINY''), (2, ''SHORT''), (3, ''LONG''), (4, ''FLOAT''), (5, ''DOUBLE''),
      (7, ''TIMESTAMP''), (8, ''LONGLONG''), (9, ''INT24''), (10, ''DATE''), (11, ''TIME''),
      (12, ''DATETIME''), (13, ''YEAR''), (15, ''VARCHAR''), (16, ''BIT''), (245, ''JSON''),
      (246, ''NEWDECIMAL''), (247, ''ENUM''), (248, ''SET''), (249, ''TINY_BLOB''),
      (250, ''MEDIUM_BLOB''), (251, ''LONG_BLOB''), (252, ''BLOB''), (253, ''VAR_STRING''),
      (254, ''STRING''), (255, ''GEOMETRY'')]"

definition pgTypeMap :: "(string \<times> nat) list \<Rightarrow> nat \<rightharpoonup> string" where
  \<comment> \<open>a later key of \<open>pg_types\<close> overwrites an earlier one with the same identifier\<close>
  "pgTypeMap builtins = map_of (rev (map (\<lambda>(typeName, oid). (oid, typeName)) builtins))"

definition truthy :: "nat option \<Rightarrow> bool" where
  "truthy n \<longleftrightarrow> (case n of None \<Rightarrow> False | Some k \<Rightarrow> k \<noteq> 0)"

definition orElse :: "string option \<Rightarrow> string \<Rightarrow> string" where
  \<comment> \<open>\<open>table[key] || fallback\<close>\<close>
  "orElse v fallback = (case v of None \<Rightarrow> fallback | Some s \<Rightarrow> if s = [] then fallback else s)"

definition header :: "config \<Rightarrow> dbType \<Rightarrow> field \<Rightarrow> string" where
  "header cfg dbTy field =
     (let typeName =
            (if dbTy = mysql \<and> truthy (ftype field)
             then (case ftype field of
                     Some t \<Rightarrow> orElse (map_of mysqlTypeMap t) (''UNKNOWN('' @ showNat t @ '')'')
                   | None \<Rightarrow> [])
             else if dbTy = postgresql \<and> truthy (dataTypeID field)
             then (case dataTypeID field of
                     Some oid \<Rightarrow> orElse (pgTypeMap (pg_types cfg) oid) (''OID('' @ showNat oid @ '')'')
                   | None \<Rightarrow> [])
             else [])
      in if typeName \<noteq> [] then name field @ [CHR 0x0A] @ ''('' @ typeName @ '')'' else name field)"

definition cell :: "row \<Rightarrow> string \<Rightarrow> jsval" where
  "cell r col =
     (if getProp r col \<noteq> JNull \<and> getProp r col \<noteq> JUndefined then getProp r col else JStr ''NULL'')"

text \<open>
  \<open>table(data)\<close> of the package \<open>table\<close> (version 6) checks its argument before it draws
  anything, in \<open>validateTableData\<close>: there is a row, the first row has a cell, and row by row,
  the row has as many cells as the first and no cell's text, after every \<open>\\r\\n\<close> has been
  replaced by \<open>\\n\<close> (\<open>normalizeString\<close>), matches
  \<open>/[\\u0001-\\u0006\\u0008\\u0009\\u000B-\\u001A]/\<close>. The first check that fails throws an
  Error. The text that an accepted table is drawn as is kept as the data itself, in
  \<open>OutputTable\<close>.
\<close>

definition isControlCharacter :: "char \<Rightarrow> bool" where
  "isControlCharacter c \<longleftrightarrow>
     (let n = (of_char c :: nat)
      in (1 \<le> n \<and> n \<le> 6) \<or> n = 8 \<or> n = 9 \<or> (11 \<le> n \<and> n \<le> 26))"

fun normalizeString :: "string \<Rightarrow> string" where
  \<comment> \<open>\<open>input.replace(/\\r\\n/g, '\\n')\<close>\<close>
  "normalizeString (c # c' # s) =
     (if c = CHR 0x0D \<and> c' = CHR 0x0A then CHR 0x0A # normalizeString s
      else c # normalizeString (c' # s))"
| "normalizeString s = s"

fun validateRows :: "nat \<Rightarrow> jsval list list \<Rightarrow> error option" where
  "validateRows columnNumber [] = None"
| "validateRows columnNumber (r # rows) =
     (if length r \<noteq> columnNumber
      then Some (Error ''Table must have a consistent number of cells.'')
      else if list_ex (\<lambda>c. list_ex isControlCharacter (normalizeString (toStr c))) r
      then Some (Error ''Table data must not contain control characters.'')
      else validateRows columnNumber rows)"

definition validateTableData :: "jsval list list \<Rightarrow> error option" where
  "validateTableData rows =
     (case rows of
        [] \<Rightarrow> Some (Error ''Table must define at least one row.'')
      | first # _ \<Rightarrow>
          if length first = 0 then Some (Error ''Table must define at least one column.'')
          else validateRows (length first) rows)"

text \<open>
  Lines 178 to 227. \<open>table(data)\<close> is evaluated before \<open>appendLine\<close> is called with it, so when
  it throws, the result has been retained and nothing has been written yet.
\<close>

definition display ::
  "config \<Rightarrow> dbType \<Rightarrow> row list \<Rightarrow> field list \<Rightarrow> world \<Rightarrow> (error + unit) \<times> world" where
  "display cfg dbTy rows flds w =
     (let w1 = w\<lparr>lastQueryResult := Some \<lparr>result_rows = rows, result_fields = flds\<rparr>\<rparr>
      in if length flds = 0
         then (Inr (),
               emit [OutputAppendLine ''Query executed successfully, but no columns were returned.'',
                     ShowInformationMessage ''Query executed successfully.''] w1)
         else
           (let headers = map (header cfg dbTy) flds;
                columnNames = map name flds;
                data = map JStr headers # map (\<lambda>r. map (cell r) columnNames) rows
            in case validateTableData data of
                 Some error \<Rightarrow> (Inl error, w1)
               | None \<Rightarrow>
                   (Inr (),
                    emit [OutputTable data,
                          OutputAppendLine
                            (''('' @ showNat (length rows) @ '' row'' @ plural (length rows) @ '')''),
                          ShowInformationMessage
                            (''Query returned '' @ showNat (length rows) @ '' row''
                               @ plural (length rows) @ ''.'')]
                      w1)))"

subsection \<open>executeAndShowResults\<close>

text \<open>
  The body of the \<open>try\<close>, lines 83 to 227, after \<open>getDbClient\<close> has returned
  \<open>connectionState\<close>, in its three parts: \<open>applyPolicy\<close> is lines 95 to 104 and gives the
  value of \<open>connectionState\<close> afterwards, \<open>dispatch\<close> is lines 107 to 129, \<open>report\<close> is lines
  131 to 227. One statement runs at a time, so the object that the variable \<open>connectionState\<close>
  refers to is the registry's entry of the active connection during the whole call.
\<close>

definition applyPolicy ::
  "config \<Rightarrow> outcomes \<Rightarrow> string \<Rightarrow> IConnection \<Rightarrow> DbClient \<Rightarrow> world
     \<Rightarrow> (error + DbClient option) \<times> world" where
  "applyPolicy cfg d query activeConn connectionState w =
     (let isSelect = startsWith (toLowerCase (trim query)) ''select''
      in if autoCommit cfg = Off \<and> \<not> inTransaction connectionState
         then (case beginTransaction (conn_id activeConn) d w of
                 (Inl error, w1) \<Rightarrow> (Inl error, w1)
               | (Inr _, w1) \<Rightarrow> (Inr (getConnectionState (conn_id activeConn) w1), w1))
         else if autoCommit cfg = Smart \<and> \<not> isSelect \<and> \<not> inTransaction connectionState
         then (case beginTransaction (conn_id activeConn) d w of
                 (Inl error, w1) \<Rightarrow> (Inl error, w1)
               | (Inr _, w1) \<Rightarrow> (Inr (getConnectionState (conn_id activeConn) w1), w1))
         else (Inr (Some connectionState), w))"

definition report ::
  "config \<Rightarrow> IConnection \<Rightarrow> DbClient \<Rightarrow> raw \<Rightarrow> world \<Rightarrow> (error + unit) \<times> world" where
  "report cfg activeConn connectionState result w =
     (let w1 = (if inTransaction connectionState
                then setState (conn_id activeConn)
                       (connectionState\<lparr>uncommittedQueries :=
                          Suc (uncommittedQueries connectionState)\<rparr>) w
                else w);
          w2 = emit [ExecuteCommand ''sql-runner.setActiveConnection''
                       [conn_id activeConn, conn_name activeConn],
                     OutputClear, OutputShow] w1
      in case rowsAndFields result of
           Inl error \<Rightarrow> (Inl error, w2)
         | Inr (Summary msg) \<Rightarrow>
             (Inr (), emit [OutputAppendLine msg, ShowInformationMessage msg] w2)
         | Inr (Tabular rows flds) \<Rightarrow> display cfg (conn_dbType activeConn) rows flds w2)"

definition tryBlock ::
  "config \<Rightarrow> outcomes \<Rightarrow> string \<Rightarrow> DbClient \<Rightarrow> world \<Rightarrow> (error + unit) \<times> world" where
  "tryBlock cfg d query connectionState0 w =
     (case find (\<lambda>c. Some (conn_id c) = activeConnection cfg) (connections cfg) of
        None \<Rightarrow> (Inl (Error ''No active connection found.''), w)
      | Some activeConn \<Rightarrow>
          (case applyPolicy cfg d query activeConn connectionState0 w of
             (Inl error, w1) \<Rightarrow> (Inl error, w1)
           | (Inr None, w1) \<Rightarrow>
               (Inl (cannotRead (case conn_dbType activeConn of
                                   postgresql \<Rightarrow> ''inTransaction''
                                 | mysql \<Rightarrow> ''query''
                                 | sqlite \<Rightarrow> ''all'')), w1)
           | (Inr (Some connectionState), w1) \<Rightarrow>
               (case getClient (conn_id activeConn) w1 of
                  None \<Rightarrow>
                    (Inl (cannotRead (case conn_dbType activeConn of
                                        postgresql \<Rightarrow>
                                          if inTransaction connectionState then ''query''
                                          else ''connect''
                                      | mysql \<Rightarrow> ''query''
                                      | sqlite \<Rightarrow> ''all'')), w1)
                | Some client \<Rightarrow>
                    (case dispatch (conn_dbType activeConn) connectionState client query d w1 of
                       (Inl error, w2) \<Rightarrow> (Inl error, w2)
                     | (Inr result, w2) \<Rightarrow> report cfg activeConn connectionState result w2))))"

text \<open>
  The handler of lines 228 to 235. \<open>connectionState\<close> is what the variable holds there:
  nothing when \<open>getDbClient\<close> threw, else the entry as it is now. A rejected
  \<open>rollbackTransaction\<close> leaves the handler before either message is shown.
\<close>

definition catchBlock ::
  "config \<Rightarrow> outcomes \<Rightarrow> DbClient option \<Rightarrow> error \<Rightarrow> world \<Rightarrow> (error + unit) \<times> world" where
  "catchBlock cfg d connectionState error w =
     (case (connectionState, activeConnection cfg) of
        (Some st, Some activeConnectionId) \<Rightarrow>
          if inTransaction st \<and> activeConnectionId \<noteq> []
          then (case rollbackTransaction activeConnectionId d w of
                  (Inl rollbackError, w1) \<Rightarrow> (Inl rollbackError, w1)
                | (Inr _, w1) \<Rightarrow>
                    (Inr (), emit [ShowErrorMessage
                                     (''Query failed and transaction was rolled back: '' @ message error)] w1))
          else (Inr (), emit [ShowErrorMessage (''Query failed: '' @ message error)] w)
      | _ \<Rightarrow> (Inr (), emit [ShowErrorMessage (''Query failed: '' @ message error)] w))"

definition executeAndShowResults ::
  "config \<Rightarrow> outcomes \<Rightarrow> string \<Rightarrow> world \<Rightarrow> (error + unit) \<times> world" where
  "executeAndShowResults cfg d query w =
     (case getDbClient cfg d w of
        (Inl error, w1) \<Rightarrow> catchBlock cfg d None error w1
      | (Inr connectionState, w1) \<Rightarrow>
          (case tryBlock cfg d query connectionState w1 of
             (Inr u, w2) \<Rightarrow> (Inr u, w2)
           | (Inl error, w2) \<Rightarrow>
               catchBlock cfg d
                 (case activeConnection cfg of
                    None \<Rightarrow> None
                  | Some activeConnectionId \<Rightarrow> getConnectionState activeConnectionId w2)
                 error w2))"

definition runQuery :: "config \<Rightarrow> outcomes \<Rightarrow> string \<Rightarrow> world \<Rightarrow> (error + unit) \<times> world" where
  "runQuery cfg d text w = executeAndShowResults cfg d (withDefaultLimit (defaultQueryLimit cfg) text) w"

definition runSelectedQuery ::
  "config \<Rightarrow> outcomes \<Rightarrow> string option \<Rightarrow> world \<Rightarrow> (error + unit) \<times> world" where
  \<comment> \<open>the argument is the text of the selection, \<open>None\<close> without an active editor\<close>
  "runSelectedQuery cfg d selection w =
     (case selection of
        None \<Rightarrow> (Inr (), emit [ShowErrorMessage ''No active editor''] w)
      | Some query \<Rightarrow>
          if trim query = [] then (Inr (), emit [ShowErrorMessage ''No query selected''] w)
          else executeAndShowResults cfg d query w)"


section \<open>export.ts\<close>

datatype format = csv | json

fun join :: "string \<Rightarrow> string list \<Rightarrow> string" where
  "join sep [] = []"
| "join sep [x] = x"
| "join sep (x # y # ys) = x @ sep @ join sep (y # ys)"

definition doubleQuotes :: "string \<Rightarrow> string" where
  \<comment> \<open>\<open>val.replace(/"/g, '""')\<close>\<close>
  "doubleQuotes s = concat (map (\<lambda>c. if c = CHR 0x22 then [CHR 0x22, CHR 0x22] else [c]) s)"

definition csvField :: "row \<Rightarrow> string \<Rightarrow> string" where
  "csvField r col =
     (let val = getProp r col
      in if val = JNull \<or> val = JUndefined then []
         else (let s = toStr val
               in if CHR 0x22 \<in> set s \<or> CHR '','' \<in> set s
                  then [CHR 0x22] @ doubleQuotes s @ [CHR 0x22]
                  else s))"

definition toCSV :: "row list \<Rightarrow> string list \<Rightarrow> string" where
  "toCSV data columns =
     (let header = join '','' columns @ [CHR 0x0A];
          body = join [CHR 0x0A] (map (\<lambda>r. join '','' (map (csvField r) columns)) data)
      in header @ body)"

text \<open>
  What the user and the file system answer to \<open>exportLastResult\<close>: the labels picked in
  \<open>selectColumns\<close> (\<open>None\<close> when the pick is cancelled), the path chosen in the save dialog, and
  the outcome of \<open>writeFile\<close>. The object \<open>filteredRow\<close> is written as the list of its
  assignments and read through \<open>getProp\<close>.
\<close>

record exportOutcomes =
  selected :: "string list option"
  saveUri :: "string option"
  writeResult :: "error option"

definition exportLastResult :: "format \<Rightarrow> exportOutcomes \<Rightarrow> world \<Rightarrow> world" where
  "exportLastResult fmt x w =
     (case lastQueryResult w of
        None \<Rightarrow> emit [ShowWarningMessage ''No query result to export.''] w
      | Some lastResult \<Rightarrow>
          if length (result_rows lastResult) = 0
          then emit [ShowWarningMessage ''No query result to export.''] w
          else
            (let allColumns = map name (result_fields lastResult);
                 w1 = emit [ShowQuickPick allColumns] w
             in case selected x of
                  None \<Rightarrow> w1
                | Some selectedColumns \<Rightarrow>
                    if length selectedColumns = 0 then w1
                    else
                      (let filteredRows =
                             map (\<lambda>r. map (\<lambda>col. (col, getProp r col)) selectedColumns)
                                 (result_rows lastResult);
                           content = (case fmt of
                                        csv \<Rightarrow> CsvText (toCSV filteredRows selectedColumns)
                                      | json \<Rightarrow> JsonStringify filteredRows);
                           w2 = emit [ShowSaveDialog] w1
                       in case saveUri x of
                            None \<Rightarrow> w2
                          | Some fsPath \<Rightarrow>
                              (case writeResult x of
                                 None \<Rightarrow>
                                   emit [WriteFile fsPath content,
                                         ShowInformationMessage (''Successfully exported to '' @ fsPath)] w2
                               | Some error \<Rightarrow>
                                   emit [WriteFile fsPath content,
                                         ShowErrorMessage (''Failed to export file: '' @ message error)] w2))))"


section \<open>Sequences of operations\<close>

text \<open>
  The commands of the extension that reach the registry, each with what its awaited calls
  answer. A command that rejects leaves the world as it was at the rejection, and the next
  command runs from there.
\<close>

datatype op =
    OpConnect IConnection
  | OpDisconnect string
  | OpBeginTransaction string
  | OpCommitTransaction string
  | OpRollbackTransaction string
  | OpExecute config string

fun step :: "op \<times> outcomes \<Rightarrow> world \<Rightarrow> world" where
  "step (OpConnect connection, d) w = snd (connect connection d w)"
| "step (OpDisconnect connectionId, d) w = snd (disconnect connectionId d w)"
| "step (OpBeginTransaction connectionId, d) w = snd (beginTransaction connectionId d w)"
| "step (OpCommitTransaction connectionId, d) w = snd (commitTransaction connectionId d w)"
| "step (OpRollbackTransaction connectionId, d) w = snd (rollbackTransaction connectionId d w)"
| "step (OpExecute cfg query, d) w = snd (executeAndShowResults cfg d query w)"

definition run :: "(op \<times> outcomes) list \<Rightarrow> world \<Rightarrow> world" where
  "run ops w = fold step ops w"


section \<open>Properties of registry entries and of sequences\<close>

definition handleIffInTransaction :: "DbClient \<Rightarrow> bool" where
  \<comment> \<open>the transaction client is present exactly when PostgreSQL is in a transaction\<close>
  "handleIffInTransaction st \<longleftrightarrow>
     (transactionClient st \<noteq> None) = (dbType st = postgresql \<and> inTransaction st)"

definition handleOnlyInTransaction :: "DbClient \<Rightarrow> bool" where
  \<comment> \<open>a transaction client is present only when PostgreSQL is in a transaction\<close>
  "handleOnlyInTransaction st \<longleftrightarrow>
     transactionClient st = None \<or> (dbType st = postgresql \<and> inTransaction st)"

definition everyEntry :: "(DbClient \<Rightarrow> bool) \<Rightarrow> world \<Rightarrow> bool" where
  "everyEntry P w \<longleftrightarrow> (\<forall>connectionId st. activeConnections w connectionId = Some st \<longrightarrow> P st)"

fun disconnectsComplete :: "(op \<times> outcomes) list \<Rightarrow> world \<Rightarrow> bool" where
  \<comment> \<open>no \<open>disconnect\<close> of the sequence, run from \<open>w\<close>, ends in an error\<close>
  "disconnectsComplete [] w = True"
| "disconnectsComplete ((operation, d) # rest) w =
     ((case operation of
         OpDisconnect connectionId \<Rightarrow> fst (disconnect connectionId d w) = Inr ()
       | _ \<Rightarrow> True)
      \<and> disconnectsComplete rest (step (operation, d) w))"

definition releaseDiscipline :: "world \<Rightarrow> bool" where
  \<comment> \<open>no handle is released twice; a handle stored in an entry is unreleased and stored only there\<close>
  "releaseDiscipline w \<longleftrightarrow>
     (\<forall>h. count_list (trace w) (Release h) \<le> 1)
     \<and> (\<forall>h. Release h \<in> set (trace w) \<longrightarrow> h < nextHandle w)
     \<and> (\<forall>i st c. activeConnections w i = Some st \<longrightarrow> transactionClient st = Some c
            \<longrightarrow> c < nextHandle w \<and> Release c \<notin> set (trace w))
     \<and> (\<forall>i j st st' c. activeConnections w i = Some st \<longrightarrow> activeConnections w j = Some st'
            \<longrightarrow> transactionClient st = Some c \<longrightarrow> transactionClient st' = Some c \<longrightarrow> i = j)"

definition autoOnly :: "(op \<times> outcomes) list \<Rightarrow> bool" where
  \<comment> \<open>a sequence of statements, each issued under the policy \<open>auto\<close>\<close>
  "autoOnly ops \<longleftrightarrow>
     list_all (\<lambda>(operation, d). case operation of
                                   OpExecute cfg query \<Rightarrow> autoCommit cfg = Auto
                                 | _ \<Rightarrow> False) ops"

definition opensNone :: "world \<Rightarrow> world \<Rightarrow> bool" where
  \<comment> \<open>an entry of \<open>w'\<close> that is in a transaction was in a transaction in \<open>w\<close> already\<close>
  "opensNone w w' \<longleftrightarrow>
     (\<forall>i st'. activeConnections w' i = Some st' \<longrightarrow> inTransaction st'
        \<longrightarrow> (\<exists>st. activeConnections w i = Some st \<and> inTransaction st))"


definition printable :: "jsval \<Rightarrow> bool" where
  \<comment> \<open>the text of the cell has no character that \<open>table\<close> rejects\<close>
  "printable v \<longleftrightarrow> \<not> list_ex isControlCharacter (normalizeString (toStr v))"


section \<open>The default row limit in the words of the specification\<close>

definition selectLike :: "string \<Rightarrow> bool" where
  \<comment> \<open>the trimmed text starts with \<open>select\<close>, in any letter case\<close>
  "selectLike query \<longleftrightarrow> (\<exists>p rest. trim query = p @ rest \<and> toLowerCase p = ''select'')"

definition mentionsLimit :: "string \<Rightarrow> bool" where
  \<comment> \<open>the text contains \<open>limit\<close> in any letter case, then white space, then digits\<close>
  "mentionsLimit query \<longleftrightarrow>
     (\<exists>pre kw ws ds post. query = pre @ kw @ ws @ ds @ post \<and> toLowerCase kw = ''limit''
        \<and> ws \<noteq> [] \<and> (\<forall>c \<in> set ws. isWhiteSpace c)
        \<and> ds \<noteq> [] \<and> (\<forall>c \<in> set ds. isDigit c))"

definition readNat :: "string \<Rightarrow> nat" where
  \<comment> \<open>the number that a string of decimal digits denotes\<close>
  "readNat s = foldl (\<lambda>a c. 10 * a + (of_char c - 48)) 0 s"


section \<open>Concrete inputs\<close>

text \<open>
  Three profiles, the settings that list them, answers of the drivers, and worlds reached from
  the empty registry, on which the properties below are evaluated.
\<close>

definition pgProfile :: IConnection where
  "pgProfile = \<lparr>conn_id = ''pg'', conn_name = ''Orders'', conn_dbType = postgresql,
     host = Some ''localhost'', port = Some 5432, user = Some ''app'', password = Some ''pw'',
     database = ''orders''\<rparr>"

definition mysqlProfile :: IConnection where
  "mysqlProfile = \<lparr>conn_id = ''my'', conn_name = ''Shop'', conn_dbType = mysql,
     host = Some ''localhost'', port = Some 3306, user = Some ''app'', password = Some ''pw'',
     database = ''shop''\<rparr>"

definition sqliteProfile :: IConnection where
  "sqliteProfile = \<lparr>conn_id = ''lite'', conn_name = ''Notes'', conn_dbType = sqlite,
     host = None, port = None, user = None, password = None, database = ''notes.db''\<rparr>"

definition settings :: "string \<Rightarrow> autoCommit \<Rightarrow> config" where
  "settings active policy = \<lparr>activeConnection = Some active,
     connections = [pgProfile, mysqlProfile, sqliteProfile], autoCommit = policy,
     defaultQueryLimit = SafeInteger False 100, pg_types = [(''int4'', 23), (''text'', 25)]\<rparr>"

definition idField :: field where
  "idField = \<lparr>name = ''id'', ftype = Some 3, dataTypeID = Some 23\<rparr>"

definition allOk :: outcomes where
  \<comment> \<open>every call resolves; the statement is answered as a data-changing statement is\<close>
  "allOk = \<lparr>openResult = None, poolConnectResult = None, beginResult = None,
     commitResult = None, rollbackResult = None, endResult = None,
     pgAnswer = Inr (PgOne \<lparr>command = ''UPDATE'', pg_rows = Some [], pg_fields = Some [],
                              rowCount = JNum (SafeInteger False 1)\<rparr>),
     mysqlAnswer = Inr (MysqlOther JUndefined),
     sqliteAnswer = Inr [],
     picksConnect = False\<rparr>"

definition boom :: error where
  "boom = Error ''connection lost''"

definition duplicateKey :: error where
  "duplicateKey = Error ''duplicate key value violates unique constraint''"

definition cannotOpen :: outcomes where
  "cannotOpen = allOk\<lparr>openResult := Some boom\<rparr>"

definition cannotEnd :: outcomes where
  "cannotEnd = allOk\<lparr>endResult := Some boom\<rparr>"

definition cannotCommit :: outcomes where
  "cannotCommit = allOk\<lparr>commitResult := Some boom\<rparr>"

definition cannotRollback :: outcomes where
  "cannotRollback = allOk\<lparr>rollbackResult := Some boom\<rparr>"

definition noRows :: outcomes where
  \<comment> \<open>a SELECT that finds no row: PostgreSQL still reports the column\<close>
  "noRows = allOk\<lparr>pgAnswer := Inr (PgOne \<lparr>command = ''SELECT'', pg_rows = Some [],
                                             pg_fields = Some [idField],
                                             rowCount = JNum (SafeInteger False 0)\<rparr>)\<rparr>"

definition queryFails :: outcomes where
  "queryFails = allOk\<lparr>pgAnswer := Inl duplicateKey\<rparr>"

definition queryAndRollbackFail :: outcomes where
  "queryAndRollbackFail = allOk\<lparr>pgAnswer := Inl duplicateKey, rollbackResult := Some boom\<rparr>"

definition pgIdle :: DbClient where
  "pgIdle = \<lparr>mainClient = 0, transactionClient = None, uncommittedQueries = 0,
     dbType = postgresql, inTransaction = False\<rparr>"

definition twoUncommitted :: DbClient where
  "twoUncommitted = \<lparr>mainClient = 0, transactionClient = Some 1, uncommittedQueries = 2,
     dbType = postgresql, inTransaction = True\<rparr>"

definition liteIdle :: DbClient where
  "liteIdle = \<lparr>mainClient = 0, transactionClient = None, uncommittedQueries = 0,
     dbType = sqlite, inTransaction = False\<rparr>"

definition connectedPg :: world where
  "connectedPg = snd (connect pgProfile allOk initial)"

definition pgInTransaction :: world where
  "pgInTransaction = snd (beginTransaction ''pg'' allOk connectedPg)"

definition connectedLite :: world where
  "connectedLite = snd (connect sqliteProfile allOk initial)"

definition afterEmptySelect :: world where
  "afterEmptySelect =
     snd (executeAndShowResults (settings ''pg'' Auto) noRows ''select id from t'' connectedPg)"

definition toFile :: exportOutcomes where
  "toFile = \<lparr>selected = Some [''id''], saveUri = Some ''/tmp/result.csv'', writeResult = None\<rparr>"

definition threeUpdates :: "(op \<times> outcomes) list" where
  "threeUpdates =
     [(OpExecute (settings ''pg'' Auto) ''UPDATE t SET a = 1'', allOk),
      (OpExecute (settings ''pg'' Auto) ''DELETE FROM t'', allOk),
      (OpExecute (settings ''pg'' Auto) ''INSERT INTO t VALUES (1)'', allOk)]"

definition twoInserts :: world where
  \<comment> \<open>policy \<open>off\<close>: two statements have run in the transaction that the first one opened\<close>
  "twoInserts =
     run [(OpExecute (settings ''pg'' Off) ''INSERT INTO t VALUES (1)'', allOk),
          (OpExecute (settings ''pg'' Off) ''INSERT INTO t VALUES (2)'', allOk)] connectedPg"

definition secondInsert :: string where
  "secondInsert = ''INSERT INTO t VALUES (2)''"

definition deleteNotes :: string where
  "deleteNotes = ''DELETE FROM notes WHERE done = 1''"

definition selectNotes :: string where
  "selectNotes = ''select id, note from notes''"

definition oneNote :: outcomes where
  "oneNote = allOk\<lparr>sqliteAnswer :=
     Inr [[(''id'', JNum (SafeInteger False 1)), (''note'', JStr ''milk'')]]\<rparr>"

definition tabbedNote :: outcomes where
  \<comment> \<open>a note with a tab character in it\<close>
  "tabbedNote = allOk\<lparr>sqliteAnswer := Inr [[(''note'', JStr [CHR ''a'', CHR 0x09, CHR ''b''])]]\<rparr>"


section \<open>Verified properties\<close>

text \<open>Unfolding the model and the shared concrete inputs evaluates a run on them.\<close>

lemmas model_defs =
  run_def executeAndShowResults_def getDbClient_def tryBlock_def applyPolicy_def catchBlock_def
  connect_def disconnect_def beginTransaction_def commitTransaction_def rollbackTransaction_def
  dispatch_def driverOf_def report_def rowsAndFields_def display_def validateTableData_def
  isControlCharacter_def toStr_def getClient_def getConnectionState_def
  emit_def setState_def deleteState_def Let_def initial_def
  startsWith_def toLowerCase_def trim_def isWhiteSpace_def lowerChar_def

lemmas input_defs =
  settings_def allOk_def pgProfile_def mysqlProfile_def sqliteProfile_def boom_def
  pgIdle_def connectedPg_def pgInTransaction_def

subsection \<open>Operations on an identifier that is not connected\<close>

text \<open>
  C8. For every connection id without an entry in the registry, \<open>beginTransaction\<close>,
  \<open>commitTransaction\<close> and \<open>rollbackTransaction\<close> each return normally, whatever the driver
  would have answered, and leave the whole world (registry, retained result, trace of calls and
  messages) as it was: the caller gets no error and no sign that nothing was done.
\<close>

theorem transaction_ops_silent_when_not_connected:
  assumes "activeConnections w connectionId = None"
  shows "beginTransaction connectionId d w = (Inr (), w)
       \<and> commitTransaction connectionId d w = (Inr (), w)
       \<and> rollbackTransaction connectionId d w = (Inr (), w)"
  using assms
  by (simp add: beginTransaction_def commitTransaction_def rollbackTransaction_def
      getConnectionState_def)

theorem transaction_ops_silent_when_not_connected_witness:
  "activeConnections initial ''pg'' = None
   \<and> beginTransaction ''pg'' allOk initial = (Inr (), initial)
   \<and> commitTransaction ''pg'' allOk initial = (Inr (), initial)
   \<and> rollbackTransaction ''pg'' allOk initial = (Inr (), initial)"
proof -
  have h: "activeConnections initial ''pg'' = None"
    by (simp add: initial_def)
  show ?thesis
    using h transaction_ops_silent_when_not_connected [OF h, of allOk] by simp
qed

subsection \<open>Export of a result without rows\<close>

text \<open>
  C10. \<open>exportLastResult\<close> refuses to export when no result is retained and also when the
  retained result has no rows, whatever its columns: in both cases the only effect is the warning
  \<open>No query result to export.\<close>, so no column pick, no save dialog and no file write happen,
  whatever the user and the file system would have answered.
\<close>

theorem export_refused_without_rows:
  assumes "lastQueryResult w = None \<or> (\<exists>r. lastQueryResult w = Some r \<and> result_rows r = [])"
  shows "exportLastResult fmt x w = emit [ShowWarningMessage ''No query result to export.''] w"
  using assms by (auto simp: exportLastResult_def)

theorem export_refused_without_rows_witness:
  "lastQueryResult afterEmptySelect = Some \<lparr>result_rows = [], result_fields = [idField]\<rparr>
   \<and> exportLastResult csv toFile afterEmptySelect
       = emit [ShowWarningMessage ''No query result to export.''] afterEmptySelect"
proof -
  have h: "lastQueryResult afterEmptySelect = Some \<lparr>result_rows = [], result_fields = [idField]\<rparr>"
    by (simp add: model_defs input_defs afterEmptySelect_def noRows_def idField_def)
  then have "lastQueryResult afterEmptySelect = None
      \<or> (\<exists>r. lastQueryResult afterEmptySelect = Some r \<and> result_rows r = [])"
    by simp
  from export_refused_without_rows [OF this, of csv toFile] h show ?thesis
    by simp
qed

subsection \<open>Connecting twice\<close>

text \<open>
  C6. \<open>connect\<close> is idempotent. When the profile's id already has an entry, \<open>connect\<close> returns
  that entry and leaves the world as it was, whatever the driver would have answered: no driver
  object is made, no call is issued, nothing is validated again. Hence a second \<open>connect\<close> for
  the same id, right after one that returned a state, returns the same state and changes nothing.
  When the id has no entry and the driver fails, the error is the result and the registry is as
  before.
\<close>

theorem connect_idempotent:
  "(activeConnections w (conn_id c) = Some st \<longrightarrow> connect c d w = (Inr st, w))
   \<and> (connect c1 d1 w1 = (Inr st1, w1') \<and> conn_id c1' = conn_id c1
        \<longrightarrow> connect c1' d1' w1' = (Inr st1, w1'))
   \<and> (activeConnections w2 (conn_id c2) = None \<and> openResult d2 = Some e
        \<longrightarrow> fst (connect c2 d2 w2) = Inl e
          \<and> activeConnections (snd (connect c2 d2 w2)) = activeConnections w2)"
proof (intro conjI impI)
  assume "activeConnections w (conn_id c) = Some st"
  then show "connect c d w = (Inr st, w)"
    by (simp add: connect_def)
next
  assume a: "connect c1 d1 w1 = (Inr st1, w1') \<and> conn_id c1' = conn_id c1"
  then have "activeConnections w1' (conn_id c1) = Some st1"
    by (auto simp: connect_def Let_def setState_def emit_def split: option.splits)
  with a show "connect c1' d1' w1' = (Inr st1, w1')"
    by (simp add: connect_def)
next
  assume a: "activeConnections w2 (conn_id c2) = None \<and> openResult d2 = Some e"
  then show "fst (connect c2 d2 w2) = Inl e"
    by (simp add: connect_def Let_def)
  from a show "activeConnections (snd (connect c2 d2 w2)) = activeConnections w2"
    by (simp add: connect_def Let_def emit_def)
qed

theorem connect_idempotent_witness:
  "activeConnections connectedPg (conn_id pgProfile) = Some pgIdle
   \<and> connect pgProfile cannotOpen connectedPg = (Inr pgIdle, connectedPg)
   \<and> connect pgProfile allOk initial = (Inr pgIdle, connectedPg)
   \<and> activeConnections initial (conn_id mysqlProfile) = None
   \<and> openResult cannotOpen = Some boom
   \<and> fst (connect mysqlProfile cannotOpen initial) = Inl boom
   \<and> activeConnections (snd (connect mysqlProfile cannotOpen initial)) = activeConnections initial"
proof -
  have h1: "activeConnections connectedPg (conn_id pgProfile) = Some pgIdle"
    by (simp add: model_defs input_defs)
  have "fst (connect pgProfile allOk initial) = Inr pgIdle"
    by (simp add: model_defs input_defs)
  then have h2: "connect pgProfile allOk initial = (Inr pgIdle, connectedPg)"
    by (simp add: connectedPg_def prod_eq_iff)
  have h3: "activeConnections initial (conn_id mysqlProfile) = None \<and> openResult cannotOpen = Some boom"
    by (simp add: model_defs input_defs cannotOpen_def)
  from connect_idempotent [where w = connectedPg and c = pgProfile and st = pgIdle
      and d = cannotOpen and ?c1.0 = pgProfile and ?d1.0 = allOk and ?w1.0 = initial
      and ?st1.0 = pgIdle and w1' = connectedPg and c1' = pgProfile and d1' = cannotOpen
      and ?w2.0 = initial and ?c2.0 = mysqlProfile and ?d2.0 = cannotOpen and e = boom] h1 h2 h3
  show ?thesis by simp
qed


subsection \<open>Disconnecting\<close>

text \<open>
  C5, as stated, fails: \<open>disconnect\<close> has no handler around \<open>end()\<close>. On a PostgreSQL
  connection with an open transaction whose pool fails to end, the error reaches the caller and
  the entry stays in the registry, with its transaction client released and cleared but
  \<open>inTransaction\<close> still set.
\<close>

theorem disconnect_error_reaches_caller:
  "fst (disconnect ''pg'' cannotEnd pgInTransaction) = Inl boom
   \<and> activeConnections (snd (disconnect ''pg'' cannotEnd pgInTransaction)) ''pg''
       = Some \<lparr>mainClient = 0, transactionClient = None, uncommittedQueries = 0,
                dbType = postgresql, inTransaction = True\<rparr>
   \<and> trace (snd (disconnect ''pg'' cannotEnd pgInTransaction))
       = trace pgInTransaction @ [Release 1, EndCall 0]"
  by (simp add: model_defs input_defs cannotEnd_def)

text \<open>
  C5, amended. \<open>disconnect(id)\<close> does nothing when the id is not connected. Otherwise it
  releases the transaction client if there is one, closes the main handle and, when the close
  does not fail (SQLite's \<open>close()\<close> is not awaited, so it never does), removes the entry. When
  \<open>end()\<close> of a PostgreSQL pool or a MySQL connection rejects, the error is the result of
  \<open>disconnect\<close> and the entry stays, with its transaction client released and cleared.
\<close>

theorem disconnect_behaviour:
  "(activeConnections w connectionId = None \<longrightarrow> disconnect connectionId d w = (Inr (), w))
   \<and> (activeConnections w1 id1 = Some st1 \<and> (dbType st1 = sqlite \<or> endResult d1 = None)
        \<longrightarrow> fst (disconnect id1 d1 w1) = Inr ()
          \<and> activeConnections (snd (disconnect id1 d1 w1)) = (activeConnections w1)(id1 := None)
          \<and> trace (snd (disconnect id1 d1 w1))
              = trace w1 @ (case transactionClient st1 of Some client \<Rightarrow> [Release client] | None \<Rightarrow> [])
                  @ [if dbType st1 = sqlite then CloseCall (mainClient st1)
                     else EndCall (mainClient st1)])
   \<and> (activeConnections w2 id2 = Some st2 \<and> dbType st2 \<noteq> sqlite \<and> endResult d2 = Some e
        \<longrightarrow> fst (disconnect id2 d2 w2) = Inl e
          \<and> activeConnections (snd (disconnect id2 d2 w2))
              = (activeConnections w2)(id2 \<mapsto> st2\<lparr>transactionClient := None\<rparr>)
          \<and> trace (snd (disconnect id2 d2 w2))
              = trace w2 @ (case transactionClient st2 of Some client \<Rightarrow> [Release client] | None \<Rightarrow> [])
                  @ [EndCall (mainClient st2)])"
proof (intro conjI impI)
  assume "activeConnections w connectionId = None"
  then show "disconnect connectionId d w = (Inr (), w)"
    by (simp add: disconnect_def)
next
  assume a: "activeConnections w1 id1 = Some st1 \<and> (dbType st1 = sqlite \<or> endResult d1 = None)"
  then show "fst (disconnect id1 d1 w1) = Inr ()"
    by (cases "dbType st1") (auto simp: disconnect_def Let_def split: option.splits)
  from a show "activeConnections (snd (disconnect id1 d1 w1)) = (activeConnections w1)(id1 := None)"
    by (cases "dbType st1")
       (auto simp: disconnect_def Let_def deleteState_def emit_def setState_def split: option.splits)
  from a show "trace (snd (disconnect id1 d1 w1))
      = trace w1 @ (case transactionClient st1 of Some client \<Rightarrow> [Release client] | None \<Rightarrow> [])
          @ [if dbType st1 = sqlite then CloseCall (mainClient st1) else EndCall (mainClient st1)]"
    by (cases "dbType st1")
       (auto simp: disconnect_def Let_def deleteState_def emit_def setState_def split: option.splits)
next
  assume a: "activeConnections w2 id2 = Some st2 \<and> dbType st2 \<noteq> sqlite \<and> endResult d2 = Some e"
  then show "fst (disconnect id2 d2 w2) = Inl e"
    by (cases "dbType st2") (auto simp: disconnect_def Let_def split: option.splits)
  from a show "activeConnections (snd (disconnect id2 d2 w2))
      = (activeConnections w2)(id2 \<mapsto> st2\<lparr>transactionClient := None\<rparr>)"
    by (cases "dbType st2")
       (auto simp: disconnect_def Let_def emit_def setState_def fun_upd_idem split: option.splits)
  from a show "trace (snd (disconnect id2 d2 w2))
      = trace w2 @ (case transactionClient st2 of Some client \<Rightarrow> [Release client] | None \<Rightarrow> [])
          @ [EndCall (mainClient st2)]"
    by (cases "dbType st2")
       (auto simp: disconnect_def Let_def emit_def setState_def split: option.splits)
qed

theorem disconnect_behaviour_witness:
  "activeConnections initial ''my'' = None
   \<and> disconnect ''my'' allOk initial = (Inr (), initial)
   \<and> activeConnections pgInTransaction ''pg'' = Some (pgIdle\<lparr>transactionClient := Some 1, inTransaction := True\<rparr>)
   \<and> fst (disconnect ''pg'' allOk pgInTransaction) = Inr ()
   \<and> activeConnections (snd (disconnect ''pg'' allOk pgInTransaction)) ''pg'' = None
   \<and> trace (snd (disconnect ''pg'' allOk pgInTransaction)) = trace pgInTransaction @ [Release 1, EndCall 0]
   \<and> fst (disconnect ''pg'' cannotEnd pgInTransaction) = Inl boom
   \<and> activeConnections (snd (disconnect ''pg'' cannotEnd pgInTransaction)) ''pg''
       = Some (pgIdle\<lparr>inTransaction := True\<rparr>)"
proof -
  have h0: "activeConnections initial ''my'' = None"
    by (simp add: model_defs input_defs)
  have h1: "activeConnections pgInTransaction ''pg''
      = Some (pgIdle\<lparr>transactionClient := Some 1, inTransaction := True\<rparr>)"
    by (simp add: model_defs input_defs)
  have h2: "dbType (pgIdle\<lparr>transactionClient := Some 1, inTransaction := True\<rparr>) \<noteq> sqlite"
    "endResult allOk = None" "endResult cannotEnd = Some boom"
    "mainClient pgIdle = 0"
    by (simp_all add: pgIdle_def allOk_def cannotEnd_def)
  from disconnect_behaviour [where w = initial and connectionId = "''my''" and d = allOk
      and ?w1.0 = pgInTransaction and ?id1.0 = "''pg''" and ?d1.0 = allOk
      and ?st1.0 = "pgIdle\<lparr>transactionClient := Some 1, inTransaction := True\<rparr>"
      and ?w2.0 = pgInTransaction and ?id2.0 = "''pg''" and ?d2.0 = cannotEnd
      and ?st2.0 = "pgIdle\<lparr>transactionClient := Some 1, inTransaction := True\<rparr>" and e = boom]
    h0 h1 h2
  show ?thesis by (simp add: pgIdle_def)
qed


subsection \<open>What one statement leaves invariant\<close>

lemma emit_fields [simp]:
  "activeConnections (emit evs w) = activeConnections w"
  "nextHandle (emit evs w) = nextHandle w"
  "lastQueryResult (emit evs w) = lastQueryResult w"
  "trace (emit evs w) = trace w @ evs"
  by (simp_all add: emit_def)

lemma setState_fields [simp]:
  "activeConnections (setState i st w) = (activeConnections w)(i \<mapsto> st)"
  "nextHandle (setState i st w) = nextHandle w"
  "lastQueryResult (setState i st w) = lastQueryResult w"
  "trace (setState i st w) = trace w"
  by (simp_all add: setState_def)

lemma deleteState_fields [simp]:
  "activeConnections (deleteState i w) = (activeConnections w)(i := None)"
  "nextHandle (deleteState i w) = nextHandle w"
  "lastQueryResult (deleteState i w) = lastQueryResult w"
  "trace (deleteState i w) = trace w"
  by (simp_all add: deleteState_def)

lemma emit_nothing: "emit [] w = w"
  by (simp add: emit_def)

lemma getDbClient_Inr:
  assumes "getDbClient cfg d w = (Inr st, w')"
  shows "w' = w \<and> (\<exists>aid. activeConnection cfg = Some aid \<and> aid \<noteq> []
            \<and> activeConnections w aid = Some st)"
  using assms
  by (auto simp: getDbClient_def getConnectionState_def find_Some_iff
      split: option.splits if_splits)

lemma getDbClient_Inl:
  assumes "getDbClient cfg d w = (Inl e, w')"
  shows "\<exists>evs. w' = emit evs w \<and> (\<forall>h. Release h \<notin> set evs)"
proof -
  from assms consider "w' = w"
    | prof where "w' = emit (ShowErrorMessage (notActive prof) #
                             (if picksConnect d
                              then [ExecuteCommand ''sql-runner.connect'' [conn_id prof]]
                              else [])) w"
    by (auto simp: getDbClient_def split: option.splits if_splits)
  then show ?thesis
  proof cases
    case 1
    then have "w' = emit [] w \<and> (\<forall>h. Release h \<notin> set [])"
      by (simp add: emit_nothing)
    then show ?thesis by blast
  next
    case 2
    then have "w' = emit (ShowErrorMessage (notActive prof) #
                             (if picksConnect d
                              then [ExecuteCommand ''sql-runner.connect'' [conn_id prof]]
                              else [])) w
        \<and> (\<forall>h. Release h \<notin> set (ShowErrorMessage (notActive prof) #
                             (if picksConnect d
                              then [ExecuteCommand ''sql-runner.connect'' [conn_id prof]]
                              else [])))"
      by simp
    then show ?thesis by blast
  qed
qed

lemma dispatch_registry:
  "activeConnections (snd (dispatch ty st c q d w)) = activeConnections w"
  by (simp add: dispatch_def Let_def split: dbType.splits option.splits)

lemma display_shape:
  "\<exists>evs. snd (display cfg ty rs fs w)
            = emit evs (w\<lparr>lastQueryResult := Some \<lparr>result_rows = rs, result_fields = fs\<rparr>\<rparr>)
     \<and> (\<forall>h. Release h \<notin> set evs)"
proof -
  define data where
    "data = map JStr (map (header cfg ty) fs) # map (\<lambda>r. map (cell r) (map name fs)) rs"
  define evs where "evs =
     (if length fs = 0
      then [OutputAppendLine ''Query executed successfully, but no columns were returned.'',
            ShowInformationMessage ''Query executed successfully.'']
      else if validateTableData data \<noteq> None then []
      else [OutputTable data,
            OutputAppendLine (''('' @ showNat (length rs) @ '' row'' @ plural (length rs) @ '')''),
            ShowInformationMessage
              (''Query returned '' @ showNat (length rs) @ '' row'' @ plural (length rs) @ ''.'')])"
  have "snd (display cfg ty rs fs w)
      = emit evs (w\<lparr>lastQueryResult := Some \<lparr>result_rows = rs, result_fields = fs\<rparr>\<rparr>)"
    by (auto simp: display_def Let_def evs_def data_def emit_nothing split: option.splits)
  moreover have "\<forall>h. Release h \<notin> set evs"
    by (simp add: evs_def)
  ultimately show ?thesis by blast
qed

lemma report_preserves:
  fixes Inv :: "world \<Rightarrow> bool"
  assumes emitI: "\<And>w evs. Inv w \<Longrightarrow> \<forall>h. Release h \<notin> set evs \<Longrightarrow> Inv (emit evs w)"
    and resultI: "\<And>w r. Inv w \<Longrightarrow> Inv (w\<lparr>lastQueryResult := r\<rparr>)"
    and countI: "\<And>w i st. Inv w \<Longrightarrow> activeConnections w i = Some st
          \<Longrightarrow> Inv (setState i (st\<lparr>uncommittedQueries := Suc (uncommittedQueries st)\<rparr>) w)"
    and inv: "Inv w"
    and entry: "activeConnections w (conn_id prof) = Some st"
  shows "Inv (snd (report cfg prof st result w))"
proof -
  define w1 where "w1 = (if inTransaction st
                then setState (conn_id prof) (st\<lparr>uncommittedQueries := Suc (uncommittedQueries st)\<rparr>) w
                else w)"
  define w2 where "w2 = emit [ExecuteCommand ''sql-runner.setActiveConnection''
                       [conn_id prof, conn_name prof], OutputClear, OutputShow] w1"
  have "Inv w1"
    using inv entry countI [of w "conn_id prof" st] by (simp add: w1_def)
  then have w2: "Inv w2"
    unfolding w2_def by (rule emitI) simp
  have final: "snd (report cfg prof st result w) =
      (case rowsAndFields result of
         Inl error \<Rightarrow> w2
       | Inr (Summary msg) \<Rightarrow> emit [OutputAppendLine msg, ShowInformationMessage msg] w2
       | Inr (Tabular rows flds) \<Rightarrow> snd (display cfg (conn_dbType prof) rows flds w2))"
    by (simp add: report_def w1_def w2_def Let_def split: sum.splits extracted.splits)
  show ?thesis
  proof (cases "rowsAndFields result")
    case (Inl e)
    with w2 final show ?thesis by simp
  next
    case ex: (Inr ex)
    show ?thesis
    proof (cases ex)
      case (Summary msg)
      have "Inv (emit [OutputAppendLine msg, ShowInformationMessage msg] w2)"
        by (rule emitI [OF w2]) simp
      with ex Summary final show ?thesis by simp
    next
      case (Tabular rows flds)
      obtain evs where
        "snd (display cfg (conn_dbType prof) rows flds w2)
           = emit evs (w2\<lparr>lastQueryResult := Some \<lparr>result_rows = rows, result_fields = flds\<rparr>\<rparr>)"
        "\<forall>h. Release h \<notin> set evs"
        using display_shape by blast
      then have "Inv (snd (display cfg (conn_dbType prof) rows flds w2))"
        using emitI resultI w2 by simp
      with ex Tabular final show ?thesis by simp
    qed
  qed
qed

lemma applyPolicy_preserves:
  fixes Inv :: "world \<Rightarrow> bool"
  assumes beginI: "\<And>w i. autoCommit cfg \<noteq> Auto \<Longrightarrow> Inv w \<Longrightarrow> Inv (snd (beginTransaction i d w))"
    and inv: "Inv w"
    and entry: "activeConnections w (conn_id prof) = Some st0"
    and res: "applyPolicy cfg d q prof st0 w = (r, w1)"
  shows "Inv w1 \<and> (\<forall>cs. r = Inr cs \<longrightarrow> cs = activeConnections w1 (conn_id prof))"
  using res inv entry beginI [of w "conn_id prof"]
  by (auto simp: applyPolicy_def Let_def getConnectionState_def split: if_splits prod.splits sum.splits)

lemma tryBlock_preserves:
  fixes Inv :: "world \<Rightarrow> bool"
  assumes emitI: "\<And>w evs. Inv w \<Longrightarrow> \<forall>h. Release h \<notin> set evs \<Longrightarrow> Inv (emit evs w)"
    and resultI: "\<And>w r. Inv w \<Longrightarrow> Inv (w\<lparr>lastQueryResult := r\<rparr>)"
    and countI: "\<And>w i st. Inv w \<Longrightarrow> activeConnections w i = Some st
          \<Longrightarrow> Inv (setState i (st\<lparr>uncommittedQueries := Suc (uncommittedQueries st)\<rparr>) w)"
    and beginI: "\<And>w i. autoCommit cfg \<noteq> Auto \<Longrightarrow> Inv w \<Longrightarrow> Inv (snd (beginTransaction i d w))"
    and dispatchI: "\<And>w ty st c. Inv w \<Longrightarrow> Inv (snd (dispatch ty st c q d w))"
    and inv: "Inv w"
    and entry: "activeConnection cfg = Some aid" "activeConnections w aid = Some st0"
  shows "Inv (snd (tryBlock cfg d q st0 w))"
proof (cases "find (\<lambda>c. Some (conn_id c) = activeConnection cfg) (connections cfg)")
  case None
  with inv show ?thesis
    by (simp add: tryBlock_def)
next
  case (Some prof)
  then have aid: "conn_id prof = aid"
    using entry(1) by (auto simp: find_Some_iff)
  obtain r w1 where pol: "applyPolicy cfg d q prof st0 w = (r, w1)"
    by (cases "applyPolicy cfg d q prof st0 w") auto
  have e2: "activeConnections w (conn_id prof) = Some st0"
    using entry(2) aid by simp
  have "Inv w1 \<and> (\<forall>cs. r = Inr cs \<longrightarrow> cs = activeConnections w1 (conn_id prof))"
    using beginI inv e2 pol by (rule applyPolicy_preserves)
  then have w1: "Inv w1" and cs: "\<And>cs. r = Inr cs \<Longrightarrow> cs = activeConnections w1 aid"
    using aid by auto
  show ?thesis
  proof (cases r)
    case (Inl e)
    with w1 Some pol show ?thesis by (simp add: tryBlock_def)
  next
    case (Inr cs')
    show ?thesis
    proof (cases cs')
      case None
      with Inr w1 Some pol show ?thesis by (simp add: tryBlock_def)
    next
      case st: (Some connectionState)
      have reg1: "activeConnections w1 aid = Some connectionState"
        using cs [OF Inr] st by simp
      show ?thesis
      proof (cases "getClient aid w1")
        case None
        with Inr st w1 Some pol aid show ?thesis by (simp add: tryBlock_def)
      next
        case client: (Some client)
        obtain res w2 where disp:
          "dispatch (conn_dbType prof) connectionState client q d w1 = (res, w2)"
          by (cases "dispatch (conn_dbType prof) connectionState client q d w1") auto
        have w2: "Inv w2"
          using dispatchI [OF w1, of "conn_dbType prof" connectionState client] disp by simp
        have reg2: "activeConnections w2 (conn_id prof) = Some connectionState"
          using dispatch_registry [of "conn_dbType prof" connectionState client q d w1] disp reg1 aid
          by simp
        show ?thesis
        proof (cases res)
          case (Inl e)
          with Inr st client disp w2 Some pol aid show ?thesis by (simp add: tryBlock_def)
        next
          case result: (Inr result)
          have "Inv (snd (report cfg prof connectionState result w2))"
            using emitI resultI countI w2 reg2 by (rule report_preserves)
          with Inr st client disp result Some pol aid show ?thesis
            by (simp add: tryBlock_def)
        qed
      qed
    qed
  qed
qed


lemma catchBlock_preserves:
  fixes Inv :: "world \<Rightarrow> bool"
  assumes emitI: "\<And>w evs. Inv w \<Longrightarrow> \<forall>h. Release h \<notin> set evs \<Longrightarrow> Inv (emit evs w)"
    and rollbackI: "\<And>w i. Inv w \<Longrightarrow> Inv (snd (rollbackTransaction i d w))"
    and inv: "Inv w"
  shows "Inv (snd (catchBlock cfg d cs e w))"
proof -
  have bare: "Inv (emit [ShowErrorMessage (''Query failed: '' @ message e)] w)"
    by (rule emitI [OF inv]) simp
  have rolled: "Inv (emit [ShowErrorMessage
      (''Query failed and transaction was rolled back: '' @ message e)] w1)" if "Inv w1" for w1
    by (rule emitI [OF that]) simp
  show ?thesis
  proof (cases "\<exists>st aid. cs = Some st \<and> activeConnection cfg = Some aid
                  \<and> inTransaction st \<and> aid \<noteq> []")
    case True
    then obtain st aid where c: "cs = Some st" "activeConnection cfg = Some aid"
        "inTransaction st" "aid \<noteq> []"
      by blast
    obtain r w1 where rb: "rollbackTransaction aid d w = (r, w1)"
      by (cases "rollbackTransaction aid d w") auto
    then have "Inv w1"
      using rollbackI [OF inv, of aid] by simp
    with c rb rolled [of w1] show ?thesis
      by (cases r) (simp_all add: catchBlock_def)
  next
    case False
    then have "catchBlock cfg d cs e w
        = (Inr (), emit [ShowErrorMessage (''Query failed: '' @ message e)] w)"
      by (auto simp: catchBlock_def split: option.splits)
    with bare show ?thesis by simp
  qed
qed

lemma executeAndShowResults_preserves:
  fixes Inv :: "world \<Rightarrow> bool"
  assumes emitI: "\<And>w evs. Inv w \<Longrightarrow> \<forall>h. Release h \<notin> set evs \<Longrightarrow> Inv (emit evs w)"
    and resultI: "\<And>w r. Inv w \<Longrightarrow> Inv (w\<lparr>lastQueryResult := r\<rparr>)"
    and countI: "\<And>w i st. Inv w \<Longrightarrow> activeConnections w i = Some st
          \<Longrightarrow> Inv (setState i (st\<lparr>uncommittedQueries := Suc (uncommittedQueries st)\<rparr>) w)"
    and beginI: "\<And>w i. autoCommit cfg \<noteq> Auto \<Longrightarrow> Inv w \<Longrightarrow> Inv (snd (beginTransaction i d w))"
    and rollbackI: "\<And>w i. Inv w \<Longrightarrow> Inv (snd (rollbackTransaction i d w))"
    and dispatchI: "\<And>w ty st c. Inv w \<Longrightarrow> Inv (snd (dispatch ty st c q d w))"
    and inv: "Inv w"
  shows "Inv (snd (executeAndShowResults cfg d q w))"
proof -
  obtain r w1 where g: "getDbClient cfg d w = (r, w1)"
    by (cases "getDbClient cfg d w") auto
  show ?thesis
  proof (cases r)
    case (Inl e)
    with g obtain evs where "w1 = emit evs w" "\<forall>h. Release h \<notin> set evs"
      using getDbClient_Inl by blast
    then have "Inv w1"
      using emitI inv by simp
    then have "Inv (snd (catchBlock cfg d None e w1))"
      using emitI rollbackI by (rule catchBlock_preserves [rotated 2])
    with g Inl show ?thesis
      by (simp add: executeAndShowResults_def)
  next
    case (Inr st)
    with g obtain aid where a: "w1 = w" "activeConnection cfg = Some aid"
        "activeConnections w aid = Some st"
      using getDbClient_Inr by blast
    have t: "Inv (snd (tryBlock cfg d q st w))"
      using emitI resultI countI beginI dispatchI inv a(2,3) by (rule tryBlock_preserves)
    obtain r2 w2 where tb: "tryBlock cfg d q st w = (r2, w2)"
      by (cases "tryBlock cfg d q st w") auto
    with t have w2: "Inv w2" by simp
    show ?thesis
    proof (cases r2)
      case (Inl e)
      have "Inv (snd (catchBlock cfg d (getConnectionState aid w2) e w2))"
        using emitI rollbackI w2 by (rule catchBlock_preserves)
      with g Inr a tb Inl show ?thesis
        by (simp add: executeAndShowResults_def)
    next
      case (Inr u)
      with g \<open>r = Inr st\<close> a tb w2 show ?thesis
        by (simp add: executeAndShowResults_def)
    qed
  qed
qed

subsection \<open>The transaction client and the transaction flag\<close>

lemma everyEntry_emit [simp]: "everyEntry P (emit evs w) = everyEntry P w"
  by (simp add: everyEntry_def)

lemma everyEntry_result [simp]: "everyEntry P (w\<lparr>lastQueryResult := r\<rparr>) = everyEntry P w"
  by (simp add: everyEntry_def)

lemma everyEntry_count:
  assumes "everyEntry P w" and "activeConnections w i = Some st"
    and "\<And>st n. P st \<Longrightarrow> P (st\<lparr>uncommittedQueries := n\<rparr>)"
  shows "everyEntry P (setState i (st\<lparr>uncommittedQueries := n\<rparr>) w)"
  using assms by (auto simp: everyEntry_def)

lemma iff_connect:
  assumes "everyEntry handleIffInTransaction w"
  shows "everyEntry handleIffInTransaction (snd (connect c d w))"
proof (cases "activeConnections w (conn_id c)")
  case None
  with assms show ?thesis
    by (auto simp: everyEntry_def handleIffInTransaction_def connect_def getConnectionState_def Let_def
        split: option.splits)
next
  case (Some st)
  with assms(1) have "handleIffInTransaction st"
    by (simp add: everyEntry_def)
  with Some assms show ?thesis
    by (auto simp: everyEntry_def handleIffInTransaction_def connect_def getConnectionState_def Let_def
        split: option.splits dbType.splits if_splits; force)
qed

lemma iff_begin:
  assumes "everyEntry handleIffInTransaction w"
  shows "everyEntry handleIffInTransaction (snd (beginTransaction i d w))"
proof (cases "activeConnections w (i)")
  case None
  with assms show ?thesis
    by (auto simp: everyEntry_def handleIffInTransaction_def beginTransaction_def getConnectionState_def Let_def
        split: option.splits)
next
  case (Some st)
  with assms(1) have "handleIffInTransaction st"
    by (simp add: everyEntry_def)
  with Some assms show ?thesis
    by (auto simp: everyEntry_def handleIffInTransaction_def beginTransaction_def getConnectionState_def Let_def
        split: option.splits dbType.splits if_splits; force)
qed

lemma iff_commit:
  assumes "everyEntry handleIffInTransaction w"
  shows "everyEntry handleIffInTransaction (snd (commitTransaction i d w))"
proof (cases "activeConnections w (i)")
  case None
  with assms show ?thesis
    by (auto simp: everyEntry_def handleIffInTransaction_def commitTransaction_def getConnectionState_def Let_def
        split: option.splits)
next
  case (Some st)
  with assms(1) have "handleIffInTransaction st"
    by (simp add: everyEntry_def)
  with Some assms show ?thesis
    by (auto simp: everyEntry_def handleIffInTransaction_def commitTransaction_def getConnectionState_def Let_def
        split: option.splits dbType.splits if_splits; force)
qed

lemma iff_rollback:
  assumes "everyEntry handleIffInTransaction w"
  shows "everyEntry handleIffInTransaction (snd (rollbackTransaction i d w))"
proof (cases "activeConnections w (i)")
  case None
  with assms show ?thesis
    by (auto simp: everyEntry_def handleIffInTransaction_def rollbackTransaction_def getConnectionState_def Let_def
        split: option.splits)
next
  case (Some st)
  with assms(1) have "handleIffInTransaction st"
    by (simp add: everyEntry_def)
  with Some assms show ?thesis
    by (auto simp: everyEntry_def handleIffInTransaction_def rollbackTransaction_def getConnectionState_def Let_def
        split: option.splits dbType.splits if_splits; force)
qed

lemma iff_disconnect:
  assumes "everyEntry handleIffInTransaction w"
    and "fst (disconnect i d w) = Inr ()"
  shows "everyEntry handleIffInTransaction (snd (disconnect i d w))"
proof (cases "activeConnections w (i)")
  case None
  with assms show ?thesis
    by (auto simp: everyEntry_def handleIffInTransaction_def disconnect_def getConnectionState_def Let_def
        split: option.splits)
next
  case (Some st)
  with assms(1) have "handleIffInTransaction st"
    by (simp add: everyEntry_def)
  with Some assms show ?thesis
    by (auto simp: everyEntry_def handleIffInTransaction_def disconnect_def getConnectionState_def Let_def
        split: option.splits dbType.splits if_splits; force)
qed

lemma iff_execute:
  assumes "everyEntry handleIffInTransaction w"
  shows "everyEntry handleIffInTransaction (snd (executeAndShowResults cfg d q w))"
proof (rule executeAndShowResults_preserves [where Inv = "everyEntry handleIffInTransaction"])
  show "everyEntry handleIffInTransaction
          (setState i (st\<lparr>uncommittedQueries := Suc (uncommittedQueries st)\<rparr>) w)"
    if "everyEntry handleIffInTransaction w" "activeConnections w i = Some st" for w i st
    using that by (rule everyEntry_count) (simp add: handleIffInTransaction_def)
  show "everyEntry handleIffInTransaction (snd (dispatch ty st c q d w))"
    if "everyEntry handleIffInTransaction w" for w ty st c
    using that dispatch_registry [of ty st c q d w] by (simp add: everyEntry_def)
qed (use assms in \<open>simp_all add: iff_begin iff_rollback\<close>)

lemma only_connect:
  assumes "everyEntry handleOnlyInTransaction w"
  shows "everyEntry handleOnlyInTransaction (snd (connect c d w))"
proof (cases "activeConnections w (conn_id c)")
  case None
  with assms show ?thesis
    by (auto simp: everyEntry_def handleOnlyInTransaction_def connect_def getConnectionState_def Let_def
        split: option.splits)
next
  case (Some st)
  with assms(1) have "handleOnlyInTransaction st"
    by (simp add: everyEntry_def)
  with Some assms show ?thesis
    by (auto simp: everyEntry_def handleOnlyInTransaction_def connect_def getConnectionState_def Let_def
        split: option.splits dbType.splits if_splits; force)
qed

lemma only_begin:
  assumes "everyEntry handleOnlyInTransaction w"
  shows "everyEntry handleOnlyInTransaction (snd (beginTransaction i d w))"
proof (cases "activeConnections w (i)")
  case None
  with assms show ?thesis
    by (auto simp: everyEntry_def handleOnlyInTransaction_def beginTransaction_def getConnectionState_def Let_def
        split: option.splits)
next
  case (Some st)
  with assms(1) have "handleOnlyInTransaction st"
    by (simp add: everyEntry_def)
  with Some assms show ?thesis
    by (auto simp: everyEntry_def handleOnlyInTransaction_def beginTransaction_def getConnectionState_def Let_def
        split: option.splits dbType.splits if_splits; force)
qed

lemma only_commit:
  assumes "everyEntry handleOnlyInTransaction w"
  shows "everyEntry handleOnlyInTransaction (snd (commitTransaction i d w))"
proof (cases "activeConnections w (i)")
  case None
  with assms show ?thesis
    by (auto simp: everyEntry_def handleOnlyInTransaction_def commitTransaction_def getConnectionState_def Let_def
        split: option.splits)
next
  case (Some st)
  with assms(1) have "handleOnlyInTransaction st"
    by (simp add: everyEntry_def)
  with Some assms show ?thesis
    by (auto simp: everyEntry_def handleOnlyInTransaction_def commitTransaction_def getConnectionState_def Let_def
        split: option.splits dbType.splits if_splits; force)
qed

lemma only_rollback:
  assumes "everyEntry handleOnlyInTransaction w"
  shows "everyEntry handleOnlyInTransaction (snd (rollbackTransaction i d w))"
proof (cases "activeConnections w (i)")
  case None
  with assms show ?thesis
    by (auto simp: everyEntry_def handleOnlyInTransaction_def rollbackTransaction_def getConnectionState_def Let_def
        split: option.splits)
next
  case (Some st)
  with assms(1) have "handleOnlyInTransaction st"
    by (simp add: everyEntry_def)
  with Some assms show ?thesis
    by (auto simp: everyEntry_def handleOnlyInTransaction_def rollbackTransaction_def getConnectionState_def Let_def
        split: option.splits dbType.splits if_splits; force)
qed

lemma only_disconnect:
  assumes "everyEntry handleOnlyInTransaction w"
  shows "everyEntry handleOnlyInTransaction (snd (disconnect i d w))"
proof (cases "activeConnections w (i)")
  case None
  with assms show ?thesis
    by (auto simp: everyEntry_def handleOnlyInTransaction_def disconnect_def getConnectionState_def Let_def
        split: option.splits)
next
  case (Some st)
  with assms(1) have "handleOnlyInTransaction st"
    by (simp add: everyEntry_def)
  with Some assms show ?thesis
    by (auto simp: everyEntry_def handleOnlyInTransaction_def disconnect_def getConnectionState_def Let_def
        split: option.splits dbType.splits if_splits; force)
qed

lemma only_execute:
  assumes "everyEntry handleOnlyInTransaction w"
  shows "everyEntry handleOnlyInTransaction (snd (executeAndShowResults cfg d q w))"
proof (rule executeAndShowResults_preserves [where Inv = "everyEntry handleOnlyInTransaction"])
  show "everyEntry handleOnlyInTransaction
          (setState i (st\<lparr>uncommittedQueries := Suc (uncommittedQueries st)\<rparr>) w)"
    if "everyEntry handleOnlyInTransaction w" "activeConnections w i = Some st" for w i st
    using that by (rule everyEntry_count) (simp add: handleOnlyInTransaction_def)
  show "everyEntry handleOnlyInTransaction (snd (dispatch ty st c q d w))"
    if "everyEntry handleOnlyInTransaction w" for w ty st c
    using that dispatch_registry [of ty st c q d w] by (simp add: everyEntry_def)
qed (use assms in \<open>simp_all add: only_begin only_rollback\<close>)

lemma only_run:
  "everyEntry handleOnlyInTransaction w \<Longrightarrow> everyEntry handleOnlyInTransaction (run ops w)"
proof (induction ops arbitrary: w)
  case Nil
  then show ?case by (simp add: run_def)
next
  case (Cons a ops)
  obtain operation d where a: "a = (operation, d)"
    by (cases a) auto
  have "everyEntry handleOnlyInTransaction (step (operation, d) w)"
    using Cons.prems
    by (cases operation)
       (simp_all add: only_connect only_disconnect only_begin only_commit only_rollback only_execute)
  then have "everyEntry handleOnlyInTransaction (run ops (step (operation, d) w))"
    by (rule Cons.IH)
  then show ?case
    by (simp add: run_def a)
qed

lemma iff_run:
  "everyEntry handleIffInTransaction w \<Longrightarrow> disconnectsComplete ops w
   \<Longrightarrow> everyEntry handleIffInTransaction (run ops w)"
proof (induction ops arbitrary: w)
  case Nil
  then show ?case by (simp add: run_def)
next
  case (Cons a ops)
  obtain operation d where a: "a = (operation, d)"
    by (cases a) auto
  have "everyEntry handleIffInTransaction (step (operation, d) w)"
    using Cons.prems
    by (cases operation)
       (simp_all add: a iff_connect iff_disconnect iff_begin iff_commit iff_rollback iff_execute)
  moreover have "disconnectsComplete ops (step (operation, d) w)"
    using Cons.prems(2) by (simp add: a)
  ultimately have "everyEntry handleIffInTransaction (run ops (step (operation, d) w))"
    by (rule Cons.IH)
  then show ?case
    by (simp add: run_def a)
qed

text \<open>
  C3, as stated, fails. After \<open>connect\<close> and \<open>beginTransaction\<close> on a PostgreSQL profile, a
  \<open>disconnect\<close> whose \<open>end()\<close> rejects has already released and cleared the transaction client
  (lines 101 to 104) and leaves before the entry is deleted: the entry says PostgreSQL, in a
  transaction, without a transaction client.
\<close>

theorem handle_absent_in_transaction:
  "activeConnections
     (run [(OpConnect pgProfile, allOk), (OpBeginTransaction ''pg'', allOk),
           (OpDisconnect ''pg'', cannotEnd)] initial) ''pg''
   = Some \<lparr>mainClient = 0, transactionClient = None, uncommittedQueries = 0,
            dbType = postgresql, inTransaction = True\<rparr>
   \<and> \<not> handleIffInTransaction
         \<lparr>mainClient = 0, transactionClient = None, uncommittedQueries = 0,
          dbType = postgresql, inTransaction = True\<rparr>"
  by (simp add: model_defs input_defs cannotEnd_def handleIffInTransaction_def)

text \<open>
  C3, amended. In every state reached from the empty registry by any sequence of \<open>connect\<close>,
  \<open>beginTransaction\<close>, \<open>commitTransaction\<close>, \<open>rollbackTransaction\<close>, \<open>disconnect\<close> and statement
  executions, whatever of their calls fail, an entry that holds a transaction client is a
  PostgreSQL entry with \<open>inTransaction\<close> set. As long as no \<open>disconnect\<close> of the sequence has
  ended in an error, the converse holds too: the transaction client is present if and only if
  the entry is PostgreSQL and \<open>inTransaction\<close> is set.
\<close>

theorem transaction_handle_invariant:
  "everyEntry handleOnlyInTransaction (run ops initial)
   \<and> (disconnectsComplete ops initial \<longrightarrow> everyEntry handleIffInTransaction (run ops initial))"
proof -
  have "everyEntry handleOnlyInTransaction initial" "everyEntry handleIffInTransaction initial"
    by (simp_all add: everyEntry_def initial_def)
  then show ?thesis
    using only_run iff_run by blast
qed

theorem transaction_handle_invariant_witness:
  "disconnectsComplete [(OpConnect pgProfile, allOk), (OpBeginTransaction ''pg'', allOk)] initial
   \<and> activeConnections (run [(OpConnect pgProfile, allOk), (OpBeginTransaction ''pg'', allOk)] initial) ''pg''
       = Some \<lparr>mainClient = 0, transactionClient = Some 1, uncommittedQueries = 0,
                dbType = postgresql, inTransaction = True\<rparr>
   \<and> handleIffInTransaction \<lparr>mainClient = 0, transactionClient = Some 1, uncommittedQueries = 0,
                dbType = postgresql, inTransaction = True\<rparr>
   \<and> handleOnlyInTransaction \<lparr>mainClient = 0, transactionClient = Some 1, uncommittedQueries = 0,
                dbType = postgresql, inTransaction = True\<rparr>"
proof -
  have h: "disconnectsComplete [(OpConnect pgProfile, allOk), (OpBeginTransaction ''pg'', allOk)] initial"
    by (simp add: model_defs input_defs)
  have e: "activeConnections (run [(OpConnect pgProfile, allOk), (OpBeginTransaction ''pg'', allOk)] initial) ''pg''
       = Some \<lparr>mainClient = 0, transactionClient = Some 1, uncommittedQueries = 0,
                dbType = postgresql, inTransaction = True\<rparr>"
    by (simp add: model_defs input_defs)
  from transaction_handle_invariant
         [of "[(OpConnect pgProfile, allOk), (OpBeginTransaction ''pg'', allOk)]"] h e
  show ?thesis
    unfolding everyEntry_def by blast
qed


subsection \<open>Release of the transaction client\<close>

lemma rd_emit:
  assumes "releaseDiscipline w" and "\<forall>h. Release h \<notin> set evs"
  shows "releaseDiscipline (emit evs w)"
  using assms by (auto simp: releaseDiscipline_def)

lemma rd_result:
  assumes "releaseDiscipline w"
  shows "releaseDiscipline (w\<lparr>lastQueryResult := r\<rparr>)"
  using assms by (simp add: releaseDiscipline_def)

lemma rd_count:
  assumes "releaseDiscipline w" and "activeConnections w i = Some st"
  shows "releaseDiscipline (setState i (st\<lparr>uncommittedQueries := n\<rparr>) w)"
  using assms unfolding releaseDiscipline_def
  by (auto split: if_splits; blast)

lemma rd_connect:
  assumes "releaseDiscipline w"
  shows "releaseDiscipline (snd (connect c d w))"
proof (cases "activeConnections w (conn_id c)")
  case None
  with assms show ?thesis
    unfolding releaseDiscipline_def
    by (auto simp: connect_def Let_def less_Suc_eq split: option.splits dbType.splits if_splits; blast)
next
  case (Some st)
  with assms show ?thesis
    by (simp add: connect_def)
qed


lemma rd_begin:
  assumes "releaseDiscipline w"
  shows "releaseDiscipline (snd (beginTransaction i d w))"
proof (cases "activeConnections w i")
  case None
  with assms show ?thesis
    by (simp add: beginTransaction_def getConnectionState_def)
next
  case (Some st)
  with assms show ?thesis
    unfolding releaseDiscipline_def
    by (auto simp: beginTransaction_def getConnectionState_def Let_def less_Suc_eq
        split: option.splits dbType.splits if_splits; blast)
qed

lemma rd_commit:
  assumes "releaseDiscipline w"
  shows "releaseDiscipline (snd (commitTransaction i d w))"
proof (cases "activeConnections w i")
  case None
  with assms show ?thesis
    by (simp add: commitTransaction_def getConnectionState_def)
next
  case (Some st)
  with assms show ?thesis
    unfolding releaseDiscipline_def
    by (auto simp: commitTransaction_def getConnectionState_def Let_def
        split: option.splits dbType.splits if_splits; blast)
qed

lemma rd_rollback:
  assumes "releaseDiscipline w"
  shows "releaseDiscipline (snd (rollbackTransaction i d w))"
proof (cases "activeConnections w i")
  case None
  with assms show ?thesis
    by (simp add: rollbackTransaction_def getConnectionState_def)
next
  case (Some st)
  with assms show ?thesis
    unfolding releaseDiscipline_def
    by (auto simp: rollbackTransaction_def getConnectionState_def Let_def
        split: option.splits dbType.splits if_splits; blast)
qed

lemma rd_disconnect:
  assumes "releaseDiscipline w"
  shows "releaseDiscipline (snd (disconnect i d w))"
proof (cases "activeConnections w i")
  case None
  with assms show ?thesis
    by (simp add: disconnect_def)
next
  case (Some st)
  with assms show ?thesis
    unfolding releaseDiscipline_def
    by (auto simp: disconnect_def Let_def
        split: option.splits dbType.splits if_splits; blast)
qed

lemma rd_fresh_release:
  assumes "releaseDiscipline w"
  shows "releaseDiscipline
           (emit [Query (nextHandle w) q, Release (nextHandle w)]
              ((emit [PoolConnect c] w)\<lparr>nextHandle := Suc (nextHandle w)\<rparr>))"
proof -
  have fresh: "Release (nextHandle w) \<notin> set (trace w)"
    using assms unfolding releaseDiscipline_def by blast
  then have zero: "count_list (trace w) (Release (nextHandle w)) = 0"
    by simp
  have one: "count_list (trace w) (Release h) \<le> 1" for h
    using assms unfolding releaseDiscipline_def by blast
  have stored: "c' < nextHandle w \<and> Release c' \<notin> set (trace w)"
    if "activeConnections w i = Some st" "transactionClient st = Some c'" for i st c'
    using assms that unfolding releaseDiscipline_def by blast
  have below: "h < nextHandle w" if "Release h \<in> set (trace w)" for h
    using assms that unfolding releaseDiscipline_def by blast
  have apart: "i = j"
    if "activeConnections w i = Some st" "activeConnections w j = Some st'"
       "transactionClient st = Some c'" "transactionClient st' = Some c'" for i j st st' c'
    using assms that unfolding releaseDiscipline_def by blast
  show ?thesis
    unfolding releaseDiscipline_def
  proof (intro conjI allI impI)
    fix h
    show "count_list (trace (emit [Query (nextHandle w) q, Release (nextHandle w)]
              ((emit [PoolConnect c] w)\<lparr>nextHandle := Suc (nextHandle w)\<rparr>))) (Release h) \<le> 1"
      using zero one [of h] by (cases "nextHandle w = h") (auto simp: emit_def)
  next
    fix h
    assume "Release h \<in> set (trace (emit [Query (nextHandle w) q, Release (nextHandle w)]
              ((emit [PoolConnect c] w)\<lparr>nextHandle := Suc (nextHandle w)\<rparr>)))"
    then have "h = nextHandle w \<or> Release h \<in> set (trace w)"
      by (auto simp: emit_def)
    then show "h < nextHandle (emit [Query (nextHandle w) q, Release (nextHandle w)]
              ((emit [PoolConnect c] w)\<lparr>nextHandle := Suc (nextHandle w)\<rparr>))"
      using below [of h] by (auto simp: emit_def)
  next
    fix i st c'
    assume "activeConnections (emit [Query (nextHandle w) q, Release (nextHandle w)]
              ((emit [PoolConnect c] w)\<lparr>nextHandle := Suc (nextHandle w)\<rparr>)) i = Some st"
      and tc: "transactionClient st = Some c'"
    then have "activeConnections w i = Some st"
      by (simp add: emit_def)
    from stored [OF this tc]
    show "c' < nextHandle (emit [Query (nextHandle w) q, Release (nextHandle w)]
              ((emit [PoolConnect c] w)\<lparr>nextHandle := Suc (nextHandle w)\<rparr>))"
      and "Release c' \<notin> set (trace (emit [Query (nextHandle w) q, Release (nextHandle w)]
              ((emit [PoolConnect c] w)\<lparr>nextHandle := Suc (nextHandle w)\<rparr>)))"
      by (auto simp: emit_def)
  next
    fix i j st st' c'
    assume "activeConnections (emit [Query (nextHandle w) q, Release (nextHandle w)]
              ((emit [PoolConnect c] w)\<lparr>nextHandle := Suc (nextHandle w)\<rparr>)) i = Some st"
      "activeConnections (emit [Query (nextHandle w) q, Release (nextHandle w)]
              ((emit [PoolConnect c] w)\<lparr>nextHandle := Suc (nextHandle w)\<rparr>)) j = Some st'"
      "transactionClient st = Some c'" "transactionClient st' = Some c'"
    then show "i = j"
      using apart [of i st j st' c'] by (simp add: emit_def)
  qed
qed

lemma rd_dispatch:
  assumes "releaseDiscipline w"
  shows "releaseDiscipline (snd (dispatch ty st c q d w))"
proof -
  consider evs where "snd (dispatch ty st c q d w) = emit evs w" "\<forall>h. Release h \<notin> set evs"
    | "snd (dispatch ty st c q d w)
         = emit [Query (nextHandle w) q, Release (nextHandle w)]
             ((emit [PoolConnect c] w)\<lparr>nextHandle := Suc (nextHandle w)\<rparr>)"
  proof (cases "ty = postgresql \<and> \<not> inTransaction st \<and> driverOf st \<noteq> sqlite
                  \<and> poolConnectResult d = None")
    case True
    then have "snd (dispatch ty st c q d w)
         = emit [Query (nextHandle w) q, Release (nextHandle w)]
             ((emit [PoolConnect c] w)\<lparr>nextHandle := Suc (nextHandle w)\<rparr>)"
      by (simp add: dispatch_def Let_def)
    then show ?thesis by (rule that(2))
  next
    case False
    define evs where "evs =
      (if (ty = sqlite) \<noteq> (driverOf st = sqlite) then []
       else (case ty of
               postgresql \<Rightarrow> if inTransaction st then [Query c q] else [PoolConnect c]
             | mysql \<Rightarrow> [Query c q]
             | sqlite \<Rightarrow> [AllCall c q]))"
    from False have "snd (dispatch ty st c q d w) = emit evs w"
      by (auto simp: dispatch_def Let_def evs_def emit_nothing split: dbType.splits option.splits)
    moreover have "\<forall>h. Release h \<notin> set evs"
      by (simp add: evs_def split: dbType.splits)
    ultimately show ?thesis by (rule that(1))
  qed
  then show ?thesis
    using assms by cases (simp_all add: rd_emit rd_fresh_release)
qed


lemma rd_execute:
  assumes "releaseDiscipline w"
  shows "releaseDiscipline (snd (executeAndShowResults cfg d q w))"
  by (rule executeAndShowResults_preserves [where Inv = releaseDiscipline])
     (use assms in \<open>simp_all add: rd_emit rd_result rd_count rd_begin rd_rollback rd_dispatch\<close>)

lemma rd_run:
  "releaseDiscipline w \<Longrightarrow> releaseDiscipline (run ops w)"
proof (induction ops arbitrary: w)
  case Nil
  then show ?case by (simp add: run_def)
next
  case (Cons a ops)
  obtain operation d where a: "a = (operation, d)"
    by (cases a) auto
  have "releaseDiscipline (step (operation, d) w)"
    using Cons.prems
    by (cases operation)
       (simp_all add: rd_connect rd_disconnect rd_begin rd_commit rd_rollback rd_execute)
  then have "releaseDiscipline (run ops (step (operation, d) w))"
    by (rule Cons.IH)
  then show ?case
    by (simp add: run_def a)
qed

lemma emit_emit: "emit evs2 (emit evs1 w) = emit (evs1 @ evs2) w"
  by (simp add: emit_def)

text \<open>
  C4, as stated, fails on the error path. When the \<open>COMMIT\<close> (or \<open>ROLLBACK\<close>) statement itself
  fails, \<open>commitTransaction\<close> (or \<open>rollbackTransaction\<close>) leaves through the \<open>await\<close> before
  \<open>client.release()\<close>: the client is not released and stays stored in the entry, which remains
  in its transaction.
\<close>

theorem no_release_when_commit_fails:
  "fst (commitTransaction ''pg'' cannotCommit pgInTransaction) = Inl boom
   \<and> trace (snd (commitTransaction ''pg'' cannotCommit pgInTransaction))
       = trace pgInTransaction @ [Query 1 ''COMMIT'']
   \<and> count_list (trace (snd (commitTransaction ''pg'' cannotCommit pgInTransaction))) (Release 1) = 0
   \<and> activeConnections (snd (commitTransaction ''pg'' cannotCommit pgInTransaction)) ''pg''
       = Some \<lparr>mainClient = 0, transactionClient = Some 1, uncommittedQueries = 0,
                dbType = postgresql, inTransaction = True\<rparr>
   \<and> fst (rollbackTransaction ''pg'' cannotRollback pgInTransaction) = Inl boom
   \<and> count_list (trace (snd (rollbackTransaction ''pg'' cannotRollback pgInTransaction))) (Release 1) = 0"
  by (simp add: model_defs input_defs cannotCommit_def cannotRollback_def)

text \<open>
  C4, amended. For a PostgreSQL connection in a transaction, a \<open>commitTransaction\<close> or
  \<open>rollbackTransaction\<close> whose statement succeeds releases the checked-out client exactly once,
  right after the statement, and clears the stored reference together with the transaction
  flag. When the statement fails, the error is the result, the client is not released and the
  entry is unchanged: the client stays stored and the transaction stays open. In every sequence
  of commands from the empty registry, whatever fails, no handle is released more than once.
\<close>

theorem transaction_client_release:
  "(activeConnections w i = Some st \<and> dbType st = postgresql \<and> inTransaction st
      \<and> transactionClient st = Some client
    \<longrightarrow> (commitResult d1 = None \<longrightarrow>
           commitTransaction i d1 w
             = (Inr (), setState i (st\<lparr>transactionClient := None, inTransaction := False,
                                       uncommittedQueries := 0\<rparr>)
                          (emit [Query client ''COMMIT'', Release client] w)))
      \<and> (commitResult d2 = Some e2 \<longrightarrow>
           commitTransaction i d2 w = (Inl e2, emit [Query client ''COMMIT''] w))
      \<and> (rollbackResult d3 = None \<longrightarrow>
           rollbackTransaction i d3 w
             = (Inr (), setState i (st\<lparr>transactionClient := None, inTransaction := False,
                                       uncommittedQueries := 0\<rparr>)
                          (emit [Query client ''ROLLBACK'', Release client] w)))
      \<and> (rollbackResult d4 = Some e4 \<longrightarrow>
           rollbackTransaction i d4 w = (Inl e4, emit [Query client ''ROLLBACK''] w)))
   \<and> count_list (trace (run ops initial)) (Release h) \<le> 1"
proof -
  have "releaseDiscipline initial"
    by (simp add: releaseDiscipline_def initial_def)
  then have "releaseDiscipline (run ops initial)"
    by (rule rd_run)
  then have "count_list (trace (run ops initial)) (Release h) \<le> 1"
    unfolding releaseDiscipline_def by blast
  then show ?thesis
    by (simp add: commitTransaction_def rollbackTransaction_def getConnectionState_def
        Let_def emit_emit)
qed

theorem transaction_client_release_witness:
  "activeConnections pgInTransaction ''pg''
     = Some (pgIdle\<lparr>transactionClient := Some 1, inTransaction := True\<rparr>)
   \<and> commitTransaction ''pg'' allOk pgInTransaction
       = (Inr (), setState ''pg'' pgIdle (emit [Query 1 ''COMMIT'', Release 1] pgInTransaction))
   \<and> commitTransaction ''pg'' cannotCommit pgInTransaction
       = (Inl boom, emit [Query 1 ''COMMIT''] pgInTransaction)
   \<and> rollbackTransaction ''pg'' allOk pgInTransaction
       = (Inr (), setState ''pg'' pgIdle (emit [Query 1 ''ROLLBACK'', Release 1] pgInTransaction))
   \<and> rollbackTransaction ''pg'' cannotRollback pgInTransaction
       = (Inl boom, emit [Query 1 ''ROLLBACK''] pgInTransaction)
   \<and> count_list (trace (run [(OpConnect pgProfile, allOk), (OpBeginTransaction ''pg'', allOk),
                               (OpCommitTransaction ''pg'', cannotCommit),
                               (OpRollbackTransaction ''pg'', allOk),
                               (OpDisconnect ''pg'', allOk)] initial)) (Release 1) \<le> 1"
proof -
  have h: "activeConnections pgInTransaction ''pg''
      = Some (pgIdle\<lparr>transactionClient := Some 1, inTransaction := True\<rparr>)"
    by (simp add: model_defs input_defs)
  have g: "dbType (pgIdle\<lparr>transactionClient := Some 1, inTransaction := True\<rparr>) = postgresql"
    "commitResult allOk = None" "commitResult cannotCommit = Some boom"
    "rollbackResult allOk = None" "rollbackResult cannotRollback = Some boom"
    "pgIdle\<lparr>transactionClient := Some 1, inTransaction := True, transactionClient := None,
        inTransaction := False, uncommittedQueries := 0\<rparr> = pgIdle"
    by (simp_all add: pgIdle_def allOk_def cannotCommit_def cannotRollback_def)
  from transaction_client_release [where w = pgInTransaction and i = "''pg''"
      and st = "pgIdle\<lparr>transactionClient := Some 1, inTransaction := True\<rparr>" and client = 1
      and ?d1.0 = allOk and ?d2.0 = cannotCommit and ?e2.0 = boom
      and ?d3.0 = allOk and ?d4.0 = cannotRollback and ?e4.0 = boom
      and ops = "[(OpConnect pgProfile, allOk), (OpBeginTransaction ''pg'', allOk),
                  (OpCommitTransaction ''pg'', cannotCommit),
                  (OpRollbackTransaction ''pg'', allOk),
                  (OpDisconnect ''pg'', allOk)]" and h = 1] h g
  show ?thesis by simp
qed


subsection \<open>The auto-commit policy\<close>

lemma opensNone_execute:
  assumes "autoCommit cfg = Auto" and "opensNone w0 w"
  shows "opensNone w0 (snd (executeAndShowResults cfg d q w))"
proof (rule executeAndShowResults_preserves [where Inv = "opensNone w0"])
  show "opensNone w0 (setState i (st\<lparr>uncommittedQueries := Suc (uncommittedQueries st)\<rparr>) w)"
    if "opensNone w0 w" "activeConnections w i = Some st" for w i st
    using that by (auto simp: opensNone_def)
  show "opensNone w0 (snd (rollbackTransaction i d w))" if a: "opensNone w0 w" for w i
  proof (cases "activeConnections w i")
    case None
    with a show ?thesis
      by (simp add: rollbackTransaction_def getConnectionState_def)
  next
    case (Some st)
    with a show ?thesis
      by (auto simp: opensNone_def rollbackTransaction_def getConnectionState_def Let_def
          split: option.splits dbType.splits if_splits)
  qed
  show "opensNone w0 (snd (dispatch ty st c q d w))" if "opensNone w0 w" for w ty st c
    using that dispatch_registry [of ty st c q d w] by (simp add: opensNone_def)
qed (use assms in \<open>simp_all add: opensNone_def\<close>)

lemma opensNone_run:
  "autoOnly ops \<Longrightarrow> opensNone w0 w \<Longrightarrow> opensNone w0 (run ops w)"
proof (induction ops arbitrary: w)
  case Nil
  then show ?case by (simp add: run_def)
next
  case (Cons a ops)
  from Cons.prems(1) obtain cfg q d where a: "a = (OpExecute cfg q, d)" "autoCommit cfg = Auto"
    by (cases a; cases "fst a") (auto simp: autoOnly_def)
  from Cons.prems(1) have rest: "autoOnly ops"
    by (simp add: autoOnly_def)
  have "opensNone w0 (step a w)"
    using a Cons.prems(2) by (simp add: opensNone_execute)
  with rest have "opensNone w0 (run ops (step a w))"
    by (rule Cons.IH)
  then show ?case
    by (simp add: run_def)
qed

lemma header_autoCommit [simp]: "header (cfg\<lparr>autoCommit := a\<rparr>) = header cfg"
  by (rule ext)+ (simp add: header_def Let_def cong: option.case_cong)

lemma display_autoCommit [simp]: "display (cfg\<lparr>autoCommit := a\<rparr>) = display cfg"
  by (rule ext)+ (simp add: display_def Let_def cong: if_cong)

lemma report_autoCommit [simp]: "report (cfg\<lparr>autoCommit := a\<rparr>) = report cfg"
  by (rule ext)+ (simp add: report_def Let_def cong: sum.case_cong extracted.case_cong)

lemma catchBlock_autoCommit [simp]: "catchBlock (cfg\<lparr>autoCommit := a\<rparr>) = catchBlock cfg"
  by (rule ext)+ (simp add: catchBlock_def cong: option.case_cong prod.case_cong sum.case_cong)

lemma getDbClient_autoCommit [simp]: "getDbClient (cfg\<lparr>autoCommit := a\<rparr>) = getDbClient cfg"
  by (rule ext)+ (simp add: getDbClient_def cong: option.case_cong if_cong)

lemma applyPolicy_Auto:
  "applyPolicy (cfg\<lparr>autoCommit := Auto\<rparr>) d q prof st w = (Inr (Some st), w)"
  by (simp add: applyPolicy_def)

lemma tryBlock_after_policy:
  assumes "find (\<lambda>c. Some (conn_id c) = activeConnection cfg) (connections cfg) = Some prof"
    and "applyPolicy cfg d q prof st0 w = (Inr (Some st1), w1)"
  shows "tryBlock cfg d q st0 w = tryBlock (cfg\<lparr>autoCommit := Auto\<rparr>) d q st1 w1"
  using assms
  by (simp add: tryBlock_def applyPolicy_Auto cong: option.case_cong prod.case_cong sum.case_cong)

lemma begin_failure_registry:
  assumes "beginTransaction i d w = (Inl e, w1)"
  shows "activeConnections w1 = activeConnections w"
  using assms
  by (auto simp: beginTransaction_def getConnectionState_def Let_def
      split: option.splits dbType.splits if_splits)

lemma begin_success_entry:
  assumes "beginTransaction i d w = (Inr u, w1)" and "activeConnections w i = Some st"
    and "\<not> inTransaction st"
  shows "\<exists>st'. activeConnections w1 i = Some st' \<and> inTransaction st' \<and> uncommittedQueries st' = 0"
  using assms
  by (auto simp: beginTransaction_def getConnectionState_def Let_def
      split: option.splits dbType.splits if_splits)

lemma live_profile:
  assumes "getDbClient cfg d w = (Inr st, w)" and "activeConnection cfg = Some aid"
  shows "\<exists>prof. find (\<lambda>c. Some (conn_id c) = activeConnection cfg) (connections cfg) = Some prof
           \<and> conn_id prof = aid \<and> activeConnections w aid = Some st \<and> aid \<noteq> []"
proof -
  have eq: "(\<lambda>c. Some (conn_id c) = activeConnection cfg) = (\<lambda>c. conn_id c = aid)"
    using assms(2) by auto
  from assms show ?thesis
    unfolding eq
    by (auto simp: getDbClient_def getConnectionState_def find_Some_iff
        split: option.splits if_splits)
qed

lemma execute_like_auto:
  assumes live: "getDbClient cfg d w = (Inr st, w)" and active: "activeConnection cfg = Some aid"
    and idle: "inTransaction st \<or> autoCommit cfg = Auto
        \<or> (autoCommit cfg = Smart \<and> startsWith (toLowerCase (trim q)) ''select'')"
  shows "executeAndShowResults cfg d q w = executeAndShowResults (cfg\<lparr>autoCommit := Auto\<rparr>) d q w"
proof -
  from live active obtain prof where
    p: "find (\<lambda>c. Some (conn_id c) = activeConnection cfg) (connections cfg) = Some prof"
    using live_profile by blast
  have "applyPolicy cfg d q prof st w = (Inr (Some st), w)"
    using idle by (cases "autoCommit cfg") (auto simp: applyPolicy_def)
  with p have "tryBlock cfg d q st w = tryBlock (cfg\<lparr>autoCommit := Auto\<rparr>) d q st w"
    by (rule tryBlock_after_policy)
  with live show ?thesis
    by (simp add: executeAndShowResults_def split: prod.splits sum.splits)
qed

lemma execute_begins_first:
  assumes live: "getDbClient cfg d w = (Inr st, w)" and active: "activeConnection cfg = Some aid"
    and idle: "\<not> inTransaction st"
    and policy: "autoCommit cfg = Off
        \<or> (autoCommit cfg = Smart \<and> \<not> startsWith (toLowerCase (trim q)) ''select'')"
  shows "executeAndShowResults cfg d q w =
     (case beginTransaction aid d w of
        (Inl e, w1) \<Rightarrow> (Inr (), emit [ShowErrorMessage (''Query failed: '' @ message e)] w1)
      | (Inr u, w1) \<Rightarrow> executeAndShowResults (cfg\<lparr>autoCommit := Auto\<rparr>) d q w1)"
proof -
  from live active obtain prof where
    p: "find (\<lambda>c. Some (conn_id c) = activeConnection cfg) (connections cfg) = Some prof"
    and aid: "conn_id prof = aid" and entry: "activeConnections w aid = Some st" and ne: "aid \<noteq> []"
    using live_profile by blast
  obtain r w1 where b: "beginTransaction aid d w = (r, w1)"
    by (cases "beginTransaction aid d w") auto
  show ?thesis
  proof (cases r)
    case (Inl e)
    with b have reg: "activeConnections w1 = activeConnections w"
      using begin_failure_registry by blast
    have "applyPolicy cfg d q prof st w = (Inl e, w1)"
      using idle policy b Inl aid by (auto simp: applyPolicy_def)
    with p have "tryBlock cfg d q st w = (Inl e, w1)"
      by (simp add: tryBlock_def)
    with live active reg entry idle b Inl show ?thesis
      by (simp add: executeAndShowResults_def catchBlock_def getConnectionState_def)
  next
    case (Inr u)
    with b entry idle obtain st1 where st1: "activeConnections w1 aid = Some st1"
      using begin_success_entry by blast
    have "applyPolicy cfg d q prof st w = (Inr (Some st1), w1)"
      using idle policy b Inr aid st1 by (auto simp: applyPolicy_def getConnectionState_def)
    with p have t: "tryBlock cfg d q st w = tryBlock (cfg\<lparr>autoCommit := Auto\<rparr>) d q st1 w1"
      by (rule tryBlock_after_policy)
    have "find (\<lambda>c. conn_id c = aid) (connections cfg) = Some prof"
      using p active by (simp add: eq_commute)
    with active ne aid st1 have g: "getDbClient cfg d w1 = (Inr st1, w1)"
      by (simp add: getDbClient_def getConnectionState_def)
    have "executeAndShowResults cfg d q w
        = (case tryBlock cfg d q st w of
             (Inr u, w2) \<Rightarrow> (Inr u, w2)
           | (Inl error, w2) \<Rightarrow> catchBlock cfg d (getConnectionState aid w2) error w2)"
      using live active by (simp add: executeAndShowResults_def split: prod.splits sum.splits)
    also have "\<dots> = executeAndShowResults (cfg\<lparr>autoCommit := Auto\<rparr>) d q w1"
      using g active t by (simp add: executeAndShowResults_def split: prod.splits sum.splits)
    finally show ?thesis
      using b Inr by simp
  qed
qed


text \<open>
  C1. The decision taken before each statement, for a live active connection in state \<open>st\<close>:
  under \<open>off\<close>, and under \<open>smart\<close> when the trimmed statement does not start with \<open>select\<close> in
  any letter case, an idle connection first runs \<open>beginTransaction\<close>; if that fails the bare
  failure is shown, otherwise the statement then runs exactly as under \<open>auto\<close> from the world
  that \<open>beginTransaction\<close> left, in which the connection is in a transaction with no uncommitted
  statement. In every other case (policy \<open>auto\<close>, a connection already in a transaction, a
  SELECT under \<open>smart\<close>) the statement runs exactly as under \<open>auto\<close>. Under \<open>auto\<close> no
  transaction is ever opened: after any sequence of statements, with any outcomes, an entry that
  is in a transaction was in a transaction before the sequence; so is it after one SELECT under
  \<open>smart\<close>.
\<close>

theorem autocommit_policy:
  "(autoOnly ops \<longrightarrow> opensNone w0 (run ops w0))
   \<and> (getDbClient cfg d w = (Inr st, w) \<and> activeConnection cfg = Some aid
        \<longrightarrow> executeAndShowResults cfg d q w =
             (if \<not> inTransaction st
                   \<and> (autoCommit cfg = Off
                        \<or> (autoCommit cfg = Smart \<and> \<not> startsWith (toLowerCase (trim q)) ''select''))
              then (case beginTransaction aid d w of
                      (Inl e, w1) \<Rightarrow>
                        (Inr (), emit [ShowErrorMessage (''Query failed: '' @ message e)] w1)
                    | (Inr u, w1) \<Rightarrow> executeAndShowResults (cfg\<lparr>autoCommit := Auto\<rparr>) d q w1)
              else executeAndShowResults (cfg\<lparr>autoCommit := Auto\<rparr>) d q w))
   \<and> (getDbClient cfg3 d3 w3 = (Inr st3, w3) \<and> activeConnection cfg3 = Some aid3
          \<and> autoCommit cfg3 = Smart \<and> startsWith (toLowerCase (trim q3)) ''select''
        \<longrightarrow> opensNone w3 (snd (executeAndShowResults cfg3 d3 q3 w3)))
   \<and> (activeConnections w2 i2 = Some st2 \<and> \<not> inTransaction st2
          \<and> beginTransaction i2 d2 w2 = (Inr u2, w2')
        \<longrightarrow> (\<exists>st'. activeConnections w2' i2 = Some st' \<and> inTransaction st'
                  \<and> uncommittedQueries st' = 0))"
proof (intro conjI impI)
  assume "autoOnly ops"
  moreover have "opensNone w0 w0"
    by (auto simp: opensNone_def)
  ultimately show "opensNone w0 (run ops w0)"
    by (rule opensNone_run)
next
  assume a: "getDbClient cfg d w = (Inr st, w) \<and> activeConnection cfg = Some aid"
  show "executeAndShowResults cfg d q w =
             (if \<not> inTransaction st
                   \<and> (autoCommit cfg = Off
                        \<or> (autoCommit cfg = Smart \<and> \<not> startsWith (toLowerCase (trim q)) ''select''))
              then (case beginTransaction aid d w of
                      (Inl e, w1) \<Rightarrow>
                        (Inr (), emit [ShowErrorMessage (''Query failed: '' @ message e)] w1)
                    | (Inr u, w1) \<Rightarrow> executeAndShowResults (cfg\<lparr>autoCommit := Auto\<rparr>) d q w1)
              else executeAndShowResults (cfg\<lparr>autoCommit := Auto\<rparr>) d q w)"
  proof (cases "\<not> inTransaction st
                   \<and> (autoCommit cfg = Off
                        \<or> (autoCommit cfg = Smart \<and> \<not> startsWith (toLowerCase (trim q)) ''select''))")
    case True
    with a have "executeAndShowResults cfg d q w =
        (case beginTransaction aid d w of
           (Inl e, w1) \<Rightarrow>
             (Inr (), emit [ShowErrorMessage (''Query failed: '' @ message e)] w1)
         | (Inr u, w1) \<Rightarrow> executeAndShowResults (cfg\<lparr>autoCommit := Auto\<rparr>) d q w1)"
      using execute_begins_first [of cfg d w st aid q] by blast
    then show ?thesis
      unfolding if_P [OF True] .
  next
    case False
    then have "inTransaction st \<or> autoCommit cfg = Auto
        \<or> (autoCommit cfg = Smart \<and> startsWith (toLowerCase (trim q)) ''select'')"
      by (cases "autoCommit cfg") auto
    with a have "executeAndShowResults cfg d q w
        = executeAndShowResults (cfg\<lparr>autoCommit := Auto\<rparr>) d q w"
      using execute_like_auto [of cfg d w st aid q] by blast
    then show ?thesis
      unfolding if_not_P [OF False] .
  qed
next
  assume a: "getDbClient cfg3 d3 w3 = (Inr st3, w3) \<and> activeConnection cfg3 = Some aid3
          \<and> autoCommit cfg3 = Smart \<and> startsWith (toLowerCase (trim q3)) ''select''"
  then have "executeAndShowResults cfg3 d3 q3 w3
      = executeAndShowResults (cfg3\<lparr>autoCommit := Auto\<rparr>) d3 q3 w3"
    using execute_like_auto [of cfg3 d3 w3 st3 aid3 q3] by simp
  moreover have "opensNone w3 (snd (executeAndShowResults (cfg3\<lparr>autoCommit := Auto\<rparr>) d3 q3 w3))"
    by (rule opensNone_execute) (auto simp: opensNone_def)
  ultimately show "opensNone w3 (snd (executeAndShowResults cfg3 d3 q3 w3))"
    by simp
next
  assume "activeConnections w2 i2 = Some st2 \<and> \<not> inTransaction st2
          \<and> beginTransaction i2 d2 w2 = (Inr u2, w2')"
  then show "\<exists>st'. activeConnections w2' i2 = Some st' \<and> inTransaction st'
                  \<and> uncommittedQueries st' = 0"
    using begin_success_entry by blast
qed

theorem autocommit_policy_witness:
  "autoOnly threeUpdates
   \<and> opensNone connectedPg (run threeUpdates connectedPg)
   \<and> activeConnections (run threeUpdates connectedPg) ''pg'' = Some pgIdle
   \<and> getDbClient (settings ''pg'' Smart) allOk connectedPg = (Inr pgIdle, connectedPg)
   \<and> executeAndShowResults (settings ''pg'' Smart) allOk ''UPDATE t SET a = 1'' connectedPg
       = executeAndShowResults (settings ''pg'' Auto) allOk ''UPDATE t SET a = 1'' pgInTransaction
   \<and> executeAndShowResults (settings ''pg'' Off) allOk ''select 1'' connectedPg
       = executeAndShowResults (settings ''pg'' Auto) allOk ''select 1'' pgInTransaction
   \<and> executeAndShowResults (settings ''pg'' Smart) allOk ''  Select 1'' connectedPg
       = executeAndShowResults (settings ''pg'' Auto) allOk ''  Select 1'' connectedPg
   \<and> opensNone connectedPg
       (snd (executeAndShowResults (settings ''pg'' Smart) allOk ''  Select 1'' connectedPg))
   \<and> (\<exists>st'. activeConnections pgInTransaction ''pg'' = Some st' \<and> inTransaction st'
                  \<and> uncommittedQueries st' = 0)"
proof -
  have auto3: "autoOnly threeUpdates"
    by (simp add: autoOnly_def threeUpdates_def settings_def)
  have idle3: "activeConnections (run threeUpdates connectedPg) ''pg'' = Some pgIdle"
    by (simp add: model_defs input_defs threeUpdates_def)
  have "fst (getDbClient (settings ''pg'' Smart) allOk connectedPg) = Inr pgIdle"
    by (simp add: model_defs input_defs)
  then have live: "getDbClient (settings ''pg'' Smart) allOk connectedPg = (Inr pgIdle, connectedPg)"
    using getDbClient_Inr [of "settings ''pg'' Smart" allOk connectedPg pgIdle
        "snd (getDbClient (settings ''pg'' Smart) allOk connectedPg)"]
    by (simp add: prod_eq_iff)
  then have liveOff: "getDbClient (settings ''pg'' Off) allOk connectedPg = (Inr pgIdle, connectedPg)"
    by (simp add: getDbClient_def settings_def)
  have act: "activeConnection (settings ''pg'' Smart) = Some ''pg''"
    "activeConnection (settings ''pg'' Off) = Some ''pg''"
    "autoCommit (settings ''pg'' Smart) = Smart" "autoCommit (settings ''pg'' Off) = Off"
    "(settings ''pg'' Smart)\<lparr>autoCommit := Auto\<rparr> = settings ''pg'' Auto"
    "(settings ''pg'' Off)\<lparr>autoCommit := Auto\<rparr> = settings ''pg'' Auto"
    "\<not> inTransaction pgIdle"
    by (simp_all add: settings_def pgIdle_def)
  have sel: "\<not> startsWith (toLowerCase (trim ''UPDATE t SET a = 1'')) ''select''"
    "startsWith (toLowerCase (trim ''  Select 1'')) ''select''"
    by code_simp+
  have entry: "activeConnections connectedPg ''pg'' = Some pgIdle"
    by (simp add: model_defs input_defs)
  have "fst (beginTransaction ''pg'' allOk connectedPg) = Inr ()"
    by (simp add: model_defs input_defs)
  then have beg: "beginTransaction ''pg'' allOk connectedPg = (Inr (), pgInTransaction)"
    by (simp add: pgInTransaction_def prod_eq_iff)
  note inst = autocommit_policy [where ops = threeUpdates and ?w0.0 = connectedPg
      and d = allOk and w = connectedPg and st = pgIdle and aid = "''pg''"
      and ?cfg3.0 = "settings ''pg'' Smart" and ?d3.0 = allOk and ?w3.0 = connectedPg
      and ?st3.0 = pgIdle and ?aid3.0 = "''pg''" and ?q3.0 = "''  Select 1''"
      and ?w2.0 = connectedPg and ?i2.0 = "''pg''" and ?st2.0 = pgIdle and ?d2.0 = allOk
      and ?u2.0 = "()" and w2' = pgInTransaction]
  from inst [where cfg = "settings ''pg'' Smart" and q = "''UPDATE t SET a = 1''"]
    inst [where cfg = "settings ''pg'' Off" and q = "''select 1''"]
    inst [where cfg = "settings ''pg'' Smart" and q = "''  Select 1''"]
    auto3 idle3 live liveOff act sel entry beg
  show ?thesis by simp
qed


subsection \<open>A statement that fails\<close>

lemma rollback_success_entry:
  assumes "rollbackTransaction i d w = (Inr u, w')" and "activeConnections w i = Some st"
    and "inTransaction st"
  shows "\<exists>st'. activeConnections w' i = Some st' \<and> \<not> inTransaction st'
           \<and> uncommittedQueries st' = 0"
  using assms
  by (auto simp: rollbackTransaction_def getConnectionState_def Let_def
      split: option.splits dbType.splits if_splits)

lemma rollback_failure_frame:
  assumes "rollbackTransaction i d w = (Inl r, w')"
  shows "activeConnections w' = activeConnections w
       \<and> (ShowErrorMessage m \<in> set (trace w') \<longrightarrow> ShowErrorMessage m \<in> set (trace w))"
  using assms
  by (auto simp: rollbackTransaction_def getConnectionState_def Let_def
      split: option.splits dbType.splits if_splits)

lemma policy_entry:
  assumes "applyPolicy cfg d q prof st0 w = (Inr (Some st), w1)"
    and "activeConnections w (conn_id prof) = Some st0"
  shows "activeConnections w1 (conn_id prof) = Some st"
  using assms
  by (auto simp: applyPolicy_def Let_def getConnectionState_def
      split: if_splits prod.splits sum.splits)

lemma policy_flag:
  assumes policy: "applyPolicy cfg d q prof st0 w = (Inr (Some st), w1)"
    and entry: "activeConnections w (conn_id prof) = Some st0"
  shows "inTransaction st \<longleftrightarrow>
           inTransaction st0 \<or> autoCommit cfg = Off
             \<or> (autoCommit cfg = Smart \<and> \<not> startsWith (toLowerCase (trim q)) ''select'')"
proof (cases "\<not> inTransaction st0
                \<and> (autoCommit cfg = Off
                     \<or> (autoCommit cfg = Smart \<and> \<not> startsWith (toLowerCase (trim q)) ''select''))")
  case True
  with policy obtain u where b: "beginTransaction (conn_id prof) d w = (Inr u, w1)"
    and s: "activeConnections w1 (conn_id prof) = Some st"
    by (auto simp: applyPolicy_def Let_def getConnectionState_def
        split: if_splits prod.splits sum.splits)
  from b entry True obtain st' where "activeConnections w1 (conn_id prof) = Some st'"
      "inTransaction st'"
    using begin_success_entry by blast
  with s True show ?thesis
    by auto
next
  case False
  then have "applyPolicy cfg d q prof st0 w = (Inr (Some st0), w)"
    by (cases "autoCommit cfg") (auto simp: applyPolicy_def)
  with policy have "st = st0"
    by simp
  with False show ?thesis
    by (cases "autoCommit cfg") auto
qed

text \<open>
  C2, as stated, fails in its last part. The handler awaits \<open>rollbackTransaction\<close> before it
  shows anything (lines 231 and 232): when the rollback rejects as well, its error leaves
  \<open>executeAndShowResults\<close> and no message is shown, so the failure of the query is not reported.
  Here the transaction holds two uncommitted statements; afterwards it is still open.
\<close>

theorem query_failure_lost_when_rollback_fails:
  "activeConnections twoInserts ''pg''
     = Some \<lparr>mainClient = 0, transactionClient = Some 1, uncommittedQueries = 2,
              dbType = postgresql, inTransaction = True\<rparr>
   \<and> fst (executeAndShowResults (settings ''pg'' Off) queryAndRollbackFail
            ''INSERT INTO t VALUES (2)'' twoInserts) = Inl boom
   \<and> trace (snd (executeAndShowResults (settings ''pg'' Off) queryAndRollbackFail
                   ''INSERT INTO t VALUES (2)'' twoInserts))
       = trace twoInserts @ [Query 1 ''INSERT INTO t VALUES (2)'', Query 1 ''ROLLBACK'']
   \<and> activeConnections (snd (executeAndShowResults (settings ''pg'' Off) queryAndRollbackFail
                               ''INSERT INTO t VALUES (2)'' twoInserts)) ''pg''
       = Some \<lparr>mainClient = 0, transactionClient = Some 1, uncommittedQueries = 2,
                dbType = postgresql, inTransaction = True\<rparr>"
  by (simp add: model_defs input_defs twoInserts_def queryAndRollbackFail_def duplicateKey_def)

text \<open>
  C2, amended. Let the driver reject the statement of a live active connection with error \<open>e\<close>,
  under any policy. The connection is in a transaction when the statement is dispatched exactly
  if it was in one before the call or the policy has just opened one for this statement (policy
  \<open>off\<close>, or \<open>smart\<close> with a statement that does not start with \<open>select\<close>). If it is, the
  executor calls \<open>rollbackTransaction\<close>. When that returns, the connection is left with
  \<open>inTransaction = false\<close> and no uncommitted statement, and one message is shown,
  \<open>Query failed and transaction was rolled back:\<close> followed by the message of \<open>e\<close>. When the
  rollback rejects too, its error is the result of the executor, no message is added and the
  registry is as before the rollback, so the connection stays in its transaction. If the
  connection is not in a transaction when the statement is dispatched, only \<open>Query failed:\<close>
  with the message of \<open>e\<close> is shown.
\<close>

theorem failure_rollback:
  assumes live: "getDbClient cfg d w = (Inr st0, w)"
    and active: "activeConnection cfg = Some aid"
    and prof: "find (\<lambda>c. Some (conn_id c) = activeConnection cfg) (connections cfg) = Some prof"
    and policy: "applyPolicy cfg d q prof st0 w = (Inr (Some st), w1)"
    and client: "getClient aid w1 = Some client"
    and fails: "dispatch (conn_dbType prof) st client q d w1 = (Inl e, w2)"
  shows "(inTransaction st \<longleftrightarrow>
            inTransaction st0 \<or> autoCommit cfg = Off
              \<or> (autoCommit cfg = Smart \<and> \<not> startsWith (toLowerCase (trim q)) ''select''))
       \<and> (inTransaction st \<longrightarrow>
            executeAndShowResults cfg d q w =
              (case rollbackTransaction aid d w2 of
                 (Inl r, w3) \<Rightarrow> (Inl r, w3)
               | (Inr u, w3) \<Rightarrow>
                   (Inr (), emit [ShowErrorMessage
                                    (''Query failed and transaction was rolled back: '' @ message e)] w3)))
       \<and> (inTransaction st \<and> rollbackTransaction aid d w2 = (Inr u, w3)
            \<longrightarrow> (\<exists>st3. activeConnections w3 aid = Some st3 \<and> \<not> inTransaction st3
                      \<and> uncommittedQueries st3 = 0))
       \<and> (inTransaction st \<and> rollbackTransaction aid d w2 = (Inl r, w4)
            \<longrightarrow> executeAndShowResults cfg d q w = (Inl r, w4)
                \<and> activeConnections w4 = activeConnections w2
                \<and> activeConnections w4 aid = Some st
                \<and> (\<forall>m. ShowErrorMessage m \<in> set (trace w4) \<longrightarrow> ShowErrorMessage m \<in> set (trace w2)))
       \<and> (\<not> inTransaction st
            \<longrightarrow> executeAndShowResults cfg d q w
                  = (Inr (), emit [ShowErrorMessage (''Query failed: '' @ message e)] w2))"
proof -
  from live active have entry: "activeConnections w aid = Some st0" and ne: "aid \<noteq> []"
    using live_profile by blast+
  from prof active have aid: "conn_id prof = aid"
    by (auto simp: find_Some_iff)
  have reg1: "activeConnections w1 aid = Some st"
    using policy_entry [OF policy] entry aid by simp
  have reg2: "activeConnections w2 aid = Some st"
    using dispatch_registry [of "conn_dbType prof" st client q d w1] fails reg1 by simp
  have thrown: "tryBlock cfg d q st0 w = (Inl e, w2)"
    using prof policy aid client fails by (simp add: tryBlock_def)
  have handler: "executeAndShowResults cfg d q w = catchBlock cfg d (Some st) e w2"
    using live active thrown reg2
    by (simp add: executeAndShowResults_def getConnectionState_def)
  have flag: "inTransaction st \<longleftrightarrow>
            inTransaction st0 \<or> autoCommit cfg = Off
              \<or> (autoCommit cfg = Smart \<and> \<not> startsWith (toLowerCase (trim q)) ''select'')"
    using policy_flag [OF policy] entry aid by simp
  have rolled: "executeAndShowResults cfg d q w =
              (case rollbackTransaction aid d w2 of
                 (Inl r, w3) \<Rightarrow> (Inl r, w3)
               | (Inr u, w3) \<Rightarrow>
                   (Inr (), emit [ShowErrorMessage
                                    (''Query failed and transaction was rolled back: '' @ message e)] w3))"
    if "inTransaction st"
    using that handler active ne
    by (simp add: catchBlock_def split: prod.splits sum.splits)
  show ?thesis
  proof (intro conjI impI)
    show "inTransaction st \<longleftrightarrow>
            inTransaction st0 \<or> autoCommit cfg = Off
              \<or> (autoCommit cfg = Smart \<and> \<not> startsWith (toLowerCase (trim q)) ''select'')"
      by (rule flag)
  next
    assume "inTransaction st"
    then show "executeAndShowResults cfg d q w =
              (case rollbackTransaction aid d w2 of
                 (Inl r, w3) \<Rightarrow> (Inl r, w3)
               | (Inr u, w3) \<Rightarrow>
                   (Inr (), emit [ShowErrorMessage
                                    (''Query failed and transaction was rolled back: '' @ message e)] w3))"
      by (rule rolled)
  next
    assume "inTransaction st \<and> rollbackTransaction aid d w2 = (Inr u, w3)"
    then show "\<exists>st3. activeConnections w3 aid = Some st3 \<and> \<not> inTransaction st3
                      \<and> uncommittedQueries st3 = 0"
      using rollback_success_entry reg2 by blast
  next
    assume a: "inTransaction st \<and> rollbackTransaction aid d w2 = (Inl r, w4)"
    then show "executeAndShowResults cfg d q w = (Inl r, w4)"
      using rolled by simp
    from a show frame: "activeConnections w4 = activeConnections w2"
      using rollback_failure_frame by blast
    with reg2 show "activeConnections w4 aid = Some st"
      by simp
    from a show "\<forall>m. ShowErrorMessage m \<in> set (trace w4) \<longrightarrow> ShowErrorMessage m \<in> set (trace w2)"
      using rollback_failure_frame by blast
  next
    assume "\<not> inTransaction st"
    then show "executeAndShowResults cfg d q w
                  = (Inr (), emit [ShowErrorMessage (''Query failed: '' @ message e)] w2)"
      using handler active by (simp add: catchBlock_def)
  qed
qed


theorem failure_rollback_witness:
  "getDbClient (settings ''pg'' Off) queryFails twoInserts = (Inr twoUncommitted, twoInserts)
   \<and> applyPolicy (settings ''pg'' Off) queryFails secondInsert pgProfile twoUncommitted twoInserts
       = (Inr (Some twoUncommitted), twoInserts)
   \<and> dispatch postgresql twoUncommitted 1 secondInsert queryFails twoInserts
       = (Inl duplicateKey, emit [Query 1 secondInsert] twoInserts)
   \<and> executeAndShowResults (settings ''pg'' Off) queryFails secondInsert twoInserts
       = (Inr (), emit [ShowErrorMessage
                          (''Query failed and transaction was rolled back: '' @ message duplicateKey)]
                    (snd (rollbackTransaction ''pg'' queryFails (emit [Query 1 secondInsert] twoInserts))))
   \<and> (\<exists>st3. activeConnections
               (snd (rollbackTransaction ''pg'' queryFails (emit [Query 1 secondInsert] twoInserts))) ''pg''
               = Some st3 \<and> \<not> inTransaction st3 \<and> uncommittedQueries st3 = 0)
   \<and> executeAndShowResults (settings ''pg'' Off) queryAndRollbackFail secondInsert twoInserts
       = (Inl boom, snd (rollbackTransaction ''pg'' queryAndRollbackFail
                           (emit [Query 1 secondInsert] twoInserts)))
   \<and> activeConnections (snd (rollbackTransaction ''pg'' queryAndRollbackFail
                               (emit [Query 1 secondInsert] twoInserts))) ''pg''
       = Some twoUncommitted
   \<and> executeAndShowResults (settings ''pg'' Auto) queryFails secondInsert connectedPg
       = (Inr (), emit [ShowErrorMessage (''Query failed: '' @ message duplicateKey)]
                    (snd (dispatch postgresql pgIdle 0 secondInsert queryFails connectedPg)))
   \<and> applyPolicy (settings ''pg'' Off) queryFails secondInsert pgProfile pgIdle connectedPg
       = (Inr (Some (pgIdle\<lparr>transactionClient := Some 1, inTransaction := True\<rparr>)), pgInTransaction)
   \<and> executeAndShowResults (settings ''pg'' Off) queryFails secondInsert connectedPg
       = (Inr (), emit [ShowErrorMessage
                          (''Query failed and transaction was rolled back: '' @ message duplicateKey)]
                    (snd (rollbackTransaction ''pg'' queryFails
                            (emit [Query 1 secondInsert] pgInTransaction))))
   \<and> (\<exists>st3. activeConnections
               (snd (rollbackTransaction ''pg'' queryFails
                       (emit [Query 1 secondInsert] pgInTransaction))) ''pg''
               = Some st3 \<and> \<not> inTransaction st3 \<and> uncommittedQueries st3 = 0)
   \<and> executeAndShowResults (settings ''pg'' Smart) queryFails ''select 1'' connectedPg
       = (Inr (), emit [ShowErrorMessage (''Query failed: '' @ message duplicateKey)]
                    (snd (dispatch postgresql pgIdle 0 ''select 1'' queryFails connectedPg)))"
proof -
  define opened where "opened = pgIdle\<lparr>transactionClient := Some 1, inTransaction := True\<rparr>"
  define w2 where "w2 = snd (rollbackTransaction ''pg'' queryFails (emit [Query 1 secondInsert] twoInserts))"
  define w3 where "w3 = snd (rollbackTransaction ''pg'' queryAndRollbackFail
                           (emit [Query 1 secondInsert] twoInserts))"
  define w1 where "w1 = snd (dispatch postgresql pgIdle 0 secondInsert queryFails connectedPg)"
  define w4 where "w4 = snd (rollbackTransaction ''pg'' queryFails
                            (emit [Query 1 secondInsert] pgInTransaction))"
  define w5 where "w5 = snd (dispatch postgresql pgIdle 0 ''select 1'' queryFails connectedPg)"
  have entry: "activeConnections twoInserts ''pg'' = Some twoUncommitted"
    by (simp add: model_defs input_defs twoInserts_def twoUncommitted_def)
  have idle: "activeConnections connectedPg ''pg'' = Some pgIdle"
    by (simp add: model_defs input_defs)
  have begun: "activeConnections pgInTransaction ''pg'' = Some opened"
    by (simp add: model_defs input_defs opened_def)
  have cfgs: "activeConnection (settings ''pg'' p) = Some ''pg''"
    "autoCommit (settings ''pg'' p) = p"
    "find (\<lambda>c. Some (conn_id c) = activeConnection (settings ''pg'' p))
       (connections (settings ''pg'' p)) = Some pgProfile"
    "conn_dbType pgProfile = postgresql" "conn_id pgProfile = ''pg''" for p
    by (simp_all add: settings_def pgProfile_def)
  have live: "getDbClient (settings ''pg'' p) d twoInserts = (Inr twoUncommitted, twoInserts)" for p d
    using entry by (simp add: getDbClient_def getConnectionState_def settings_def pgProfile_def)
  have liveIdle: "getDbClient (settings ''pg'' p) d connectedPg = (Inr pgIdle, connectedPg)" for p d
    using idle by (simp add: getDbClient_def getConnectionState_def settings_def pgProfile_def)
  have inTx: "inTransaction twoUncommitted" "\<not> inTransaction pgIdle" "inTransaction opened"
    by (simp_all add: twoUncommitted_def pgIdle_def opened_def)
  have sel: "\<not> startsWith (toLowerCase (trim secondInsert)) ''select''"
    "startsWith (toLowerCase (trim ''select 1'')) ''select''"
    unfolding secondInsert_def by code_simp+
  have polTx: "applyPolicy (settings ''pg'' Off) d secondInsert pgProfile twoUncommitted twoInserts
      = (Inr (Some twoUncommitted), twoInserts)" for d
    using inTx by (simp add: applyPolicy_def)
  have polAuto: "applyPolicy (settings ''pg'' Auto) d secondInsert pgProfile pgIdle connectedPg
      = (Inr (Some pgIdle), connectedPg)" for d
    by (simp add: applyPolicy_def cfgs)
  have polSmart: "applyPolicy (settings ''pg'' Smart) d ''select 1'' pgProfile pgIdle connectedPg
      = (Inr (Some pgIdle), connectedPg)" for d
    using sel by (simp add: applyPolicy_def cfgs)
  have "beginTransaction ''pg'' queryFails connectedPg = (Inr (), pgInTransaction)"
    using idle
    by (simp add: pgInTransaction_def beginTransaction_def getConnectionState_def pgIdle_def
        queryFails_def allOk_def Let_def)
  then have polOff: "applyPolicy (settings ''pg'' Off) queryFails secondInsert pgProfile pgIdle connectedPg
      = (Inr (Some opened), pgInTransaction)"
    using inTx begun by (simp add: applyPolicy_def cfgs getConnectionState_def)
  have client: "getClient ''pg'' twoInserts = Some 1" "getClient ''pg'' connectedPg = Some 0"
    "getClient ''pg'' pgInTransaction = Some 1"
    using entry idle begun
    by (simp_all add: getClient_def twoUncommitted_def pgIdle_def opened_def)
  have answers: "pgAnswer queryFails = Inl duplicateKey" "pgAnswer queryAndRollbackFail = Inl duplicateKey"
    "poolConnectResult queryFails = None" "rollbackResult queryFails = None"
    "rollbackResult queryAndRollbackFail = Some boom"
    by (simp_all add: queryFails_def queryAndRollbackFail_def allOk_def)
  have fails: "dispatch (conn_dbType pgProfile) twoUncommitted 1 secondInsert d twoInserts
      = (Inl duplicateKey, emit [Query 1 secondInsert] twoInserts)"
    if "pgAnswer d = Inl duplicateKey" for d
    using that by (simp add: dispatch_def driverOf_def pgProfile_def twoUncommitted_def)
  have failsOpened: "dispatch (conn_dbType pgProfile) opened 1 secondInsert queryFails pgInTransaction
      = (Inl duplicateKey, emit [Query 1 secondInsert] pgInTransaction)"
    using answers by (simp add: dispatch_def driverOf_def pgProfile_def opened_def pgIdle_def)
  have "fst (dispatch (conn_dbType pgProfile) pgIdle 0 q queryFails connectedPg) = Inl duplicateKey" for q
    using answers by (simp add: dispatch_def driverOf_def pgProfile_def pgIdle_def Let_def)
  then have failsIdle: "dispatch (conn_dbType pgProfile) pgIdle 0 secondInsert queryFails connectedPg
      = (Inl duplicateKey, w1)"
    and failsSelect: "dispatch (conn_dbType pgProfile) pgIdle 0 ''select 1'' queryFails connectedPg
      = (Inl duplicateKey, w5)"
    by (simp_all add: prod_eq_iff pgProfile_def w1_def w5_def)
  have entry1: "activeConnections (emit [Query 1 secondInsert] twoInserts) ''pg'' = Some twoUncommitted"
    using entry by simp
  have begun1: "activeConnections (emit [Query 1 secondInsert] pgInTransaction) ''pg'' = Some opened"
    using begun by simp
  have "fst (rollbackTransaction ''pg'' queryFails (emit [Query 1 secondInsert] twoInserts)) = Inr ()"
    using entry1 answers
    by (simp add: rollbackTransaction_def getConnectionState_def twoUncommitted_def)
  then have rolled: "rollbackTransaction ''pg'' queryFails (emit [Query 1 secondInsert] twoInserts)
      = (Inr (), w2)"
    by (simp add: prod_eq_iff w2_def)
  have "fst (rollbackTransaction ''pg'' queryAndRollbackFail (emit [Query 1 secondInsert] twoInserts))
      = Inl boom"
    using entry1 answers
    by (simp add: rollbackTransaction_def getConnectionState_def twoUncommitted_def)
  then have stuck: "rollbackTransaction ''pg'' queryAndRollbackFail (emit [Query 1 secondInsert] twoInserts)
      = (Inl boom, w3)"
    by (simp add: prod_eq_iff w3_def)
  have "fst (rollbackTransaction ''pg'' queryFails (emit [Query 1 secondInsert] pgInTransaction)) = Inr ()"
    using begun1 answers
    by (simp add: rollbackTransaction_def getConnectionState_def opened_def pgIdle_def)
  then have undone: "rollbackTransaction ''pg'' queryFails (emit [Query 1 secondInsert] pgInTransaction)
      = (Inr (), w4)"
    by (simp add: prod_eq_iff w4_def)
  note a = failure_rollback [OF live cfgs(1) cfgs(3) polTx client(1) fails [OF answers(1)],
      where u = "()" and ?w3.0 = w2]
  note b = failure_rollback [OF live cfgs(1) cfgs(3) polTx client(1) fails [OF answers(2)],
      where r = boom and ?w4.0 = w3]
  note c = failure_rollback [OF liveIdle cfgs(1) cfgs(3) polAuto client(2) failsIdle]
  note d = failure_rollback [OF liveIdle cfgs(1) cfgs(3) polOff client(3) failsOpened,
      where u = "()" and ?w3.0 = w4]
  note e = failure_rollback [OF liveIdle cfgs(1) cfgs(3) polSmart client(2) failsSelect]
  have "executeAndShowResults (settings ''pg'' Off) queryFails secondInsert twoInserts
       = (Inr (), emit [ShowErrorMessage
                          (''Query failed and transaction was rolled back: '' @ message duplicateKey)] w2)"
    using a inTx rolled by simp
  moreover have "\<exists>st3. activeConnections w2 ''pg''
               = Some st3 \<and> \<not> inTransaction st3 \<and> uncommittedQueries st3 = 0"
    using a inTx rolled by blast
  moreover have "executeAndShowResults (settings ''pg'' Off) queryAndRollbackFail secondInsert twoInserts
       = (Inl boom, w3)"
    using b inTx stuck by blast
  moreover have "activeConnections w3 ''pg'' = Some twoUncommitted"
    using b inTx stuck by blast
  moreover have "executeAndShowResults (settings ''pg'' Auto) queryFails secondInsert connectedPg
       = (Inr (), emit [ShowErrorMessage (''Query failed: '' @ message duplicateKey)] w1)"
    using c inTx by blast
  moreover have "executeAndShowResults (settings ''pg'' Off) queryFails secondInsert connectedPg
       = (Inr (), emit [ShowErrorMessage
                          (''Query failed and transaction was rolled back: '' @ message duplicateKey)] w4)"
    using d inTx undone by simp
  moreover have "\<exists>st3. activeConnections w4 ''pg''
               = Some st3 \<and> \<not> inTransaction st3 \<and> uncommittedQueries st3 = 0"
    using d inTx undone by blast
  moreover have "executeAndShowResults (settings ''pg'' Smart) queryFails ''select 1'' connectedPg
       = (Inr (), emit [ShowErrorMessage (''Query failed: '' @ message duplicateKey)] w5)"
    using e inTx by blast
  ultimately show ?thesis
    using live polTx fails [OF answers(1)] polOff cfgs(4)
    unfolding w1_def w2_def w3_def w4_def w5_def opened_def by simp
qed


subsection \<open>The default row limit\<close>

lemma startsWith_iff: "startsWith s p \<longleftrightarrow> (\<exists>rest. s = p @ rest)"
proof
  assume "startsWith s p"
  then have "s = p @ drop (length p) s"
    by (metis append_take_drop_id startsWith_def)
  then show "\<exists>rest. s = p @ rest" ..
next
  assume "\<exists>rest. s = p @ rest"
  then show "startsWith s p"
    by (auto simp: startsWith_def)
qed

lemma selectLike_iff: "selectLike query \<longleftrightarrow> startsWith (toLowerCase (trim query)) ''select''"
proof
  assume "selectLike query"
  then obtain p rest where "trim query = p @ rest" "toLowerCase p = ''select''"
    by (auto simp: selectLike_def)
  then have "toLowerCase (trim query) = ''select'' @ toLowerCase rest"
    by (simp add: toLowerCase_def)
  then show "startsWith (toLowerCase (trim query)) ''select''"
    unfolding startsWith_iff by blast
next
  assume sw: "startsWith (toLowerCase (trim query)) ''select''"
  define n where "n = length ''select''"
  from sw have "toLowerCase (take n (trim query)) = ''select''"
    unfolding startsWith_def toLowerCase_def n_def by (simp only: take_map)
  moreover have "trim query = take n (trim query) @ drop n (trim query)"
    by simp
  ultimately show "selectLike query"
    unfolding selectLike_def by blast
qed

lemma endsWith_semicolon: "endsWith t '';'' \<longleftrightarrow> (\<exists>body. t = body @ '';'')"
proof
  assume "endsWith t '';''"
  then have "t = take (length t - 1) t @ '';''"
    by (metis append_take_drop_id endsWith_def length_Cons list.size(3) One_nat_def)
  then show "\<exists>body. t = body @ '';''" ..
next
  assume "\<exists>body. t = body @ '';''"
  then show "endsWith t '';''"
    by (auto simp: endsWith_def)
qed

lemma digit_not_space: "isDigit c \<Longrightarrow> \<not> isWhiteSpace c"
  by (auto simp: isDigit_def isWhiteSpace_def)

lemma toLowerCase_length: "toLowerCase s = t \<Longrightarrow> length s = length t"
  by (auto simp: toLowerCase_def)

lemma limitAtStart_iff:
  "limitAtStart s \<longleftrightarrow>
     (\<exists>kw ws ds post. s = kw @ ws @ ds @ post \<and> toLowerCase kw = ''limit''
        \<and> ws \<noteq> [] \<and> (\<forall>c \<in> set ws. isWhiteSpace c)
        \<and> ds \<noteq> [] \<and> (\<forall>c \<in> set ds. isDigit c))"
proof
  assume a: "limitAtStart s"
  define r where "r = drop 5 s"
  define r' where "r' = dropWhile isWhiteSpace r"
  from a have kw: "toLowerCase (take 5 s) = ''limit''"
    and r: "r \<noteq> []" "isWhiteSpace (hd r)" and r': "r' \<noteq> []" "isDigit (hd r')"
    by (simp_all add: limitAtStart_def Let_def r_def r'_def)
  have "s = take 5 s @ r"
    by (simp add: r_def)
  also have "r = takeWhile isWhiteSpace r @ r'"
    by (simp add: r'_def)
  also have "r' = [hd r'] @ tl r'"
    using r'(1) by simp
  finally have "s = take 5 s @ takeWhile isWhiteSpace r @ [hd r'] @ tl r'" .
  moreover have "takeWhile isWhiteSpace r \<noteq> []"
    using r by (cases r) auto
  moreover have "\<forall>c \<in> set (takeWhile isWhiteSpace r). isWhiteSpace c"
    by (auto dest: set_takeWhileD)
  moreover have "[hd r'] \<noteq> []" "\<forall>c \<in> set [hd r']. isDigit c"
    using r'(2) by simp_all
  ultimately show "\<exists>kw ws ds post. s = kw @ ws @ ds @ post \<and> toLowerCase kw = ''limit''
        \<and> ws \<noteq> [] \<and> (\<forall>c \<in> set ws. isWhiteSpace c)
        \<and> ds \<noteq> [] \<and> (\<forall>c \<in> set ds. isDigit c)"
    using kw by blast
next
  assume "\<exists>kw ws ds post. s = kw @ ws @ ds @ post \<and> toLowerCase kw = ''limit''
        \<and> ws \<noteq> [] \<and> (\<forall>c \<in> set ws. isWhiteSpace c)
        \<and> ds \<noteq> [] \<and> (\<forall>c \<in> set ds. isDigit c)"
  then obtain kw ws ds post where s: "s = kw @ ws @ ds @ post"
    and kw: "toLowerCase kw = ''limit''"
    and ws: "ws \<noteq> []" "\<forall>c \<in> set ws. isWhiteSpace c"
    and ds: "ds \<noteq> []" "\<forall>c \<in> set ds. isDigit c"
    by blast
  from kw have len: "length kw = 5"
    using toLowerCase_length by fastforce
  from ds obtain dg ds' where dg: "ds = dg # ds'" "isDigit dg"
    by (cases ds) auto
  have "dropWhile isWhiteSpace (ws @ ds @ post) = dropWhile isWhiteSpace (ds @ post)"
    using ws(2) by simp
  also have "\<dots> = ds @ post"
    using dg digit_not_space by simp
  finally have dw: "dropWhile isWhiteSpace (ws @ ds @ post) = ds @ post" .
  have "hd (ws @ ds @ post) = hd ws"
    using ws(1) by simp
  then have c2: "isWhiteSpace (hd (ws @ ds @ post))"
    using ws by (cases ws) auto
  have t5: "take 5 s = kw" and d5: "drop 5 s = ws @ ds @ post"
    using s len by simp_all
  have c1: "ws @ ds @ post \<noteq> []" and c3: "ds @ post \<noteq> []"
    using ws(1) ds(1) by simp_all
  have c4: "isDigit (hd (ds @ post))"
    using dg by simp
  show "limitAtStart s"
    unfolding limitAtStart_def Let_def t5 d5 dw using kw c1 c2 c3 c4 by blast
qed

lemma hasLimit_iff: "hasLimit query \<longleftrightarrow> mentionsLimit query"
proof -
  have "hasLimit query \<longleftrightarrow> (\<exists>pre s. query = pre @ s \<and> limitAtStart s)"
  proof (induction query)
    case Nil
    then show ?case
      by (simp add: limitAtStart_def toLowerCase_def)
  next
    case (Cons c cs)
    show ?case
    proof
      assume "hasLimit (c # cs)"
      then consider "limitAtStart (c # cs)" | "hasLimit cs"
        by auto
      then show "\<exists>pre s. c # cs = pre @ s \<and> limitAtStart s"
      proof cases
        case 1
        then have "c # cs = [] @ (c # cs) \<and> limitAtStart (c # cs)"
          by simp
        then show ?thesis by blast
      next
        case 2
        with Cons.IH obtain pre s where "cs = pre @ s" "limitAtStart s"
          by blast
        then have "c # cs = (c # pre) @ s \<and> limitAtStart s"
          by simp
        then show ?thesis by blast
      qed
    next
      assume "\<exists>pre s. c # cs = pre @ s \<and> limitAtStart s"
      then obtain pre s where ps: "c # cs = pre @ s" "limitAtStart s"
        by blast
      show "hasLimit (c # cs)"
      proof (cases pre)
        case Nil
        with ps have "limitAtStart (c # cs)"
          by simp
        then show ?thesis by simp
      next
        case (Cons p pre')
        with ps have "cs = pre' @ s"
          by simp
        with ps(2) Cons.IH show ?thesis
          by auto
      qed
    qed
  qed
  also have "\<dots> \<longleftrightarrow> mentionsLimit query"
    unfolding mentionsLimit_def limitAtStart_iff by blast
  finally show ?thesis .
qed

lemma digitChar_value: "d < 10 \<Longrightarrow> of_char (digitChar d) = 48 + d"
  by (simp add: digitChar_def)

lemma showNat_digits: "c \<in> set (showNat n) \<Longrightarrow> isDigit c"
proof (induction n rule: showNat.induct)
  case (1 n)
  show ?case
  proof (cases "n < 10")
    case True
    with "1.prems" show ?thesis
      by (simp add: showNat.simps [of n] isDigit_def digitChar_value)
  next
    case False
    with "1.prems" "1.IH" show ?thesis
      by (auto simp: showNat.simps [of n] isDigit_def digitChar_value)
  qed
qed

lemma readNat_snoc: "readNat (s @ [c]) = 10 * readNat s + (of_char c - 48)"
  by (simp add: readNat_def)

lemma readNat_showNat: "readNat (showNat n) = n"
proof (induction n rule: showNat.induct)
  case (1 n)
  show ?case
  proof (cases "n < 10")
    case True
    then show ?thesis
      by (simp add: showNat.simps [of n] readNat_def digitChar_value)
  next
    case False
    with "1.IH" show ?thesis
      by (simp add: showNat.simps [of n] readNat_snoc digitChar_value)
  qed
qed



text \<open>
  C7. \<open>runQuery\<close> hands \<open>executeAndShowResults\<close> the text of the range after the default row
  limit has been applied. If the trimmed text starts with \<open>select\<close> in any letter case, the
  text nowhere contains \<open>limit\<close> (in any letter case) followed by white space and digits, and
  the configured limit is \<open>> 0\<close>, the result is the trimmed text with \<open> LIMIT \<close> and the
  limit, as a template literal prints it, put before its final semicolon, or at its end when it
  has none. In every other case the text is passed on unchanged. A limit that is a safe integer
  is \<open>> 0\<close> exactly when it is positive, and is printed in decimal digits that read back as its
  value; any other limit is inserted as the text it prints as (\<open>0.5\<close>, \<open>1e+21\<close>) when it is
  \<open>> 0\<close>.
\<close>

theorem default_limit:
  "runQuery cfg d source w
     = executeAndShowResults cfg d (withDefaultLimit (defaultQueryLimit cfg) source) w
   \<and> (selectLike query \<and> \<not> mentionsLimit query \<and> greaterThanZero n \<and> trim query = body @ '';''
        \<longrightarrow> withDefaultLimit n query = body @ '' LIMIT '' @ numberToString n @ '';'')
   \<and> (selectLike query1 \<and> \<not> mentionsLimit query1 \<and> greaterThanZero n1
          \<and> (\<forall>b. trim query1 \<noteq> b @ '';'')
        \<longrightarrow> withDefaultLimit n1 query1 = trim query1 @ '' LIMIT '' @ numberToString n1)
   \<and> (\<not> (selectLike query2 \<and> \<not> mentionsLimit query2 \<and> greaterThanZero n2)
        \<longrightarrow> withDefaultLimit n2 query2 = query2)
   \<and> (greaterThanZero (SafeInteger negative m) \<longleftrightarrow> \<not> negative \<and> m \<noteq> 0)
   \<and> (\<not> negative1 \<longrightarrow> readNat (numberToString (SafeInteger negative1 m1)) = unat m1
          \<and> (\<forall>c \<in> set (numberToString (SafeInteger negative1 m1)). isDigit c))
   \<and> (greaterThanZero (OtherNumber positive rendering) \<longleftrightarrow> positive)
   \<and> numberToString (OtherNumber positive rendering) = rendering"
proof (intro conjI impI)
  show "runQuery cfg d source w
     = executeAndShowResults cfg d (withDefaultLimit (defaultQueryLimit cfg) source) w"
    by (simp add: runQuery_def)
next
  assume a: "selectLike query \<and> \<not> mentionsLimit query \<and> greaterThanZero n \<and> trim query = body @ '';''"
  then have e: "endsWith (trim query) '';''"
    unfolding endsWith_semicolon by blast
  from a have c: "greaterThanZero n \<and> startsWith (toLowerCase (trim query)) ''select''
      \<and> \<not> hasLimit query"
    unfolding selectLike_iff hasLimit_iff by blast
  from c e have "withDefaultLimit n query
      = butlast (trim query) @ '' LIMIT '' @ numberToString n @ '';''"
    by (simp add: withDefaultLimit_def Let_def)
  also from a have "butlast (trim query) = body"
    by simp
  finally show "withDefaultLimit n query = body @ '' LIMIT '' @ numberToString n @ '';''" .
next
  assume a: "selectLike query1 \<and> \<not> mentionsLimit query1 \<and> greaterThanZero n1
      \<and> (\<forall>b. trim query1 \<noteq> b @ '';'')"
  then have "\<not> endsWith (trim query1) '';''"
    unfolding endsWith_semicolon by blast
  moreover from a
  have "greaterThanZero n1 \<and> startsWith (toLowerCase (trim query1)) ''select'' \<and> \<not> hasLimit query1"
    unfolding selectLike_iff hasLimit_iff by blast
  ultimately show "withDefaultLimit n1 query1 = trim query1 @ '' LIMIT '' @ numberToString n1"
    by (simp add: withDefaultLimit_def Let_def)
next
  assume "\<not> (selectLike query2 \<and> \<not> mentionsLimit query2 \<and> greaterThanZero n2)"
  then show "withDefaultLimit n2 query2 = query2"
    by (auto simp: withDefaultLimit_def selectLike_iff hasLimit_iff)
next
  show "greaterThanZero (SafeInteger negative m) \<longleftrightarrow> \<not> negative \<and> m \<noteq> 0"
    by simp
next
  assume "\<not> negative1"
  then show "readNat (numberToString (SafeInteger negative1 m1)) = unat m1"
    by (simp add: readNat_showNat)
next
  assume "\<not> negative1"
  then show "\<forall>c \<in> set (numberToString (SafeInteger negative1 m1)). isDigit c"
    by (simp add: showNat_digits)
next
  show "greaterThanZero (OtherNumber positive rendering) \<longleftrightarrow> positive"
    by simp
next
  show "numberToString (OtherNumber positive rendering) = rendering"
    by simp
qed

theorem default_limit_witness:
  "selectLike ''  Select * from t;  '' \<and> \<not> mentionsLimit ''  Select * from t;  ''
   \<and> trim ''  Select * from t;  '' = ''Select * from t'' @ '';''
   \<and> withDefaultLimit (SafeInteger False 100) ''  Select * from t;  '' = ''Select * from t LIMIT 100;''
   \<and> selectLike ''select 1'' \<and> \<not> mentionsLimit ''select 1'' \<and> (\<forall>b. trim ''select 1'' \<noteq> b @ '';'')
   \<and> withDefaultLimit (OtherNumber True ''1e+21'') ''select 1'' = ''select 1 LIMIT 1e+21''
   \<and> mentionsLimit ''select * from t LIMIT 10;''
   \<and> withDefaultLimit (SafeInteger False 100) ''select * from t LIMIT 10;''
       = ''select * from t LIMIT 10;''
   \<and> \<not> greaterThanZero (SafeInteger False 0)
   \<and> readNat (numberToString (SafeInteger False 100)) = 100"
proof -
  have s1: "selectLike ''  Select * from t;  ''" "selectLike ''select 1''"
    unfolding selectLike_iff by code_simp+
  have l1: "\<not> mentionsLimit ''  Select * from t;  ''" "\<not> mentionsLimit ''select 1''"
    "mentionsLimit ''select * from t LIMIT 10;''"
    unfolding hasLimit_iff [symmetric] by code_simp+
  have t1: "trim ''  Select * from t;  '' = ''Select * from t'' @ '';''"
    "trim ''select 1'' = ''select 1''"
    by code_simp+
  have "\<not> endsWith (trim ''select 1'') '';''"
    by code_simp
  then have e1: "\<forall>b. trim ''select 1'' \<noteq> b @ '';''"
    unfolding endsWith_semicolon by blast
  have "showNat 100 = ''100''"
    by code_simp
  then have sh: "numberToString (SafeInteger False 100) = ''100''"
    by simp
  have gt: "greaterThanZero (SafeInteger False 100)" "greaterThanZero (OtherNumber True ''1e+21'')"
    by simp_all
  from default_limit [where query = "''  Select * from t;  ''" and n = "SafeInteger False 100"
      and body = "''Select * from t''" and ?query1.0 = "''select 1''"
      and ?n1.0 = "OtherNumber True ''1e+21''"
      and ?query2.0 = "''select * from t LIMIT 10;''" and ?n2.0 = "SafeInteger False 100"
      and negative = False and m = 0 and ?negative1.0 = False and ?m1.0 = 100]
    s1 l1 t1 e1 sh gt
  show ?thesis by simp
qed


subsection \<open>Statements on SQLite\<close>

lemma validateRows_consistent:
  assumes "\<forall>r \<in> set data. length r = n"
  shows "validateRows n data =
           (if \<forall>r \<in> set data. \<forall>c \<in> set r. printable c then None
            else Some (Error ''Table data must not contain control characters.''))"
  using assms by (induction data) (auto simp: printable_def list_ex_iff)

lemma display_table:
  assumes "flds \<noteq> []"
  shows "display cfg ty rows flds w =
           (if (\<forall>f \<in> set flds. printable (JStr (header cfg ty f)))
                 \<and> (\<forall>r \<in> set rows. \<forall>f \<in> set flds. printable (cell r (name f)))
            then (Inr (),
                  emit [OutputTable (map JStr (map (header cfg ty) flds)
                                       # map (\<lambda>r. map (cell r) (map name flds)) rows),
                        OutputAppendLine
                          (''('' @ showNat (length rows) @ '' row'' @ plural (length rows) @ '')''),
                        ShowInformationMessage
                          (''Query returned '' @ showNat (length rows) @ '' row''
                             @ plural (length rows) @ ''.'')]
                    (w\<lparr>lastQueryResult := Some \<lparr>result_rows = rows, result_fields = flds\<rparr>\<rparr>))
            else (Inl (Error ''Table data must not contain control characters.''),
                  w\<lparr>lastQueryResult := Some \<lparr>result_rows = rows, result_fields = flds\<rparr>\<rparr>))"
proof -
  define data where
    "data = map JStr (map (header cfg ty) flds) # map (\<lambda>r. map (cell r) (map name flds)) rows"
  have len: "\<forall>r \<in> set data. length r = length flds"
    by (auto simp: data_def)
  have "validateTableData data = validateRows (length flds) data"
    using assms by (simp add: validateTableData_def data_def)
  also have "\<dots> = (if \<forall>r \<in> set data. \<forall>c \<in> set r. printable c then None
            else Some (Error ''Table data must not contain control characters.''))"
    using len by (rule validateRows_consistent)
  also have "(\<forall>r \<in> set data. \<forall>c \<in> set r. printable c)
      \<longleftrightarrow> (\<forall>f \<in> set flds. printable (JStr (header cfg ty f)))
            \<and> (\<forall>r \<in> set rows. \<forall>f \<in> set flds. printable (cell r (name f)))"
    by (auto simp: data_def)
  finally have v: "validateTableData data =
      (if (\<forall>f \<in> set flds. printable (JStr (header cfg ty f)))
            \<and> (\<forall>r \<in> set rows. \<forall>f \<in> set flds. printable (cell r (name f)))
       then None else Some (Error ''Table data must not contain control characters.''))" .
  show ?thesis
    using assms v unfolding data_def by (simp add: display_def Let_def)
qed

lemma header_sqlite: "header cfg sqlite f = name f"
  by (simp add: header_def)

lemma catchBlock_result:
  "lastQueryResult (snd (catchBlock cfg d cs e w)) = lastQueryResult w"
proof -
  have "lastQueryResult (snd (rollbackTransaction i d w')) = lastQueryResult w'" for i w'
    by (auto simp: rollbackTransaction_def getConnectionState_def Let_def
        split: option.splits dbType.splits if_splits)
  then show ?thesis
    by (auto simp: catchBlock_def split: option.splits prod.splits sum.splits if_splits)
       (metis snd_conv)+
qed

lemma policy_sqlite:
  assumes "applyPolicy cfg d q prof st0 w = (Inr (Some st), w1)"
    and "activeConnections w (conn_id prof) = Some st0" and "driverOf st0 = sqlite"
  shows "driverOf st = sqlite \<and> mainClient st = mainClient st0
       \<and> activeConnections w1 (conn_id prof) = Some st"
  using assms
  by (auto simp: applyPolicy_def beginTransaction_def getConnectionState_def driverOf_def Let_def
      split: if_splits prod.splits sum.splits option.splits dbType.splits)

lemma report_sqlite:
  "report cfg prof st (RawSqlite rows) w =
     display cfg (conn_dbType prof) rows
       (case rows of
          [] \<Rightarrow> []
        | r # _ \<Rightarrow> map (\<lambda>k. \<lparr>name = k, ftype = None, dataTypeID = None\<rparr>) (map fst r))
       (emit [ExecuteCommand ''sql-runner.setActiveConnection'' [conn_id prof, conn_name prof],
              OutputClear, OutputShow]
          (if inTransaction st
           then setState (conn_id prof) (st\<lparr>uncommittedQueries := Suc (uncommittedQueries st)\<rparr>) w
           else w))"
  by (simp add: report_def rowsAndFields_def Let_def)

lemma report_summary:
  assumes "rowsAndFields result = Inr (Summary msg)"
  shows "report cfg prof st result w =
     (Inr (), emit [OutputAppendLine msg, ShowInformationMessage msg]
        (emit [ExecuteCommand ''sql-runner.setActiveConnection'' [conn_id prof, conn_name prof],
               OutputClear, OutputShow]
           (if inTransaction st
            then setState (conn_id prof) (st\<lparr>uncommittedQueries := Suc (uncommittedQueries st)\<rparr>) w
            else w)))"
  using assms by (simp add: report_def Let_def)

text \<open>
  C9. An SQLite connection is a live entry whose object is an SQLite database and whose
  profile names SQLite. Every statement on it, whatever its kind, is run through the
  row-returning call \<open>all\<close>, and the rows answered are taken as a tabular result, never as a
  summary: they are retained as the last result, with the keys of the first row as columns.
  When no row is answered (the answer to a data-changing statement) the retained result has
  no rows and no columns, the executor returns normally and the user is told that the query
  executed successfully and returned no columns. When rows are answered they are drawn as a
  table, unless a key or a cell holds a control character that \<open>table\<close> rejects; then the
  error of \<open>table\<close> is thrown inside the \<open>try\<close> and the handler runs on it. Where the profile
  and the object disagree, no statement runs at all: \<open>all\<close> on an object that is not an
  SQLite database, and \<open>query\<close> or \<open>connect\<close> on an SQLite database, throw a TypeError
  before any driver is reached. MySQL and PostgreSQL in contrast report an answer that is not
  tabular in one line (\<open>Query OK, \<dots> rows affected.\<close>, or the command and its row count), and
  retain no result for it.
\<close>

theorem sqlite_rows_api:
  "(conn_dbType prof = sqlite \<and> driverOf st = sqlite
      \<longrightarrow> dispatch (conn_dbType prof) st client q d w
            = (map_sum id RawSqlite (sqliteAnswer d), emit [AllCall client q] w))
   \<and> (conn_dbType prof = sqlite \<and> driverOf st \<noteq> sqlite
      \<longrightarrow> dispatch (conn_dbType prof) st client q d w = (Inl (notAFunction ''all''), w))
   \<and> (conn_dbType prof \<noteq> sqlite \<and> driverOf st = sqlite
      \<longrightarrow> dispatch (conn_dbType prof) st client q d w
            = (Inl (notAFunction (if conn_dbType prof = postgresql \<and> \<not> inTransaction st
                                  then ''connect'' else ''query'')), w))
   \<and> rowsAndFields (RawSqlite rows)
       = Inr (Tabular rows
                (case rows of
                   [] \<Rightarrow> []
                 | r # _ \<Rightarrow> map (\<lambda>k. \<lparr>name = k, ftype = None, dataTypeID = None\<rparr>) (map fst r)))
   \<and> (getDbClient cfg d1 w1 = (Inr st1, w1) \<and> activeConnection cfg = Some aid
        \<and> find (\<lambda>c. Some (conn_id c) = activeConnection cfg) (connections cfg) = Some prof1
        \<and> conn_dbType prof1 = sqlite \<and> driverOf st1 = sqlite
        \<and> applyPolicy cfg d1 q1 prof1 st1 w1 = (Inr (Some st2), w2)
        \<and> sqliteAnswer d1 = Inr rows1
      \<longrightarrow> executeAndShowResults cfg d1 q1 w1
            = (case report cfg prof1 st2 (RawSqlite rows1) (emit [AllCall (mainClient st1) q1] w2) of
                 (Inr u, w3) \<Rightarrow> (Inr u, w3)
               | (Inl e, w3) \<Rightarrow> catchBlock cfg d1 (getConnectionState aid w3) e w3)
          \<and> lastQueryResult (snd (executeAndShowResults cfg d1 q1 w1))
              = Some \<lparr>result_rows = rows1,
                       result_fields =
                         (case rows1 of
                            [] \<Rightarrow> []
                          | r # _ \<Rightarrow> map (\<lambda>k. \<lparr>name = k, ftype = None, dataTypeID = None\<rparr>)
                                        (map fst r))\<rparr>
          \<and> (rows1 = [] \<longrightarrow>
                fst (executeAndShowResults cfg d1 q1 w1) = Inr ()
                \<and> trace (snd (executeAndShowResults cfg d1 q1 w1))
                    = trace w2 @
                      [AllCall (mainClient st1) q1,
                       ExecuteCommand ''sql-runner.setActiveConnection'' [aid, conn_name prof1],
                       OutputClear, OutputShow,
                       OutputAppendLine ''Query executed successfully, but no columns were returned.'',
                       ShowInformationMessage ''Query executed successfully.''])
          \<and> (rows1 = r1 # rest \<and> r1 \<noteq> []
                \<and> (\<forall>k \<in> set (map fst r1). printable (JStr k))
                \<and> (\<forall>r \<in> set rows1. \<forall>k \<in> set (map fst r1). printable (cell r k))
              \<longrightarrow> fst (executeAndShowResults cfg d1 q1 w1) = Inr ()
                \<and> trace (snd (executeAndShowResults cfg d1 q1 w1))
                    = trace w2 @
                      [AllCall (mainClient st1) q1,
                       ExecuteCommand ''sql-runner.setActiveConnection'' [aid, conn_name prof1],
                       OutputClear, OutputShow,
                       OutputTable (map JStr (map fst r1) # map (\<lambda>r. map (cell r) (map fst r1)) rows1),
                       OutputAppendLine
                         (''('' @ showNat (length rows1) @ '' row'' @ plural (length rows1) @ '')''),
                       ShowInformationMessage
                         (''Query returned '' @ showNat (length rows1) @ '' row''
                            @ plural (length rows1) @ ''.'')])
          \<and> (rows1 = r1 # rest \<and> r1 \<noteq> []
                \<and> \<not> ((\<forall>k \<in> set (map fst r1). printable (JStr k))
                       \<and> (\<forall>r \<in> set rows1. \<forall>k \<in> set (map fst r1). printable (cell r k)))
              \<longrightarrow> fst (report cfg prof1 st2 (RawSqlite rows1) (emit [AllCall (mainClient st1) q1] w2))
                    = Inl (Error ''Table data must not contain control characters.'')))
   \<and> rowsAndFields (RawMysql (MysqlOther affected))
       = Inr (Summary (''Query OK, '' @ toStr affected @ '' row''
                         @ (if affected \<noteq> JNum (SafeInteger False 1) then ''s'' else [])
                         @ '' affected.''))
   \<and> (command pg \<noteq> ''SELECT''
        \<longrightarrow> rowsAndFields (RawPg (PgOne pg))
              = Inr (Summary (command pg @ '' '' @
                              toStr (if isTruthy (rowCount pg) then rowCount pg
                                     else JNum (SafeInteger False 0)))))
   \<and> (rowsAndFields result = Inr (Summary msg)
        \<longrightarrow> fst (report cfg2 prof2 st3 result w4) = Inr ()
          \<and> lastQueryResult (snd (report cfg2 prof2 st3 result w4)) = lastQueryResult w4
          \<and> trace (snd (report cfg2 prof2 st3 result w4))
              = trace w4 @
                [ExecuteCommand ''sql-runner.setActiveConnection'' [conn_id prof2, conn_name prof2],
                 OutputClear, OutputShow, OutputAppendLine msg, ShowInformationMessage msg])"
proof (intro conjI impI)
  assume "conn_dbType prof = sqlite \<and> driverOf st = sqlite"
  then show "dispatch (conn_dbType prof) st client q d w
            = (map_sum id RawSqlite (sqliteAnswer d), emit [AllCall client q] w)"
    by (simp add: dispatch_def)
next
  assume "conn_dbType prof = sqlite \<and> driverOf st \<noteq> sqlite"
  then show "dispatch (conn_dbType prof) st client q d w = (Inl (notAFunction ''all''), w)"
    by (simp add: dispatch_def)
next
  assume "conn_dbType prof \<noteq> sqlite \<and> driverOf st = sqlite"
  then show "dispatch (conn_dbType prof) st client q d w
            = (Inl (notAFunction (if conn_dbType prof = postgresql \<and> \<not> inTransaction st
                                  then ''connect'' else ''query'')), w)"
    by (cases "conn_dbType prof") (simp_all add: dispatch_def)
next
  show "rowsAndFields (RawSqlite rows)
       = Inr (Tabular rows
                (case rows of
                   [] \<Rightarrow> []
                 | r # _ \<Rightarrow> map (\<lambda>k. \<lparr>name = k, ftype = None, dataTypeID = None\<rparr>) (map fst r)))"
    by (simp add: rowsAndFields_def)
next
  show "rowsAndFields (RawMysql (MysqlOther affected))
       = Inr (Summary (''Query OK, '' @ toStr affected @ '' row''
                         @ (if affected \<noteq> JNum (SafeInteger False 1) then ''s'' else [])
                         @ '' affected.''))"
    by (simp add: rowsAndFields_def)
next
  assume "command pg \<noteq> ''SELECT''"
  then show "rowsAndFields (RawPg (PgOne pg))
              = Inr (Summary (command pg @ '' '' @
                              toStr (if isTruthy (rowCount pg) then rowCount pg
                                     else JNum (SafeInteger False 0))))"
    by (simp add: rowsAndFields_def)
next
  assume s: "rowsAndFields result = Inr (Summary msg)"
  show "fst (report cfg2 prof2 st3 result w4) = Inr ()"
    by (simp add: report_summary [OF s])
  show "lastQueryResult (snd (report cfg2 prof2 st3 result w4)) = lastQueryResult w4"
    by (simp add: report_summary [OF s])
  show "trace (snd (report cfg2 prof2 st3 result w4))
              = trace w4 @
                [ExecuteCommand ''sql-runner.setActiveConnection'' [conn_id prof2, conn_name prof2],
                 OutputClear, OutputShow, OutputAppendLine msg, ShowInformationMessage msg]"
    by (simp add: report_summary [OF s])
next
  assume a: "getDbClient cfg d1 w1 = (Inr st1, w1) \<and> activeConnection cfg = Some aid
        \<and> find (\<lambda>c. Some (conn_id c) = activeConnection cfg) (connections cfg) = Some prof1
        \<and> conn_dbType prof1 = sqlite \<and> driverOf st1 = sqlite
        \<and> applyPolicy cfg d1 q1 prof1 st1 w1 = (Inr (Some st2), w2)
        \<and> sqliteAnswer d1 = Inr rows1"
  define flds where "flds = (case rows1 of
                            [] \<Rightarrow> []
                          | r # _ \<Rightarrow> map (\<lambda>k. \<lparr>name = k, ftype = None, dataTypeID = None\<rparr>)
                                        (map fst r))"
  define w3 where "w3 = (if inTransaction st2
                then setState aid (st2\<lparr>uncommittedQueries := Suc (uncommittedQueries st2)\<rparr>)
                       (emit [AllCall (mainClient st1) q1] w2)
                else emit [AllCall (mainClient st1) q1] w2)"
  define w4 where "w4 = emit [ExecuteCommand ''sql-runner.setActiveConnection''
                       [aid, conn_name prof1], OutputClear, OutputShow] w3"
  define rep where "rep = report cfg prof1 st2 (RawSqlite rows1) (emit [AllCall (mainClient st1) q1] w2)"
  from a have f: "find (\<lambda>c. Some (conn_id c) = activeConnection cfg) (connections cfg) = Some prof1"
    and ty: "conn_dbType prof1 = sqlite" and drv: "driverOf st1 = sqlite"
    and pol: "applyPolicy cfg d1 q1 prof1 st1 w1 = (Inr (Some st2), w2)"
    and ans: "sqliteAnswer d1 = Inr rows1"
    and live: "getDbClient cfg d1 w1 = (Inr st1, w1)"
    and active: "activeConnection cfg = Some aid"
    by blast+
  from f active have aid: "conn_id prof1 = aid"
    by (auto simp: find_Some_iff)
  from live active have entry: "activeConnections w1 aid = Some st1"
    using live_profile by blast
  have after: "driverOf st2 = sqlite" "mainClient st2 = mainClient st1"
    "activeConnections w2 aid = Some st2"
    using policy_sqlite [OF pol] entry drv aid by simp_all
  then have cl: "getClient (conn_id prof1) w2 = Some (mainClient st1)"
    using aid by (simp add: getClient_def driverOf_def split: option.splits)
  have t: "tryBlock cfg d1 q1 st1 w1 = rep"
    using f ty pol ans cl after(1)
    by (simp add: tryBlock_def dispatch_def rep_def)
  have trace3: "trace w4 = trace w2 @ [AllCall (mainClient st1) q1,
                     ExecuteCommand ''sql-runner.setActiveConnection'' [aid, conn_name prof1],
                     OutputClear, OutputShow]"
    by (simp add: w4_def w3_def)
  have rep: "rep = display cfg sqlite rows1 flds w4"
    unfolding rep_def report_sqlite by (simp add: ty aid flds_def w3_def w4_def)
  show e: "executeAndShowResults cfg d1 q1 w1
            = (case report cfg prof1 st2 (RawSqlite rows1) (emit [AllCall (mainClient st1) q1] w2) of
                 (Inr u, w3) \<Rightarrow> (Inr u, w3)
               | (Inl e, w3) \<Rightarrow> catchBlock cfg d1 (getConnectionState aid w3) e w3)"
    using live active t unfolding rep_def [symmetric]
    by (simp add: executeAndShowResults_def split: prod.splits sum.splits)
  obtain evs where shape: "snd rep
      = emit evs (w4\<lparr>lastQueryResult := Some \<lparr>result_rows = rows1, result_fields = flds\<rparr>\<rparr>)"
    unfolding rep using display_shape by blast
  have kept: "lastQueryResult (snd rep) = Some \<lparr>result_rows = rows1, result_fields = flds\<rparr>"
    unfolding shape by simp
  have "lastQueryResult (snd (executeAndShowResults cfg d1 q1 w1))
      = Some \<lparr>result_rows = rows1, result_fields = flds\<rparr>"
  proof (cases rep)
    case (Pair r w5)
    with kept have k: "lastQueryResult w5 = Some \<lparr>result_rows = rows1, result_fields = flds\<rparr>"
      by simp
    show ?thesis
    proof (cases r)
      case (Inl err)
      with Pair have "executeAndShowResults cfg d1 q1 w1
          = catchBlock cfg d1 (getConnectionState aid w5) err w5"
        using e unfolding rep_def [symmetric] by simp
      with k show ?thesis
        by (simp add: catchBlock_result)
    next
      case (Inr u)
      with Pair have "executeAndShowResults cfg d1 q1 w1 = (Inr u, w5)"
        using e unfolding rep_def [symmetric] by simp
      with k show ?thesis
        by simp
    qed
  qed
  then show "lastQueryResult (snd (executeAndShowResults cfg d1 q1 w1))
              = Some \<lparr>result_rows = rows1,
                       result_fields =
                         (case rows1 of
                            [] \<Rightarrow> []
                          | r # _ \<Rightarrow> map (\<lambda>k. \<lparr>name = k, ftype = None, dataTypeID = None\<rparr>)
                                        (map fst r))\<rparr>"
    by (simp add: flds_def)
  have none: "rep = (Inr (),
      emit [OutputAppendLine ''Query executed successfully, but no columns were returned.'',
            ShowInformationMessage ''Query executed successfully.'']
        (w4\<lparr>lastQueryResult := Some \<lparr>result_rows = rows1, result_fields = flds\<rparr>\<rparr>))"
    if "rows1 = []"
    using that unfolding rep by (simp add: display_def flds_def)
  show "fst (executeAndShowResults cfg d1 q1 w1) = Inr ()" if "rows1 = []"
    using none [OF that] e unfolding rep_def [symmetric] by simp
  show "trace (snd (executeAndShowResults cfg d1 q1 w1))
                    = trace w2 @
                      [AllCall (mainClient st1) q1,
                       ExecuteCommand ''sql-runner.setActiveConnection'' [aid, conn_name prof1],
                       OutputClear, OutputShow,
                       OutputAppendLine ''Query executed successfully, but no columns were returned.'',
                       ShowInformationMessage ''Query executed successfully.'']"
    if "rows1 = []"
    using none [OF that] e trace3 unfolding rep_def [symmetric] by simp
  have cols: "flds \<noteq> []"
      "(\<forall>f \<in> set flds. printable (JStr (header cfg sqlite f)))
          \<longleftrightarrow> (\<forall>k \<in> set (map fst r1). printable (JStr k))"
      "(\<forall>r \<in> set rows1. \<forall>f \<in> set flds. printable (cell r (name f)))
          \<longleftrightarrow> (\<forall>r \<in> set rows1. \<forall>k \<in> set (map fst r1). printable (cell r k))"
      "map (header cfg sqlite) flds = map fst r1" "map name flds = map fst r1"
    if "rows1 = r1 # rest" "r1 \<noteq> []"
    using that by (simp_all add: flds_def header_sqlite o_def)
  have drawn: "rep = (Inr (),
      emit [OutputTable (map JStr (map fst r1) # map (\<lambda>r. map (cell r) (map fst r1)) rows1),
            OutputAppendLine
              (''('' @ showNat (length rows1) @ '' row'' @ plural (length rows1) @ '')''),
            ShowInformationMessage
              (''Query returned '' @ showNat (length rows1) @ '' row''
                 @ plural (length rows1) @ ''.'')]
        (w4\<lparr>lastQueryResult := Some \<lparr>result_rows = rows1, result_fields = flds\<rparr>\<rparr>))"
    if "rows1 = r1 # rest \<and> r1 \<noteq> []
                \<and> (\<forall>k \<in> set (map fst r1). printable (JStr k))
                \<and> (\<forall>r \<in> set rows1. \<forall>k \<in> set (map fst r1). printable (cell r k))"
  proof -
    from that have r: "rows1 = r1 # rest" "r1 \<noteq> []"
      and p: "\<forall>k \<in> set (map fst r1). printable (JStr k)"
        "\<forall>r \<in> set rows1. \<forall>k \<in> set (map fst r1). printable (cell r k)"
      by blast+
    show ?thesis
      unfolding rep display_table [OF cols(1) [OF r]] cols(2) [OF r] cols(3) [OF r]
        cols(4) [OF r] cols(5) [OF r]
      using p by simp
  qed
  show "fst (executeAndShowResults cfg d1 q1 w1) = Inr ()"
    if "rows1 = r1 # rest \<and> r1 \<noteq> []
                \<and> (\<forall>k \<in> set (map fst r1). printable (JStr k))
                \<and> (\<forall>r \<in> set rows1. \<forall>k \<in> set (map fst r1). printable (cell r k))"
    using drawn [OF that] e unfolding rep_def [symmetric] by simp
  show "trace (snd (executeAndShowResults cfg d1 q1 w1))
                    = trace w2 @
                      [AllCall (mainClient st1) q1,
                       ExecuteCommand ''sql-runner.setActiveConnection'' [aid, conn_name prof1],
                       OutputClear, OutputShow,
                       OutputTable (map JStr (map fst r1) # map (\<lambda>r. map (cell r) (map fst r1)) rows1),
                       OutputAppendLine
                         (''('' @ showNat (length rows1) @ '' row'' @ plural (length rows1) @ '')''),
                       ShowInformationMessage
                         (''Query returned '' @ showNat (length rows1) @ '' row''
                            @ plural (length rows1) @ ''.'')]"
    if "rows1 = r1 # rest \<and> r1 \<noteq> []
                \<and> (\<forall>k \<in> set (map fst r1). printable (JStr k))
                \<and> (\<forall>r \<in> set rows1. \<forall>k \<in> set (map fst r1). printable (cell r k))"
    using drawn [OF that] e trace3 unfolding rep_def [symmetric] by simp
  show "fst (report cfg prof1 st2 (RawSqlite rows1) (emit [AllCall (mainClient st1) q1] w2))
                    = Inl (Error ''Table data must not contain control characters.'')"
    if "rows1 = r1 # rest \<and> r1 \<noteq> []
                \<and> \<not> ((\<forall>k \<in> set (map fst r1). printable (JStr k))
                       \<and> (\<forall>r \<in> set rows1. \<forall>k \<in> set (map fst r1). printable (cell r k)))"
  proof -
    from that have r: "rows1 = r1 # rest" "r1 \<noteq> []"
      and p: "\<not> ((\<forall>k \<in> set (map fst r1). printable (JStr k))
                       \<and> (\<forall>r \<in> set rows1. \<forall>k \<in> set (map fst r1). printable (cell r k)))"
      by blast+
    have "fst rep = Inl (Error ''Table data must not contain control characters.'')"
      unfolding rep display_table [OF cols(1) [OF r]] cols(2) [OF r] cols(3) [OF r]
      using p by simp
    then show ?thesis
      by (simp add: rep_def)
  qed
qed

theorem sqlite_rows_api_witness:
  "getDbClient (settings ''lite'' Off) allOk connectedLite = (Inr liteIdle, connectedLite)
   \<and> conn_dbType sqliteProfile = sqlite \<and> driverOf liteIdle = sqlite
   \<and> dispatch sqlite liteIdle 0 deleteNotes allOk connectedLite
       = (Inr (RawSqlite []), emit [AllCall 0 deleteNotes] connectedLite)
   \<and> driverOf pgIdle \<noteq> sqlite
   \<and> dispatch sqlite pgIdle 0 deleteNotes allOk connectedPg = (Inl (notAFunction ''all''), connectedPg)
   \<and> dispatch mysql liteIdle 0 deleteNotes allOk connectedLite
       = (Inl (notAFunction ''query''), connectedLite)
   \<and> fst (applyPolicy (settings ''lite'' Off) allOk deleteNotes sqliteProfile liteIdle connectedLite)
       = Inr (Some (liteIdle\<lparr>inTransaction := True\<rparr>))
   \<and> sqliteAnswer allOk = Inr []
   \<and> fst (executeAndShowResults (settings ''lite'' Off) allOk deleteNotes connectedLite) = Inr ()
   \<and> lastQueryResult (snd (executeAndShowResults (settings ''lite'' Off) allOk deleteNotes connectedLite))
       = Some \<lparr>result_rows = [], result_fields = []\<rparr>
   \<and> trace (snd (executeAndShowResults (settings ''lite'' Off) allOk deleteNotes connectedLite))
       = [NewDatabase 0, RunCall 0 ''BEGIN TRANSACTION'', AllCall 0 deleteNotes,
          ExecuteCommand ''sql-runner.setActiveConnection'' [''lite'', ''Notes''],
          OutputClear, OutputShow,
          OutputAppendLine ''Query executed successfully, but no columns were returned.'',
          ShowInformationMessage ''Query executed successfully.'']
   \<and> sqliteAnswer oneNote = Inr [[(''id'', JNum (SafeInteger False 1)), (''note'', JStr ''milk'')]]
   \<and> fst (executeAndShowResults (settings ''lite'' Auto) oneNote selectNotes connectedLite) = Inr ()
   \<and> trace (snd (executeAndShowResults (settings ''lite'' Auto) oneNote selectNotes connectedLite))
       = [NewDatabase 0, AllCall 0 selectNotes,
          ExecuteCommand ''sql-runner.setActiveConnection'' [''lite'', ''Notes''],
          OutputClear, OutputShow,
          OutputTable [[JStr ''id'', JStr ''note''], [JNum (SafeInteger False 1), JStr ''milk'']],
          OutputAppendLine ''(1 row)'', ShowInformationMessage ''Query returned 1 row.'']
   \<and> sqliteAnswer tabbedNote = Inr [[(''note'', JStr [CHR ''a'', CHR 0x09, CHR ''b''])]]
   \<and> \<not> printable (JStr [CHR ''a'', CHR 0x09, CHR ''b''])
   \<and> lastQueryResult (snd (executeAndShowResults (settings ''lite'' Off) tabbedNote selectNotes
                              connectedLite))
       = Some \<lparr>result_rows = [[(''note'', JStr [CHR ''a'', CHR 0x09, CHR ''b''])]],
                result_fields = [\<lparr>name = ''note'', ftype = None, dataTypeID = None\<rparr>]\<rparr>
   \<and> fst (report (settings ''lite'' Off) sqliteProfile (liteIdle\<lparr>inTransaction := True\<rparr>)
             (RawSqlite [[(''note'', JStr [CHR ''a'', CHR 0x09, CHR ''b''])]])
             (emit [AllCall 0 selectNotes]
                (snd (applyPolicy (settings ''lite'' Off) tabbedNote selectNotes sqliteProfile
                        liteIdle connectedLite))))
       = Inl (Error ''Table data must not contain control characters.'')
   \<and> fst (executeAndShowResults (settings ''lite'' Off) tabbedNote selectNotes connectedLite) = Inr ()
   \<and> activeConnections (snd (executeAndShowResults (settings ''lite'' Off) tabbedNote selectNotes
                                connectedLite)) ''lite'' = Some liteIdle
   \<and> trace (snd (executeAndShowResults (settings ''lite'' Off) tabbedNote selectNotes connectedLite))
       = [NewDatabase 0, RunCall 0 ''BEGIN TRANSACTION'', AllCall 0 selectNotes,
          ExecuteCommand ''sql-runner.setActiveConnection'' [''lite'', ''Notes''],
          OutputClear, OutputShow, RunCall 0 ''ROLLBACK'',
          ShowErrorMessage (''Query failed and transaction was rolled back: ''
                              @ ''Table data must not contain control characters.'')]
   \<and> rowsAndFields (RawMysql (MysqlOther JUndefined))
       = Inr (Summary ''Query OK, undefined rows affected.'')
   \<and> rowsAndFields (RawPg (PgOne \<lparr>command = ''UPDATE'', pg_rows = Some [], pg_fields = Some [],
                                    rowCount = JNum (SafeInteger False 1)\<rparr>))
       = Inr (Summary ''UPDATE 1'')
   \<and> lastQueryResult (snd (report (settings ''my'' Auto) mysqlProfile
                              (liteIdle\<lparr>dbType := mysql\<rparr>) (RawMysql (MysqlOther JUndefined))
                              initial)) = None
   \<and> trace (snd (report (settings ''my'' Auto) mysqlProfile
                    (liteIdle\<lparr>dbType := mysql\<rparr>) (RawMysql (MysqlOther JUndefined)) initial))
       = [ExecuteCommand ''sql-runner.setActiveConnection'' [''my'', ''Shop''],
          OutputClear, OutputShow, OutputAppendLine ''Query OK, undefined rows affected.'',
          ShowInformationMessage ''Query OK, undefined rows affected.'']"
proof -
  define begun where "begun = liteIdle\<lparr>inTransaction := True\<rparr>"
  define tab where "tab = [CHR ''a'', CHR 0x09, CHR ''b'']"
  define update where "update = \<lparr>command = ''UPDATE'', pg_rows = Some [], pg_fields = Some [],
                      rowCount = JNum (SafeInteger False 1)\<rparr>"
  define w2 where "w2 = (\<lambda>d q. snd (applyPolicy (settings ''lite'' Off) d q sqliteProfile
                               liteIdle connectedLite))"
  have entry: "activeConnections connectedLite ''lite'' = Some liteIdle"
    by (simp add: model_defs input_defs connectedLite_def liteIdle_def)
  have live: "getDbClient (settings ''lite'' p) d connectedLite = (Inr liteIdle, connectedLite)" for p d
    using entry
    by (simp add: getDbClient_def getConnectionState_def settings_def pgProfile_def
        mysqlProfile_def sqliteProfile_def)
  have cfgs: "activeConnection (settings ''lite'' p) = Some ''lite''"
    "find (\<lambda>c. Some (conn_id c) = activeConnection (settings ''lite'' p))
       (connections (settings ''lite'' p)) = Some sqliteProfile"
    "conn_dbType sqliteProfile = sqlite" "conn_name sqliteProfile = ''Notes''"
    "conn_id sqliteProfile = ''lite''" "autoCommit (settings ''lite'' p) = p" for p
    by (simp_all add: settings_def pgProfile_def mysqlProfile_def sqliteProfile_def)
  have drv: "driverOf liteIdle = sqlite" "driverOf pgIdle \<noteq> sqlite" "mainClient liteIdle = 0"
    "\<not> inTransaction liteIdle" "conn_dbType mysqlProfile \<noteq> sqlite" "conn_dbType mysqlProfile = mysql"
    by (simp_all add: driverOf_def liteIdle_def pgIdle_def mysqlProfile_def)
  have answers: "sqliteAnswer allOk = Inr []"
    "sqliteAnswer oneNote = Inr [[(''id'', JNum (SafeInteger False 1)), (''note'', JStr ''milk'')]]"
    "sqliteAnswer tabbedNote = Inr [[(''note'', JStr tab)]]"
    "beginResult allOk = None" "beginResult tabbedNote = None" "rollbackResult tabbedNote = None"
    by (simp_all add: allOk_def oneNote_def tabbedNote_def tab_def)
  have "fst (applyPolicy (settings ''lite'' Off) d q sqliteProfile liteIdle connectedLite)
       = Inr (Some begun)" if "beginResult d = None" for d q
    using entry that
    by (simp add: applyPolicy_def beginTransaction_def getConnectionState_def cfgs
        liteIdle_def begun_def Let_def)
  then have polOff: "applyPolicy (settings ''lite'' Off) d q sqliteProfile liteIdle connectedLite
       = (Inr (Some begun), w2 d q)" if "beginResult d = None" for d q
    using that by (simp add: prod_eq_iff w2_def)
  have polAuto: "applyPolicy (settings ''lite'' Auto) d q sqliteProfile liteIdle connectedLite
       = (Inr (Some liteIdle), connectedLite)" for d q
    by (simp add: applyPolicy_def cfgs)
  have tr0: "trace connectedLite = [NewDatabase 0]"
    by (simp add: connectedLite_def connect_def initial_def sqliteProfile_def allOk_def Let_def)
  have tr2: "trace (w2 d q) = [NewDatabase 0, RunCall 0 ''BEGIN TRANSACTION'']"
    if "beginResult d = None" for d q
    using entry that tr0
    by (simp add: w2_def applyPolicy_def beginTransaction_def getConnectionState_def cfgs
        liteIdle_def Let_def)
  have texts: "showNat 1 = ''1''" "plural 1 = []" "showNat (Suc 0) = ''1''"
    by (code_simp, simp add: plural_def, code_simp)
  have pr: "printable (JStr ''id'')" "printable (JStr ''note'')" "printable (JStr ''milk'')"
    "printable (JNum (SafeInteger False 1))" "\<not> printable (JStr tab)"
    by (simp_all add: printable_def toStr_def isControlCharacter_def texts tab_def)
  have cells: "cell [(''id'', JNum (SafeInteger False 1)), (''note'', JStr ''milk'')] ''id''
        = JNum (SafeInteger False 1)"
    "cell [(''id'', JNum (SafeInteger False 1)), (''note'', JStr ''milk'')] ''note'' = JStr ''milk''"
    "cell [(''note'', JStr tab)] ''note'' = JStr tab"
    by (simp_all add: cell_def getProp_def)
  have pg: "command update \<noteq> ''SELECT''" "command update = ''UPDATE''"
    "rowCount update = JNum (SafeInteger False 1)"
    by (simp_all add: update_def)
  note a = sqlite_rows_api [where prof = sqliteProfile and st = liteIdle and client = 0
      and q = deleteNotes and d = allOk and w = connectedLite
      and cfg = "settings ''lite'' Off" and ?d1.0 = allOk and ?w1.0 = connectedLite
      and ?st1.0 = liteIdle and aid = "''lite''" and ?prof1.0 = sqliteProfile
      and ?q1.0 = deleteNotes and ?st2.0 = begun and ?w2.0 = "w2 allOk deleteNotes"
      and ?rows1.0 = "[]" and affected = JUndefined and pg = update
      and result = "RawMysql (MysqlOther JUndefined)"
      and msg = "''Query OK, undefined rows affected.''"
      and ?cfg2.0 = "settings ''my'' Auto" and ?prof2.0 = mysqlProfile
      and ?st3.0 = "liteIdle\<lparr>dbType := mysql\<rparr>" and ?w4.0 = initial]
  note b = sqlite_rows_api [where prof = sqliteProfile and st = pgIdle and client = 0
      and q = deleteNotes and d = allOk and w = connectedPg
      and cfg = "settings ''lite'' Auto" and ?d1.0 = oneNote and ?w1.0 = connectedLite
      and ?st1.0 = liteIdle and aid = "''lite''" and ?prof1.0 = sqliteProfile
      and ?q1.0 = selectNotes and ?st2.0 = liteIdle and ?w2.0 = connectedLite
      and ?rows1.0 = "[[(''id'', JNum (SafeInteger False 1)), (''note'', JStr ''milk'')]]"
      and ?r1.0 = "[(''id'', JNum (SafeInteger False 1)), (''note'', JStr ''milk'')]"
      and rest = "[]"]
  note c = sqlite_rows_api [where prof = mysqlProfile and st = liteIdle and client = 0
      and q = deleteNotes and d = allOk and w = connectedLite
      and cfg = "settings ''lite'' Off" and ?d1.0 = tabbedNote and ?w1.0 = connectedLite
      and ?st1.0 = liteIdle and aid = "''lite''" and ?prof1.0 = sqliteProfile
      and ?q1.0 = selectNotes and ?st2.0 = begun and ?w2.0 = "w2 tabbedNote selectNotes"
      and ?rows1.0 = "[[(''note'', JStr tab)]]"
      and ?r1.0 = "[(''note'', JStr tab)]" and rest = "[]"]
  have d1: "dispatch sqlite liteIdle 0 deleteNotes allOk connectedLite
       = (Inr (RawSqlite []), emit [AllCall 0 deleteNotes] connectedLite)"
    using a cfgs(3) drv(1) answers(1) by simp
  have d2: "dispatch sqlite pgIdle 0 deleteNotes allOk connectedPg
       = (Inl (notAFunction ''all''), connectedPg)"
    using b cfgs(3) drv(2) by simp
  have d3: "dispatch mysql liteIdle 0 deleteNotes allOk connectedLite
       = (Inl (notAFunction ''query''), connectedLite)"
    using c drv by simp
  have hA: "getDbClient (settings ''lite'' Off) allOk connectedLite = (Inr liteIdle, connectedLite)
        \<and> activeConnection (settings ''lite'' Off) = Some ''lite''
        \<and> find (\<lambda>c. Some (conn_id c) = activeConnection (settings ''lite'' Off))
            (connections (settings ''lite'' Off)) = Some sqliteProfile
        \<and> conn_dbType sqliteProfile = sqlite \<and> driverOf liteIdle = sqlite
        \<and> applyPolicy (settings ''lite'' Off) allOk deleteNotes sqliteProfile liteIdle connectedLite
            = (Inr (Some begun), w2 allOk deleteNotes)
        \<and> sqliteAnswer allOk = Inr []"
    using live cfgs drv(1) polOff [OF answers(4)] answers(1) by simp
  have e1: "fst (executeAndShowResults (settings ''lite'' Off) allOk deleteNotes connectedLite) = Inr ()"
    and e2: "lastQueryResult (snd (executeAndShowResults (settings ''lite'' Off) allOk deleteNotes
                                     connectedLite))
       = Some \<lparr>result_rows = [], result_fields = []\<rparr>"
    and e3: "trace (snd (executeAndShowResults (settings ''lite'' Off) allOk deleteNotes connectedLite))
       = [NewDatabase 0, RunCall 0 ''BEGIN TRANSACTION'', AllCall 0 deleteNotes,
          ExecuteCommand ''sql-runner.setActiveConnection'' [''lite'', ''Notes''],
          OutputClear, OutputShow,
          OutputAppendLine ''Query executed successfully, but no columns were returned.'',
          ShowInformationMessage ''Query executed successfully.'']"
    using a [THEN conjunct2, THEN conjunct2, THEN conjunct2, THEN conjunct2, THEN conjunct1,
        THEN mp, OF hA, THEN conjunct2]
      tr2 [OF answers(4)] cfgs(4) drv(3) by simp_all
  have hB: "getDbClient (settings ''lite'' Auto) oneNote connectedLite = (Inr liteIdle, connectedLite)
        \<and> activeConnection (settings ''lite'' Auto) = Some ''lite''
        \<and> find (\<lambda>c. Some (conn_id c) = activeConnection (settings ''lite'' Auto))
            (connections (settings ''lite'' Auto)) = Some sqliteProfile
        \<and> conn_dbType sqliteProfile = sqlite \<and> driverOf liteIdle = sqlite
        \<and> applyPolicy (settings ''lite'' Auto) oneNote selectNotes sqliteProfile liteIdle connectedLite
            = (Inr (Some liteIdle), connectedLite)
        \<and> sqliteAnswer oneNote
            = Inr [[(''id'', JNum (SafeInteger False 1)), (''note'', JStr ''milk'')]]"
    using live cfgs drv(1) polAuto answers(2) by simp
  have f1: "fst (executeAndShowResults (settings ''lite'' Auto) oneNote selectNotes connectedLite) = Inr ()"
    and f2: "trace (snd (executeAndShowResults (settings ''lite'' Auto) oneNote selectNotes connectedLite))
       = [NewDatabase 0, AllCall 0 selectNotes,
          ExecuteCommand ''sql-runner.setActiveConnection'' [''lite'', ''Notes''],
          OutputClear, OutputShow,
          OutputTable [[JStr ''id'', JStr ''note''], [JNum (SafeInteger False 1), JStr ''milk'']],
          OutputAppendLine ''(1 row)'', ShowInformationMessage ''Query returned 1 row.'']"
    using b [THEN conjunct2, THEN conjunct2, THEN conjunct2, THEN conjunct2, THEN conjunct1,
        THEN mp, OF hB, THEN conjunct2]
      tr0 cfgs(4) drv(3) pr cells texts by simp_all
  have hC: "getDbClient (settings ''lite'' Off) tabbedNote connectedLite = (Inr liteIdle, connectedLite)
        \<and> activeConnection (settings ''lite'' Off) = Some ''lite''
        \<and> find (\<lambda>c. Some (conn_id c) = activeConnection (settings ''lite'' Off))
            (connections (settings ''lite'' Off)) = Some sqliteProfile
        \<and> conn_dbType sqliteProfile = sqlite \<and> driverOf liteIdle = sqlite
        \<and> applyPolicy (settings ''lite'' Off) tabbedNote selectNotes sqliteProfile liteIdle connectedLite
            = (Inr (Some begun), w2 tabbedNote selectNotes)
        \<and> sqliteAnswer tabbedNote = Inr [[(''note'', JStr tab)]]"
    using live cfgs drv(1) polOff [OF answers(5)] answers(3) by simp
  have g1: "lastQueryResult (snd (executeAndShowResults (settings ''lite'' Off) tabbedNote selectNotes
                              connectedLite))
       = Some \<lparr>result_rows = [[(''note'', JStr tab)]],
                result_fields = [\<lparr>name = ''note'', ftype = None, dataTypeID = None\<rparr>]\<rparr>"
    and g2: "fst (report (settings ''lite'' Off) sqliteProfile begun (RawSqlite [[(''note'', JStr tab)]])
             (emit [AllCall 0 selectNotes] (w2 tabbedNote selectNotes)))
       = Inl (Error ''Table data must not contain control characters.'')"
    using c [THEN conjunct2, THEN conjunct2, THEN conjunct2, THEN conjunct2, THEN conjunct1,
        THEN mp, OF hC, THEN conjunct2]
      drv(3) pr cells by simp_all
  have g3: "fst (executeAndShowResults (settings ''lite'' Off) tabbedNote selectNotes connectedLite) = Inr ()"
    and g4: "activeConnections (snd (executeAndShowResults (settings ''lite'' Off) tabbedNote selectNotes
                                connectedLite)) ''lite'' = Some liteIdle"
    and g5: "trace (snd (executeAndShowResults (settings ''lite'' Off) tabbedNote selectNotes connectedLite))
       = [NewDatabase 0, RunCall 0 ''BEGIN TRANSACTION'', AllCall 0 selectNotes,
          ExecuteCommand ''sql-runner.setActiveConnection'' [''lite'', ''Notes''],
          OutputClear, OutputShow, RunCall 0 ''ROLLBACK'',
          ShowErrorMessage (''Query failed and transaction was rolled back: ''
                              @ ''Table data must not contain control characters.'')]"
    by (simp_all add: model_defs input_defs connectedLite_def liteIdle_def tabbedNote_def
        selectNotes_def header_def cell_def getProp_def)
  have s1: "rowsAndFields (RawMysql (MysqlOther JUndefined))
       = Inr (Summary ''Query OK, undefined rows affected.'')"
    using a by (simp add: toStr_def)
  have s2: "rowsAndFields (RawPg (PgOne update)) = Inr (Summary ''UPDATE 1'')"
    using a pg texts by (simp add: toStr_def)
  have s3: "lastQueryResult (snd (report (settings ''my'' Auto) mysqlProfile
                              (liteIdle\<lparr>dbType := mysql\<rparr>) (RawMysql (MysqlOther JUndefined))
                              initial)) = None"
    and s4: "trace (snd (report (settings ''my'' Auto) mysqlProfile
                    (liteIdle\<lparr>dbType := mysql\<rparr>) (RawMysql (MysqlOther JUndefined)) initial))
       = [ExecuteCommand ''sql-runner.setActiveConnection'' [''my'', ''Shop''],
          OutputClear, OutputShow, OutputAppendLine ''Query OK, undefined rows affected.'',
          ShowInformationMessage ''Query OK, undefined rows affected.'']"
    using a s1 by (simp_all add: initial_def mysqlProfile_def)
  have p1: "fst (applyPolicy (settings ''lite'' Off) allOk deleteNotes sqliteProfile liteIdle connectedLite)
       = Inr (Some begun)"
    using polOff [OF answers(4)] by simp
  show ?thesis
    using live [of Off allOk] cfgs(3) drv(1,2) d1 d2 d3 p1 answers(1,2,3) e1 e2 e3 f1 f2
      pr(5) g1 g2 g3 g4 g5 s1 s2 s3 s4
    unfolding begun_def tab_def update_def w2_def
    by blast
qed


end
